theory Spec2Isabelle
  imports Complex_Main "HOL-Library.Sublist" "HOL-Library.Word"
begin

section \<open>Conventions of the embedding\<close>

text \<open>
  The program is TypeScript. Strings are \<open>string\<close>; JavaScript numbers are \<open>int\<close> where the
  program only ever holds integers in them (track ids, colour channels) and \<open>real\<close>
  elsewhere. The arithmetic of the card renderer (\<open>svg/text.ts\<close>, \<open>svg/waves.ts\<close>,
  \<open>svg/icons.ts\<close>, \<open>svg/index.ts\<close>) rounds every operation to a double, as the section on
  double-precision arithmetic sets out; the colour blend of \<open>svg/colors.ts\<close> and the
  difference of two timestamps are computed exactly.
  \<open>null\<close> and \<open>undefined\<close> are \<open>None\<close>. Module-level \<open>let\<close> variables become a state record
  that every operation takes and returns; the answers of the outside world (HTTP fetches,
  the clock, the file system, \<open>JSON.parse\<close>) are explicit arguments.
\<close>

text \<open>\<open>a || b\<close> on strings: the empty string is falsy.\<close>

definition orElse :: "string \<Rightarrow> string \<Rightarrow> string" where
  "orElse a b = (if a = [] then b else a)"

text \<open>\<open>String.prototype.trim\<close> on the ASCII white space and line terminators.\<close>

definition isSpace :: "char \<Rightarrow> bool" where
  "isSpace c = (c = CHR '' '' \<or> c = CHR 0x09 \<or> c = CHR 0x0A \<or> c = CHR 0x0B
                \<or> c = CHR 0x0C \<or> c = CHR 0x0D)"

definition trim :: "string \<Rightarrow> string" where
  "trim s = rev (dropWhile isSpace (rev (dropWhile isSpace s)))"

section \<open>Double-precision arithmetic\<close>

text \<open>
  \<open>toDouble\<close> rounds a real number to the nearest number with a 53-bit significand, a tie
  going to the even significand: \<open>e\<close> is the exponent of the binade that holds \<open>x\<close> and \<open>u\<close> the
  distance between neighbouring doubles there. The exponent is not bounded, so overflow to
  \<open>Infinity\<close> and gradual underflow are left out. An arithmetic operation of the source is
  the exact operation followed by \<open>toDouble\<close>, and a decimal literal that is not a double
  itself, such as \<open>0.55\<close>, is \<open>toDouble\<close> of its value.
\<close>

definition roundHalfEven :: "real \<Rightarrow> int" where
  "roundHalfEven y =
     (let f = \<lfloor>y\<rfloor>
      in if y - of_int f < 1 / 2 then f
         else if y - of_int f > 1 / 2 then f + 1
         else if even f then f else f + 1)"

definition toDouble :: "real \<Rightarrow> real" where
  "toDouble x =
     (if x = 0 then 0
      else let e = \<lfloor>log 2 \<bar>x\<bar>\<rfloor>;
               u = 2 powr (of_int e - 52)
           in of_int (roundHalfEven (x / u)) * u)"

definition fadd :: "real \<Rightarrow> real \<Rightarrow> real" where
  "fadd a b = toDouble (a + b)"

definition fsub :: "real \<Rightarrow> real \<Rightarrow> real" where
  "fsub a b = toDouble (a - b)"

definition fmul :: "real \<Rightarrow> real \<Rightarrow> real" where
  "fmul a b = toDouble (a * b)"

definition fdiv :: "real \<Rightarrow> real \<Rightarrow> real" where
  "fdiv a b = toDouble (a / b)"

section \<open>Shared types (types.ts)\<close>

record TauonTrack =
  tr_title :: string
  tr_artist :: string
  tr_album :: string
  tr_album_artist :: string
  tr_duration :: real
  tr_track_number :: string

text \<open>The fields of \<open>TauonStatus\<close> that the poller reads; \<open>track\<close> is read with \<open>?.\<close>.\<close>

record TauonStatus =
  ts_status :: string
  ts_id :: int
  ts_title :: string
  ts_artist :: string
  ts_album :: string
  ts_progress :: real
  ts_track :: "TauonTrack option"

record ColorPalette =
  dominant :: string
  accent :: string
  highlight :: string

record NowPlayingData =
  title :: string
  artist :: string
  album :: string
  albumArtist :: string
  trackNumber :: string
  duration :: real
  progress :: real
  status :: string
  artBase64 :: "string option"
  colors :: "ColorPalette option"
  updatedAt :: real

section \<open>Update admission filter (poller/state.ts)\<close>

definition shouldUpdate ::
  "TauonStatus \<Rightarrow> int option \<Rightarrow> string option \<Rightarrow> string option \<Rightarrow> bool" where
  "shouldUpdate st lastSentTrackId lastSentStatus lastSeenStatus =
     (let trackId = ts_id st;
          statusStr = ts_status st;
          isPlayableStatus = (statusStr = ''playing'' \<or> statusStr = ''paused'')
      in if \<not> isPlayableStatus then False
         else if Some trackId \<noteq> lastSentTrackId then True
         else if Some statusStr \<noteq> lastSentStatus then True
         else if lastSeenStatus = Some ''stopped'' then True
         else False)"

section \<open>Poller (poller/index.ts)\<close>

record ArtResult =
  base64 :: string
  art_colors :: ColorPalette

text \<open>The module-level variables of the poller.\<close>

record PollerState =
  lastSentTrackId :: "int option"
  lastSentStatus :: "string option"
  lastSeenStatus :: "string option"
  lastAlbumName :: "string option"
  lastArtBase64 :: "string option"
  lastColors :: "ColorPalette option"

definition initialPollerState :: PollerState where
  "initialPollerState =
     \<lparr> lastSentTrackId = None, lastSentStatus = None, lastSeenStatus = None,
       lastAlbumName = None, lastArtBase64 = None, lastColors = None \<rparr>"

text \<open>
  What the outside world answers during one tick: \<open>fetchTauonStatus\<close> (\<open>None\<close> when Tauon
  is unreachable), \<open>fetchAndResizeArt\<close> for a track id, whether \<open>sendToDeploy\<close> succeeded,
  and \<open>Date.now()\<close>.
\<close>

record Tick =
  fetched :: "TauonStatus option"
  fetchArt :: "int \<Rightarrow> ArtResult option"
  delivered :: bool
  clock :: real

text \<open>A non-null, non-empty string is truthy.\<close>

definition truthy :: "string option \<Rightarrow> bool" where
  "truthy v = (case v of None \<Rightarrow> False | Some s \<Rightarrow> s \<noteq> [])"

text \<open>
  The art block of \<open>poll\<close>: the values of \<open>artBase64\<close> and \<open>colors\<close> after it, and the
  updated cache variables.
\<close>

definition resolveArt ::
  "PollerState \<Rightarrow> Tick \<Rightarrow> TauonStatus \<Rightarrow> string option \<times> ColorPalette option \<times> PollerState" where
  "resolveArt st tk s =
     (let albumName = trim (orElse (case ts_track s of None \<Rightarrow> [] | Some t \<Rightarrow> tr_album t)
                                   (orElse (ts_album s) []));
          isPlayableStatus = (ts_status s = ''playing'' \<or> ts_status s = ''paused'');
          hasCachedArt = (albumName \<noteq> [] \<and> Some albumName = lastAlbumName st \<and>
                          truthy (lastArtBase64 st) \<and> lastColors st \<noteq> None)
      in if isPlayableStatus \<and> ts_id s > 0 \<and> albumName \<noteq> [] then
           (if \<not> hasCachedArt then
              (case fetchArt tk (ts_id s) of
                 Some artResult \<Rightarrow>
                   (Some (base64 artResult), Some (art_colors artResult),
                    st\<lparr> lastAlbumName := Some albumName,
                        lastArtBase64 := Some (base64 artResult),
                        lastColors := Some (art_colors artResult) \<rparr>)
               | None \<Rightarrow> (None, None, st))
            else (lastArtBase64 st, lastColors st, st))
         else (None, None, st))"

definition assemble :: "TauonStatus \<Rightarrow> string option \<Rightarrow> ColorPalette option \<Rightarrow> real \<Rightarrow> NowPlayingData" where
  "assemble s art cols now =
     (let trk = ts_track s;
          opt = (\<lambda>f. case trk of None \<Rightarrow> [] | Some t \<Rightarrow> f t)
      in \<lparr> title = orElse (ts_title s) (orElse (opt tr_title) ''Unknown Title''),
           artist = orElse (ts_artist s) (orElse (opt tr_artist) ''Unknown Artist''),
           album = orElse (ts_album s) (orElse (opt tr_album) ''Unknown Album''),
           albumArtist = orElse (opt tr_album_artist) (orElse (ts_artist s) ''Unknown Artist''),
           trackNumber = orElse (opt tr_track_number) [],
           duration = (case trk of None \<Rightarrow> 0 | Some t \<Rightarrow> tr_duration t),
           progress = ts_progress s,
           status = ts_status s,
           artBase64 = art,
           colors = cols,
           updatedAt = now \<rparr>)"

text \<open>
  One call of \<open>poll\<close>: the new module state and the snapshot handed to \<open>sendToDeploy\<close>,
  if the tick got that far.
\<close>

definition poll :: "PollerState \<Rightarrow> Tick \<Rightarrow> PollerState \<times> NowPlayingData option" where
  "poll st tk =
     (case fetched tk of
        None \<Rightarrow> (st, None)
      | Some s \<Rightarrow>
          if ts_status s \<noteq> ''playing'' \<and> ts_status s \<noteq> ''paused'' then
            (st\<lparr> lastSeenStatus := Some (ts_status s) \<rparr>, None)
          else if \<not> shouldUpdate s (lastSentTrackId st) (lastSentStatus st) (lastSeenStatus st) then
            (st\<lparr> lastSeenStatus := Some (ts_status s) \<rparr>, None)
          else
            (case resolveArt st tk s of
               (art, cols, st1) \<Rightarrow>
                 let nowPlayingData = assemble s art cols (clock tk);
                     success = delivered tk
                 in (if success then
                       st1\<lparr> lastSentTrackId := Some (ts_id s),
                            lastSentStatus := Some (ts_status s),
                            lastSeenStatus := Some (ts_status s) \<rparr>
                     else st1,
                     Some nowPlayingData)))"

text \<open>The timer loop: successive ticks, each seeing the state the previous one left.\<close>

fun pollAll :: "PollerState \<Rightarrow> Tick list \<Rightarrow> NowPlayingData option list" where
  "pollAll st [] = []"
| "pollAll st (tk # tks) = (case poll st tk of (st', out) \<Rightarrow> out # pollAll st' tks)"

text \<open>A tick that observes track \<open>t\<close> in status \<open>s\<close> and whose publish, if any, succeeds.\<close>

definition observe :: "TauonStatus \<Rightarrow> (int \<Rightarrow> ArtResult option) \<Rightarrow> real \<Rightarrow> int \<Rightarrow> string \<Rightarrow> Tick" where
  "observe b f now t s =
     \<lparr> fetched = Some (b\<lparr> ts_id := t, ts_status := s \<rparr>), fetchArt = f,
       delivered = True, clock = now \<rparr>"

definition published :: "NowPlayingData option \<Rightarrow> bool" where
  "published out = (out \<noteq> None)"

section \<open>Colour math (svg/colors.ts)\<close>

text \<open>
  \<open>parseInt(s, 16)\<close>: leading white space is skipped, then an optional sign, then an optional
  \<open>0x\<close> or \<open>0X\<close>, then the longest run of hexadecimal digits of either case; with no digit
  the result is \<open>NaN\<close>, here \<open>None\<close>.
\<close>

definition digitValue :: "char \<Rightarrow> nat option" where
  "digitValue c =
     (let n = (of_char c :: nat)
      in if 48 \<le> n \<and> n \<le> 57 then Some (n - 48)
         else if 97 \<le> n \<and> n \<le> 102 then Some (n - 87)
         else if 65 \<le> n \<and> n \<le> 70 then Some (n - 55)
         else None)"

fun hexPrefix :: "string \<Rightarrow> nat list" where
  "hexPrefix [] = []"
| "hexPrefix (c # cs) = (case digitValue c of None \<Rightarrow> [] | Some v \<Rightarrow> v # hexPrefix cs)"

definition parseInt16 :: "string \<Rightarrow> int option" where
  "parseInt16 s =
     (let t = dropWhile isSpace s;
          neg = (case t of [] \<Rightarrow> False | c # _ \<Rightarrow> c = CHR ''-'');
          u = (case t of [] \<Rightarrow> t | c # r \<Rightarrow> if c = CHR ''+'' \<or> c = CHR ''-'' then r else t);
          w = (if take 2 u = ''0x'' \<or> take 2 u = ''0X'' then drop 2 u else u);
          ds = hexPrefix w
      in if ds = [] then None
         else Some ((if neg then - 1 else 1) * int (foldl (\<lambda>a d. 16 * a + d) 0 ds)))"

text \<open>\<open>slice(i, j)\<close> with \<open>0 \<le> i \<le> j\<close>.\<close>

definition slice :: "nat \<Rightarrow> nat \<Rightarrow> string \<Rightarrow> string" where
  "slice i j s = take (j - i) (drop i s)"

record Rgb =
  rgb_r :: "int option"
  rgb_g :: "int option"
  rgb_b :: "int option"

text \<open>\<open>hex.replace("#", "")\<close> removes the first \<open>#\<close>, wherever it stands.\<close>

definition hexToRgb :: "string \<Rightarrow> Rgb" where
  "hexToRgb hex =
     (let normalized = remove1 (CHR ''#'') hex
      in \<lparr> rgb_r = parseInt16 (slice 0 2 normalized),
           rgb_g = parseInt16 (slice 2 4 normalized),
           rgb_b = parseInt16 (slice 4 6 normalized) \<rparr>)"

text \<open>\<open>Number.prototype.toString(16)\<close> on an integer, and on \<open>NaN\<close>.\<close>

definition hexDigit :: "nat \<Rightarrow> char" where
  "hexDigit n = ''0123456789abcdef'' ! n"

fun toString16 :: "nat \<Rightarrow> string" where
  "toString16 n = (if n < 16 then [hexDigit n] else toString16 (n div 16) @ [hexDigit (n mod 16)])"

declare toString16.simps [simp del]

definition numberToString16 :: "int option \<Rightarrow> string" where
  "numberToString16 v =
     (case v of
        None \<Rightarrow> ''NaN''
      | Some n \<Rightarrow> if n < 0 then CHR ''-'' # toString16 (nat (- n)) else toString16 (nat n))"

definition padStart :: "nat \<Rightarrow> char \<Rightarrow> string \<Rightarrow> string" where
  "padStart n c s = replicate (n - length s) c @ s"

definition rgbToHex :: "int option \<Rightarrow> int option \<Rightarrow> int option \<Rightarrow> string" where
  "rgbToHex r g b =
     CHR ''#'' # padStart 2 (CHR ''0'') (numberToString16 r)
       @ padStart 2 (CHR ''0'') (numberToString16 g)
       @ padStart 2 (CHR ''0'') (numberToString16 b)"

text \<open>\<open>Math.round\<close> rounds halves towards plus infinity.\<close>

definition jsRound :: "real \<Rightarrow> int" where
  "jsRound x = \<lfloor>x + 1 / 2\<rfloor>"

definition clamp :: "int \<Rightarrow> int" where
  "clamp v = max 0 (min 255 v)"

text \<open>One channel of the blend; a \<open>NaN\<close> channel stays \<open>NaN\<close> through every step.\<close>

definition mixChannel :: "int option \<Rightarrow> int option \<Rightarrow> real \<Rightarrow> int option" where
  "mixChannel a b ratio =
     (case a of
        None \<Rightarrow> None
      | Some x \<Rightarrow>
          (case b of
             None \<Rightarrow> None
           | Some y \<Rightarrow> Some (clamp (jsRound (of_int x * (1 - ratio) + of_int y * ratio)))))"

definition mixColors :: "string \<Rightarrow> string \<Rightarrow> real \<Rightarrow> string" where
  "mixColors hexA hexB ratio =
     (let a = hexToRgb hexA;
          b = hexToRgb hexB;
          r = mixChannel (rgb_r a) (rgb_r b) ratio;
          g = mixChannel (rgb_g a) (rgb_g b) ratio;
          bVal = mixChannel (rgb_b a) (rgb_b b) ratio
      in rgbToHex r g bVal)"

text \<open>
  A valid colour string: \<open>#\<close> and six hexadecimal digits of either case. \<open>toLowerCase\<close> on
  ASCII.
\<close>

definition isHexDigit :: "char \<Rightarrow> bool" where
  "isHexDigit c = (c \<in> set ''0123456789abcdefABCDEF'')"

definition validHex :: "string \<Rightarrow> bool" where
  "validHex s = (length s = 7 \<and> hd s = CHR ''#'' \<and> list_all isHexDigit (tl s))"

definition toLowerChar :: "char \<Rightarrow> char" where
  "toLowerChar c =
     (case map_of (zip ''ABCDEFGHIJKLMNOPQRSTUVWXYZ'' ''abcdefghijklmnopqrstuvwxyz'') c of
        None \<Rightarrow> c
      | Some l \<Rightarrow> l)"

definition toLowerCase :: "string \<Rightarrow> string" where
  "toLowerCase s = map toLowerChar s"

text \<open>What the proofs need of one hexadecimal digit, checked on all twenty-two of them.\<close>

definition hexOk :: "char \<Rightarrow> bool" where
  "hexOk c =
     ((case digitValue c of None \<Rightarrow> False | Some v \<Rightarrow> v < 16 \<and> hexDigit v = toLowerChar c) \<and>
      digitValue (toLowerChar c) = digitValue c \<and> isHexDigit (toLowerChar c) \<and>
      \<not> isSpace c \<and> c \<noteq> CHR ''+'' \<and> c \<noteq> CHR ''-'' \<and> c \<noteq> CHR ''x'' \<and> c \<noteq> CHR ''X'' \<and>
      c \<noteq> CHR ''#'')"

section \<open>Text layout helpers (svg/text.ts)\<close>

definition sq :: string where
  "sq = [CHR 0x27]"

definition replaceAll :: "char \<Rightarrow> string \<Rightarrow> string \<Rightarrow> string" where
  "replaceAll c rep s = concat (map (\<lambda>x. if x = c then rep else [x]) s)"

definition escapeXml :: "string \<Rightarrow> string" where
  "escapeXml text =
     replaceAll (CHR 0x27) ''&apos;''
       (replaceAll (CHR 0x22) ''&quot;''
         (replaceAll (CHR ''>'') ''&gt;''
           (replaceAll (CHR ''<'') ''&lt;''
             (replaceAll (CHR ''&'') ''&amp;'' text))))"

text \<open>\<open>substring(0, n)\<close> takes nothing when \<open>n\<close> is negative.\<close>

definition truncateText :: "string \<Rightarrow> int \<Rightarrow> string" where
  "truncateText text maxLength =
     (if int (length text) \<le> maxLength then text
      else take (nat (maxLength - 3)) text @ ''...'')"

definition estimateTextWidth :: "string \<Rightarrow> real \<Rightarrow> real" where
  "estimateTextWidth text fontSize = fmul (real (length text)) (fmul fontSize (toDouble 0.55))"

section \<open>Procedural waveform (svg/waves.ts)\<close>

text \<open>
  Functions that print numbers into markup take \<open>str\<close>, the conversion of a number to a
  string that a template literal applies. \<open>Math.sin\<close> is taken to return the double nearest
  to the sine.
\<close>

definition seededRandom :: "real \<Rightarrow> real \<Rightarrow> real" where
  "seededRandom index seed =
     (let v = fmul (toDouble (sin (fadd (fmul index (toDouble 12.9898)) seed)))
                (toDouble 43758.5453)
      in fsub v (of_int \<lfloor>v\<rfloor>))"

text \<open>\<open>((hash << 5) - hash + charCode) | 0\<close> is arithmetic on 32-bit words.\<close>

definition hashStep :: "32 word \<Rightarrow> char \<Rightarrow> 32 word" where
  "hashStep hash c = push_bit 5 hash - hash + of_nat (of_char c)"

definition hashString :: "string \<Rightarrow> int" where
  "hashString input = \<bar>sint (foldl hashStep 0 input)\<bar>"

definition wavePoints :: "real \<Rightarrow> real \<Rightarrow> real \<Rightarrow> real \<Rightarrow> nat \<Rightarrow> real \<Rightarrow> (real \<times> real) list" where
  "wavePoints startX endX baseY height points seed =
     (let step = fdiv (fsub endX startX) (fsub (real points) 1)
      in map (\<lambda>i. let rand = fadd (fmul (seededRandom (real i) seed) 0.75)
                                 (fmul (seededRandom (fadd (real i) 7) seed) 0.25)
                   in (fadd startX (fmul (real i) step), fsub baseY (fmul rand height)))
             [0..<points])"

text \<open>
  The loop over the interior points and the closing segment through the last two points.
  The source is only ever called with 28 points; with fewer than two it reads past the
  array and throws, which this model leaves out.
\<close>

fun waveSegments :: "(real \<Rightarrow> string) \<Rightarrow> (real \<times> real) list \<Rightarrow> string" where
  "waveSegments str (prev # current # rest) =
     (if rest = [] then
        '' Q '' @ str (fst prev) @ '' '' @ str (snd prev) @ '' '' @ str (fst current) @ '' '' @
          str (snd current)
      else
        '' Q '' @ str (fst prev) @ '' '' @ str (snd prev) @ '' '' @
          str (fdiv (fadd (fst prev) (fst current)) 2) @ '' '' @
          str (fdiv (fadd (snd prev) (snd current)) 2) @
          waveSegments str (current # rest))"
| "waveSegments str _ = []"

definition generateWavePath ::
  "(real \<Rightarrow> string) \<Rightarrow> real \<Rightarrow> real \<Rightarrow> real \<Rightarrow> real \<Rightarrow> nat \<Rightarrow> real \<Rightarrow> string" where
  "generateWavePath str startX endX baseY height points seed =
     (let vals = wavePoints startX endX baseY height points seed
      in (case vals of [] \<Rightarrow> [] | v0 # _ \<Rightarrow> ''M '' @ str (fst v0) @ '' '' @ str (snd v0)) @
         waveSegments str vals @
         '' L '' @ str endX @ '' '' @ str baseY @ '' L '' @ str startX @ '' '' @ str baseY @ '' Z'')"

definition generateWaveformLayer ::
  "(real \<Rightarrow> string) \<Rightarrow> string \<Rightarrow> real \<Rightarrow> real \<Rightarrow> real \<Rightarrow> real \<Rightarrow> real \<Rightarrow> real \<Rightarrow> real \<Rightarrow> string" where
  \<open>generateWaveformLayer str color opacity startX endX baseY height seed seconds =
     (let pathA = generateWavePath str startX endX baseY height 28 seed;
          pathB = generateWavePath str startX endX baseY height 28 (fadd seed 2.5)
      in ''<path d="'' @ pathA @ ''" fill="'' @ color @ ''" opacity="'' @ str opacity @
         ''">\<newline>'' @ ''    <animate attributeName="d" values="'' @ pathA @ '';'' @ pathB @
         '';'' @ pathA @ ''" dur="'' @ str seconds @
         ''s" repeatCount="indefinite" />\<newline>'' @ ''  </path>'')\<close>

section \<open>Placeholder glyph (svg/icons.ts)\<close>

definition generateMusicNotePlaceholder ::
  "(real \<Rightarrow> string) \<Rightarrow> real \<Rightarrow> real \<Rightarrow> real \<Rightarrow> string \<Rightarrow> string" where
  \<open>generateMusicNotePlaceholder str albumX albumY albumSize color =
     (let scale = fdiv albumSize 100;
          centerX = fadd albumX (fdiv albumSize 2);
          centerY = fadd albumY (fdiv albumSize 2);
          noteX = fsub centerX (fmul 25 scale);
          noteY = fsub centerY (fmul 30 scale)
      in ''<g transform="translate('' @ str noteX @ '', '' @ str noteY @ '') scale('' @
         str scale @ '')" opacity="0.8">\<newline>'' @
         ''    <!-- Music note (beamed eighth notes) -->\<newline>'' @
         ''    <path d="M20 60 L20 15 L50 5 L50 50 C50 56 45 60 38 60 C30 60 25 56 25 50 C25 43 30 40 38 40 C42 40 45 41 47 43 L47 20 L23 28 L23 60 C23 66 18 70 10 70 C3 70 0 66 0 60 C0 53 5 50 10 50 C14 50 17 51 20 53 Z" fill="'' @
         color @ ''"/>\<newline>'' @ ''  </g>'')\<close>

section \<open>Render configuration (types.ts)\<close>

datatype AlbumPosition = PosLeft | PosRight

datatype TextAlign = AlignLeft | AlignCenter | AlignRight

record SvgConfig =
  width :: real
  height :: real
  cardBackground :: string
  cardBorder :: string
  textPrimary :: string
  textSecondary :: string
  textMuted :: string
  albumSize :: real
  borderRadius :: real
  albumPosition :: AlbumPosition
  textAlign :: TextAlign
  showStatus :: bool
  showTitle :: bool
  showArtist :: bool
  showAlbum :: bool
  fontTitleFamily :: string
  fontBodyFamily :: string
  fontTitleFile :: string
  fontBodyFile :: string
  fontFallback :: string
  fontTitleDataUrl :: "string option"
  fontBodyDataUrl :: "string option"
  fontTitleFormat :: "string option"
  fontBodyFormat :: "string option"

definition defaultSvgConfig :: SvgConfig where
  "defaultSvgConfig =
     \<lparr> width = 800,
       height = 200,
       cardBackground = ''#18181b'',
       cardBorder = ''#27272a'',
       textPrimary = ''#fafafa'',
       textSecondary = ''#cbd5e1'',
       textMuted = ''#94a3b8'',
       albumSize = 150,
       borderRadius = 16,
       albumPosition = PosLeft,
       textAlign = AlignLeft,
       showStatus = True,
       showTitle = True,
       showArtist = True,
       showAlbum = True,
       fontTitleFamily = ''DotGothic16'',
       fontBodyFamily = ''Space Mono'',
       fontTitleFile = ''DotGothic16-Regular.ttf'',
       fontBodyFile = ''SpaceMono-Regular.ttf'',
       fontFallback = sq @ ''Segoe UI'' @ sq @ '', sans-serif'',
       fontTitleDataUrl = None,
       fontBodyDataUrl = None,
       fontTitleFormat = None,
       fontBodyFormat = None \<rparr>"

section \<open>Card renderer: derived values (svg/index.ts)\<close>

text \<open>
  Each constant that \<open>generateNowPlayingSvg\<close> computes before it builds the markup is a
  function of the render time \<open>now\<close> (\<open>Date.now()\<close>), the snapshot and the configuration.
  The locals \<open>highlight\<close>, \<open>fontFallback\<close>, \<open>fontTitleFamily\<close> and \<open>fontBodyFamily\<close> share their
  names with record fields and are called \<open>highlightColor\<close>, \<open>fontFallbackCss\<close>,
  \<open>fontTitleFamilyCss\<close> and \<open>fontBodyFamilyCss\<close> here.
\<close>

definition isStale :: "real \<Rightarrow> NowPlayingData option \<Rightarrow> bool" where
  "isStale now data = (case data of None \<Rightarrow> True | Some d \<Rightarrow> now - updatedAt d > 5 * 60 * 1000)"

definition isPlaying :: "real \<Rightarrow> NowPlayingData option \<Rightarrow> bool" where
  "isPlaying now data =
     (case data of None \<Rightarrow> False | Some d \<Rightarrow> status d = ''playing'' \<and> \<not> isStale now data)"

definition isPaused :: "real \<Rightarrow> NowPlayingData option \<Rightarrow> bool" where
  "isPaused now data =
     (case data of None \<Rightarrow> False | Some d \<Rightarrow> status d = ''paused'' \<and> \<not> isStale now data)"

definition hasTrack :: "real \<Rightarrow> NowPlayingData option \<Rightarrow> bool" where
  "hasTrack now data =
     (data \<noteq> None \<and> (isPlaying now data \<or> isPaused now data \<or> isStale now data))"

text \<open>\<open>data?.colors?.f\<close>, with the empty string for \<open>undefined\<close>.\<close>

definition paletteField :: "(ColorPalette \<Rightarrow> string) \<Rightarrow> NowPlayingData option \<Rightarrow> string" where
  "paletteField f data =
     (case data of
        None \<Rightarrow> []
      | Some d \<Rightarrow> (case colors d of None \<Rightarrow> [] | Some c \<Rightarrow> f c))"

definition dominantColor :: "NowPlayingData option \<Rightarrow> SvgConfig \<Rightarrow> string" where
  "dominantColor data config = orElse (paletteField dominant data) (cardBorder config)"

definition accentColor :: "NowPlayingData option \<Rightarrow> string" where
  "accentColor data = orElse (paletteField accent data) ''#22c55e''"

definition baseDark :: "NowPlayingData option \<Rightarrow> SvgConfig \<Rightarrow> string" where
  "baseDark data config = mixColors (dominantColor data config) ''#050505'' 0.82"

definition midDark :: "NowPlayingData option \<Rightarrow> SvgConfig \<Rightarrow> string" where
  "midDark data config = mixColors (dominantColor data config) ''#0d0f12'' 0.7"

definition highlightColor :: "NowPlayingData option \<Rightarrow> string" where
  "highlightColor data =
     orElse (paletteField highlight data) (mixColors (accentColor data) ''#ffffff'' 0.45)"

definition padding :: real where
  "padding = 26"

definition albumX :: "SvgConfig \<Rightarrow> real" where
  "albumX config =
     (if albumPosition config = PosRight then fsub (fsub (width config) padding) (albumSize config)
      else padding)"

definition albumY :: "SvgConfig \<Rightarrow> real" where
  "albumY config = fdiv (fsub (height config) (albumSize config)) 2"

definition textAreaLeft :: "SvgConfig \<Rightarrow> real" where
  "textAreaLeft config =
     (if albumPosition config = PosRight then padding
      else fadd (fadd (albumX config) (albumSize config)) 22)"

definition textAreaRight :: "SvgConfig \<Rightarrow> real" where
  "textAreaRight config =
     (if albumPosition config = PosRight then fsub (albumX config) 22
      else fsub (width config) padding)"

definition textAreaWidth :: "SvgConfig \<Rightarrow> real" where
  "textAreaWidth config = max 0 (fsub (textAreaRight config) (textAreaLeft config))"

definition textAnchor :: "SvgConfig \<Rightarrow> string" where
  "textAnchor config =
     (if textAlign config = AlignRight then ''end''
      else if textAlign config = AlignCenter then ''middle''
      else ''start'')"

definition textX :: "SvgConfig \<Rightarrow> real" where
  "textX config =
     (if textAlign config = AlignRight then textAreaRight config
      else if textAlign config = AlignCenter then
        fadd (textAreaLeft config) (fdiv (textAreaWidth config) 2)
      else textAreaLeft config)"

definition barsStartX :: real where
  "barsStartX = 2"

definition barsEndX :: "SvgConfig \<Rightarrow> real" where
  "barsEndX config = fsub (width config) 2"

definition waveBaseY :: "SvgConfig \<Rightarrow> real" where
  "waveBaseY config = fsub (height config) 2"

definition waveHeight :: real where
  "waveHeight = 170"

definition titleFontSize :: real where
  "titleFontSize = 24"

definition artistFontSize :: real where
  "artistFontSize = 15"

definition albumFontSize :: real where
  "albumFontSize = 13"

definition titleY :: "SvgConfig \<Rightarrow> real" where
  "titleY config = fadd (albumY config) 40"

definition artistY :: "SvgConfig \<Rightarrow> real" where
  "artistY config = fadd (albumY config) 76"

definition albumYPos :: "SvgConfig \<Rightarrow> real" where
  "albumYPos config = fadd (albumY config) 90"

definition titleClipWidth :: "SvgConfig \<Rightarrow> real" where
  "titleClipWidth config = textAreaWidth config"

definition titleText :: "NowPlayingData option \<Rightarrow> string" where
  "titleText data = orElse (case data of None \<Rightarrow> [] | Some d \<Rightarrow> title d) []"

definition titleSeed :: "NowPlayingData option \<Rightarrow> real" where
  "titleSeed data = of_int (hashString (orElse (titleText data) ''tauon''))"

definition titleTextWidth :: "NowPlayingData option \<Rightarrow> real" where
  "titleTextWidth data = estimateTextWidth (titleText data) titleFontSize"

definition titleGap :: real where
  "titleGap = 36"

definition titleScrollDistance :: "NowPlayingData option \<Rightarrow> SvgConfig \<Rightarrow> real" where
  "titleScrollDistance data config =
     max (fadd (titleTextWidth data) titleGap) (fadd (titleClipWidth config) titleGap)"

definition titleScrollNeeded :: "NowPlayingData option \<Rightarrow> SvgConfig \<Rightarrow> bool" where
  "titleScrollNeeded data config =
     (textAlign config \<noteq> AlignCenter \<and> titleClipWidth config > 0 \<and>
      estimateTextWidth (titleText data) titleFontSize > titleClipWidth config)"

definition titleMaxChars :: "SvgConfig \<Rightarrow> int" where
  "titleMaxChars config =
     max 10 \<lfloor>fdiv (textAreaWidth config) (fmul titleFontSize (toDouble 0.55))\<rfloor>"

definition artistMaxChars :: "SvgConfig \<Rightarrow> int" where
  "artistMaxChars config =
     max 10 \<lfloor>fdiv (textAreaWidth config) (fmul artistFontSize (toDouble 0.55))\<rfloor>"

definition albumMaxChars :: "SvgConfig \<Rightarrow> int" where
  "albumMaxChars config =
     max 10 \<lfloor>fdiv (textAreaWidth config) (fmul albumFontSize (toDouble 0.55))\<rfloor>"

definition fontFallbackCss :: "SvgConfig \<Rightarrow> string" where
  "fontFallbackCss config = orElse (fontFallback config) ''sans-serif''"

definition fontTitleFamilyCss :: "SvgConfig \<Rightarrow> string" where
  "fontTitleFamilyCss config =
     (if fontTitleFamily config \<noteq> [] then
        sq @ fontTitleFamily config @ sq @ '', '' @ fontFallbackCss config
      else fontFallbackCss config)"

definition fontBodyFamilyCss :: "SvgConfig \<Rightarrow> string" where
  "fontBodyFamilyCss config =
     (if fontBodyFamily config \<noteq> [] then
        sq @ fontBodyFamily config @ sq @ '', '' @ fontFallbackCss config
      else fontFallbackCss config)"

text \<open>\<open>a || b\<close> where \<open>a\<close> may be \<open>undefined\<close>.\<close>

definition orElseOpt :: "string option \<Rightarrow> string \<Rightarrow> string" where
  "orElseOpt a b = (case a of None \<Rightarrow> b | Some s \<Rightarrow> orElse s b)"

text \<open>\<open>Array.prototype.join\<close>.\<close>

fun joinWith :: "string \<Rightarrow> string list \<Rightarrow> string" where
  "joinWith sep [] = []"
| "joinWith sep [x] = x"
| "joinWith sep (x # y # ys) = x @ sep @ joinWith sep (y # ys)"

section \<open>Card renderer: markup (svg/index.ts)\<close>

definition titleFontFace :: "SvgConfig \<Rightarrow> string" where
  \<open>titleFontFace config =
     (if truthy (fontTitleDataUrl config) \<and> fontTitleFamily config \<noteq> [] then
        ''@font-face {\<newline>'' @ ''  font-family: '' @ sq @ fontTitleFamily config @
        sq @ '';\<newline>'' @ ''  src: url('' @ orElseOpt (fontTitleDataUrl config) [] @
        '') format('' @ sq @ orElseOpt (fontTitleFormat config) ''truetype'' @
        sq @ '');\<newline>'' @ ''  font-weight: 400;\<newline>'' @
        ''  font-style: normal;\<newline>'' @ ''  font-display: swap;\<newline>'' @ ''}''
      else [])\<close>

definition bodyFontFace :: "SvgConfig \<Rightarrow> string" where
  \<open>bodyFontFace config =
     (if truthy (fontBodyDataUrl config) \<and> fontBodyFamily config \<noteq> [] then
        ''@font-face {\<newline>'' @ ''  font-family: '' @ sq @ fontBodyFamily config @
        sq @ '';\<newline>'' @ ''  src: url('' @ orElseOpt (fontBodyDataUrl config) [] @
        '') format('' @ sq @ orElseOpt (fontBodyFormat config) ''truetype'' @
        sq @ '');\<newline>'' @ ''  font-weight: 400;\<newline>'' @
        ''  font-style: normal;\<newline>'' @ ''  font-display: swap;\<newline>'' @ ''}''
      else [])\<close>

definition fontFaces :: "SvgConfig \<Rightarrow> string" where
  "fontFaces config =
     joinWith ''\<newline>'' (filter (\<lambda>s. s \<noteq> []) [titleFontFace config, bodyFontFace config])"

definition styleBlock :: "SvgConfig \<Rightarrow> string" where
  \<open>styleBlock config =
     (if fontFaces config \<noteq> [] then ''<style>'' @ fontFaces config @ ''</style>'' else [])\<close>

definition backgroundWave1 :: "(real \<Rightarrow> string) \<Rightarrow> NowPlayingData option \<Rightarrow> SvgConfig \<Rightarrow> string" where
  "backgroundWave1 str data config =
     generateWaveformLayer str (highlightColor data) (toDouble 0.28) barsStartX (barsEndX config)
       (waveBaseY config) waveHeight
       (fmul (titleSeed data) (toDouble 0.03)) 8"

definition backgroundWave2 :: "(real \<Rightarrow> string) \<Rightarrow> NowPlayingData option \<Rightarrow> SvgConfig \<Rightarrow> string" where
  "backgroundWave2 str data config =
     generateWaveformLayer str (highlightColor data) (toDouble 0.18) barsStartX (barsEndX config)
       (waveBaseY config) (fmul waveHeight (toDouble 0.7))
       (fadd (fmul (titleSeed data) (toDouble 0.05)) (toDouble 4.1)) 12"

text \<open>From the XML declaration to the opening tag of the background waveform group.\<close>

definition svgPrologue :: "(real \<Rightarrow> string) \<Rightarrow> NowPlayingData option \<Rightarrow> SvgConfig \<Rightarrow> string" where
  \<open>svgPrologue str data config =
     ''<?xml version="1.0" encoding="UTF-8"?>\<newline>'' @ ''<svg width="'' @
     str (width config) @ ''" height="'' @ str (height config) @ ''" viewBox="0 0 '' @
     str (width config) @ '' '' @ str (height config) @
     ''" xmlns="http://www.w3.org/2000/svg" xmlns:xlink="http://www.w3.org/1999/xlink">\<newline>'' @
     ''  <defs>\<newline>'' @ ''    '' @ styleBlock config @ ''\<newline>'' @
     ''    <linearGradient id="cardGradient" x1="0" y1="0" x2="0" y2="1">\<newline>'' @
     ''      <stop offset="0%" stop-color="'' @ baseDark data config @ ''" />\<newline>'' @
     ''      <stop offset="60%" stop-color="'' @ midDark data config @ ''" />\<newline>'' @
     ''      <stop offset="100%" stop-color="'' @ baseDark data config @ ''" />\<newline>'' @
     ''    </linearGradient>\<newline>'' @
     ''    <linearGradient id="barsFade" x1="0" y1="0" x2="0" y2="1">\<newline>'' @
     ''      <stop offset="0%" stop-color="'' @ highlightColor data @
     ''" stop-opacity="1" />\<newline>'' @ ''      <stop offset="100%" stop-color="'' @
     accentColor data @ ''" stop-opacity="0.3" />\<newline>'' @
     ''    </linearGradient>\<newline>'' @ ''    <clipPath id="albumClip">\<newline>'' @
     ''      <rect x="'' @ str (albumX config) @ ''" y="'' @ str (albumY config) @ ''" width="'' @
     str (albumSize config) @ ''" height="'' @ str (albumSize config) @ ''" rx="'' @
     str (borderRadius config) @ ''" />\<newline>'' @ ''    </clipPath>\<newline>'' @
     ''    <clipPath id="cardClip" clipPathUnits="userSpaceOnUse">\<newline>'' @
     ''      <rect x="2" y="2" width="'' @ str (fsub (width config) 4) @ ''" height="'' @
     str (fsub (height config) 4) @ ''" rx="'' @ str (fsub (borderRadius config) 2) @
     ''" />\<newline>'' @ ''    </clipPath>\<newline>'' @
     ''    <clipPath id="titleClip" clipPathUnits="userSpaceOnUse">\<newline>'' @
     ''      <rect x="'' @ str (textAreaLeft config) @ ''" y="'' @ str (fadd (albumY config) 34) @
     ''" width="'' @ str (titleClipWidth config) @ ''" height="26" />\<newline>'' @
     ''    </clipPath>\<newline>'' @
     ''    <filter id="glow" x="-50%" y="-50%" width="200%" height="200%">\<newline>'' @
     ''      <feDropShadow dx="0" dy="0" stdDeviation="8" flood-color="'' @ highlightColor data @
     ''" flood-opacity="0.65" />\<newline>'' @
     ''      <feDropShadow dx="0" dy="0" stdDeviation="16" flood-color="'' @ highlightColor data @
     ''" flood-opacity="0.25" />\<newline>'' @ ''    </filter>\<newline>'' @
     ''    <filter id="textGlow" x="-50%" y="-50%" width="200%" height="200%">\<newline>'' @
     ''      <feDropShadow dx="0" dy="0" stdDeviation="4" flood-color="'' @ highlightColor data @
     ''" flood-opacity="0.6" />\<newline>'' @ ''    </filter>\<newline>'' @
     ''  </defs>\<newline>'' @ ''\<newline>'' @
     ''  <!-- Card background with clean rounded border -->\<newline>'' @ ''  <rect width="'' @
     str (width config) @ ''" height="'' @ str (height config) @ ''" rx="'' @
     str (borderRadius config) @ ''" fill="'' @ midDark data config @ ''" />\<newline>'' @
     ''  <rect x="2" y="2" width="'' @ str (fsub (width config) 4) @ ''" height="'' @
     str (fsub (height config) 4) @ ''" rx="'' @ str (fsub (borderRadius config) 2) @
     ''" fill="url(#cardGradient)" />\<newline>'' @ ''\<newline>'' @
     ''  <!-- Background waveform -->\<newline>'' @
     ''  <g fill="url(#barsFade)" opacity="0.4" clip-path="url(#cardClip)">\<newline>'' @
     ''    ''\<close>

definition playingWave :: "(real \<Rightarrow> string) \<Rightarrow> real \<Rightarrow> NowPlayingData option \<Rightarrow> SvgConfig \<Rightarrow> string" where
  \<open>playingWave str now data config =
     (if isPlaying now data then
        ''<g fill="url(#barsFade)" opacity="0.45" clip-path="url(#cardClip)">'' @
        generateWaveformLayer str (highlightColor data) (toDouble 0.65) barsStartX (barsEndX config)
          (waveBaseY config) (fmul waveHeight (toDouble 0.85))
          (fadd (fmul (titleSeed data) (toDouble 0.08)) (toDouble 8.2)) 5 @
        ''</g>''
      else [])\<close>

definition statusText :: "real \<Rightarrow> NowPlayingData option \<Rightarrow> string" where
  "statusText now data =
     (if isStale now data then ''LAST PLAYED''
      else if isPlaying now data then ''NOW PLAYING''
      else ''PAUSED'')"

definition statusPill :: "(real \<Rightarrow> string) \<Rightarrow> real \<Rightarrow> NowPlayingData \<Rightarrow> SvgConfig \<Rightarrow> string" where
  \<open>statusPill str now d config =
     ''\<newline>'' @ ''    <!-- Status pill -->\<newline>'' @ ''    <text x="'' @
     str (textX config) @ ''" y="'' @ str (fadd (albumY config) 18) @ ''" fill="'' @
     highlightColor (Some d) @
     ''" font-size="12" font-weight="700" letter-spacing="0.12em" filter="url(#textGlow)" text-anchor="'' @
     textAnchor config @ ''" font-family="'' @ fontBodyFamilyCss config @ ''">\<newline>'' @
     ''      '' @ statusText now (Some d) @ ''\<newline>'' @ ''    </text>\<newline>'' @
     ''    ''\<close>

definition statusBlock :: "(real \<Rightarrow> string) \<Rightarrow> real \<Rightarrow> NowPlayingData \<Rightarrow> SvgConfig \<Rightarrow> string" where
  "statusBlock str now d config = (if showStatus config then statusPill str now d config else [])"

text \<open>
  The scrolling title: the markup before the first copy of the escaped title, between the
  two copies, and after the second one.
\<close>

definition scrollHead :: "(real \<Rightarrow> string) \<Rightarrow> NowPlayingData \<Rightarrow> SvgConfig \<Rightarrow> string" where
  \<open>scrollHead str d config =
     ''\<newline>'' @ ''    <g clip-path="url(#titleClip)">\<newline>'' @
     ''      <g>\<newline>'' @ ''        <text x="'' @ str (textAreaLeft config) @ ''" y="'' @
     str (titleY config) @ ''" fill="'' @ textPrimary config @ ''" font-size="'' @
     str (titleFontSize) @ ''" font-weight="600" filter="url(#textGlow)" font-family="'' @
     fontTitleFamilyCss config @ ''">\<newline>'' @ ''          ''\<close>

definition scrollMiddle :: "(real \<Rightarrow> string) \<Rightarrow> NowPlayingData \<Rightarrow> SvgConfig \<Rightarrow> string" where
  \<open>scrollMiddle str d config =
     ''\<newline>'' @ ''        </text>\<newline>'' @ ''        <text x="'' @
     str (fadd (textAreaLeft config) (titleScrollDistance (Some d) config)) @ ''" y="'' @
     str (titleY config) @ ''" fill="'' @ textPrimary config @ ''" font-size="'' @
     str (titleFontSize) @ ''" font-weight="600" filter="url(#textGlow)" font-family="'' @
     fontTitleFamilyCss config @ ''">\<newline>'' @ ''          ''\<close>

definition scrollTail :: "(real \<Rightarrow> string) \<Rightarrow> NowPlayingData \<Rightarrow> SvgConfig \<Rightarrow> string" where
  \<open>scrollTail str d config =
     ''\<newline>'' @ ''        </text>\<newline>'' @
     ''        <animateTransform attributeName="transform" type="translate" from="0 0" to="-'' @
     str (titleScrollDistance (Some d) config) @
     '' 0" dur="15s" repeatCount="indefinite" />\<newline>'' @ ''      </g>\<newline>'' @
     ''    </g>\<newline>'' @ ''    ''\<close>

definition scrollingTitle :: "(real \<Rightarrow> string) \<Rightarrow> NowPlayingData \<Rightarrow> SvgConfig \<Rightarrow> string" where
  "scrollingTitle str d config =
     scrollHead str d config @ escapeXml (title d) @ scrollMiddle str d config @
     escapeXml (title d) @ scrollTail str d config"

definition staticTitle :: "(real \<Rightarrow> string) \<Rightarrow> NowPlayingData \<Rightarrow> SvgConfig \<Rightarrow> string" where
  \<open>staticTitle str d config =
     ''\<newline>'' @ ''    <text x="'' @ str (textX config) @ ''" y="'' @ str (titleY config) @
     ''" fill="'' @ textPrimary config @ ''" font-size="'' @ str (titleFontSize) @
     ''" font-weight="600" text-overflow="ellipsis" filter="url(#textGlow)" text-anchor="'' @
     textAnchor config @ ''" font-family="'' @ fontTitleFamilyCss config @ ''">\<newline>'' @
     ''      '' @ escapeXml (truncateText (title d) (titleMaxChars config)) @ ''\<newline>'' @
     ''    </text>\<newline>'' @ ''    ''\<close>

definition titleMarkup :: "(real \<Rightarrow> string) \<Rightarrow> NowPlayingData \<Rightarrow> SvgConfig \<Rightarrow> string" where
  "titleMarkup str d config =
     (if titleScrollNeeded (Some d) config then scrollingTitle str d config
      else staticTitle str d config)"

definition titleBlock :: "(real \<Rightarrow> string) \<Rightarrow> NowPlayingData \<Rightarrow> SvgConfig \<Rightarrow> string" where
  \<open>titleBlock str d config =
     (if showTitle config then
        ''\<newline>'' @ ''    <!-- Title -->\<newline>'' @ ''    '' @ titleMarkup str d config @
        ''\<newline>'' @ ''    ''
      else [])\<close>

definition artistBlock :: "(real \<Rightarrow> string) \<Rightarrow> NowPlayingData \<Rightarrow> SvgConfig \<Rightarrow> string" where
  \<open>artistBlock str d config =
     (if showArtist config then
        ''\<newline>'' @ ''    <!-- Artist -->\<newline>'' @ ''    <text x="'' @
        str (textX config) @ ''" y="'' @ str (artistY config) @ ''" fill="'' @
        textSecondary config @ ''" font-size="'' @ str (artistFontSize) @ ''" text-anchor="'' @
        textAnchor config @ ''" font-family="'' @ fontBodyFamilyCss config @ ''">\<newline>'' @
        ''      '' @ escapeXml (truncateText (artist d) (artistMaxChars config)) @
        ''\<newline>'' @ ''    </text>\<newline>'' @ ''    ''
      else [])\<close>

definition albumBlock :: "(real \<Rightarrow> string) \<Rightarrow> NowPlayingData \<Rightarrow> SvgConfig \<Rightarrow> string" where
  \<open>albumBlock str d config =
     (if showAlbum config then
        ''\<newline>'' @ ''    <!-- Album and status -->\<newline>'' @ ''    <text x="'' @
        str (textX config) @ ''" y="'' @ str (albumYPos config) @ ''" fill="'' @
        textMuted config @ ''" font-size="'' @ str (albumFontSize) @ ''" text-anchor="'' @
        textAnchor config @ ''" font-family="'' @ fontBodyFamilyCss config @ ''">\<newline>'' @
        ''      '' @ escapeXml (truncateText (album d) (albumMaxChars config)) @ ''\<newline>'' @
        ''    </text>\<newline>'' @ ''    ''
      else [])\<close>

definition trackText :: "(real \<Rightarrow> string) \<Rightarrow> real \<Rightarrow> NowPlayingData \<Rightarrow> SvgConfig \<Rightarrow> string" where
  \<open>trackText str now d config =
     ''\<newline>'' @ ''    '' @ statusBlock str now d config @ ''\<newline>'' @ ''\<newline>'' @
     ''    '' @ titleBlock str d config @ ''\<newline>'' @ ''\<newline>'' @ ''    '' @
     artistBlock str d config @ ''\<newline>'' @ ''\<newline>'' @ ''    '' @
     albumBlock str d config @ ''\<newline>'' @ ''    ''\<close>

definition nothingPlaying :: "(real \<Rightarrow> string) \<Rightarrow> SvgConfig \<Rightarrow> string" where
  \<open>nothingPlaying str config =
     ''\<newline>'' @ ''    <!-- Not playing message -->\<newline>'' @ ''    <text x="'' @
     str (textX config) @ ''" y="'' @ str (fdiv (height config) 2) @ ''" fill="'' @
     textMuted config @ ''" font-size="14" dominant-baseline="middle" text-anchor="'' @
     textAnchor config @ ''" font-family="'' @ fontBodyFamilyCss config @ ''">\<newline>'' @
     ''      Nothing playing right now\<newline>'' @ ''    </text>\<newline>'' @ ''    ''\<close>

definition textContent :: "(real \<Rightarrow> string) \<Rightarrow> real \<Rightarrow> NowPlayingData option \<Rightarrow> SvgConfig \<Rightarrow> string" where
  "textContent str now data config =
     (case data of
        None \<Rightarrow> nothingPlaying str config
      | Some d \<Rightarrow> if hasTrack now data then trackText str now d config
                  else nothingPlaying str config)"

definition albumArt :: "(real \<Rightarrow> string) \<Rightarrow> NowPlayingData \<Rightarrow> string \<Rightarrow> SvgConfig \<Rightarrow> string" where
  \<open>albumArt str d art config =
     ''\<newline>'' @ ''  <!-- Album art with rounded corners -->\<newline>'' @ ''  <image x="'' @
     str (albumX config) @ ''" y="'' @ str (albumY config) @ ''" width="'' @
     str (albumSize config) @ ''" height="'' @ str (albumSize config) @
     ''" xlink:href="data:image/jpeg;base64,'' @ art @
     ''" clip-path="url(#albumClip)" preserveAspectRatio="xMidYMid slice" filter="url(#glow)" />\<newline>'' @
     ''  <rect x="'' @ str (albumX config) @ ''" y="'' @ str (albumY config) @ ''" width="'' @
     str (albumSize config) @ ''" height="'' @ str (albumSize config) @ ''" rx="'' @
     str (borderRadius config) @ ''" fill="none" stroke="'' @ highlightColor (Some d) @
     ''" stroke-opacity="0.75" stroke-width="3" filter="url(#textGlow)" />\<newline>'' @ ''  ''\<close>

definition artBlock :: "(real \<Rightarrow> string) \<Rightarrow> real \<Rightarrow> NowPlayingData option \<Rightarrow> SvgConfig \<Rightarrow> string" where
  "artBlock str now data config =
     (let placeholder = generateMusicNotePlaceholder str (albumX config) (albumY config)
                          (albumSize config) (highlightColor data)
      in case data of
           None \<Rightarrow> placeholder
         | Some d \<Rightarrow>
             (case artBase64 d of
                None \<Rightarrow> placeholder
              | Some art \<Rightarrow> if hasTrack now data \<and> art \<noteq> [] then albumArt str d art config
                            else placeholder))"

text \<open>
  The whole card. \<open>now\<close> is \<open>Date.now()\<close> at the call; the source's default argument for
  \<open>config\<close> is \<open>defaultSvgConfig\<close>.
\<close>

definition generateNowPlayingSvg :: "(real \<Rightarrow> string) \<Rightarrow> real \<Rightarrow> NowPlayingData option \<Rightarrow> SvgConfig \<Rightarrow> string" where
  \<open>generateNowPlayingSvg str now data config =
     svgPrologue str data config @
     backgroundWave1 str data config @ ''\<newline>'' @ ''    '' @
     backgroundWave2 str data config @ ''\<newline>'' @ ''  </g>\<newline>'' @ ''\<newline>'' @
     ''  '' @ playingWave str now data config @ ''\<newline>'' @ ''\<newline>'' @
     ''  <!-- Text content -->\<newline>'' @ ''  <g font-family="'' @ fontBodyFamilyCss config @
     ''">\<newline>'' @ ''    '' @ textContent str now data config @ ''\<newline>'' @
     ''  </g>\<newline>'' @ ''\<newline>'' @ ''  '' @ artBlock str now data config @
     ''\<newline>'' @ ''</svg>''\<close>

section \<open>Markup inserted into the card\<close>

text \<open>
  The template escapes the title, the artist and the album; every other string reaches the
  markup as it is. A string without \<open><\<close> opens no element there.
\<close>

definition plainText :: "string \<Rightarrow> bool" where
  "plainText s = (CHR ''<'' \<notin> set s)"

definition plainOpt :: "string option \<Rightarrow> bool" where
  "plainOpt v = (case v of None \<Rightarrow> True | Some s \<Rightarrow> plainText s)"

text \<open>The strings of a configuration and of a snapshot that the template inserts unescaped.\<close>

definition plainConfig :: "SvgConfig \<Rightarrow> bool" where
  "plainConfig config =
     (plainText (textPrimary config) \<and> plainText (textSecondary config) \<and>
      plainText (textMuted config) \<and> plainText (fontTitleFamily config) \<and>
      plainText (fontBodyFamily config) \<and> plainText (fontFallback config) \<and>
      plainOpt (fontTitleDataUrl config) \<and> plainOpt (fontBodyDataUrl config) \<and>
      plainOpt (fontTitleFormat config) \<and> plainOpt (fontBodyFormat config))"

definition plainSnapshot :: "NowPlayingData \<Rightarrow> bool" where
  "plainSnapshot d =
     ((case colors d of None \<Rightarrow> True | Some c \<Rightarrow> plainText (accent c) \<and> plainText (highlight c)) \<and>
      plainOpt (artBase64 d))"

definition countChar :: "char \<Rightarrow> string \<Rightarrow> nat" where
  "countChar c s = length (filter (\<lambda>x. x = c) s)"

text \<open>
  A scanner for the opening of an \<open>animateTransform\<close> element. Its state is what is left of
  the pattern to read; the empty state says that the pattern has been read, and is never
  left. \<open><\<close> stands at the head of the pattern only, so a match can only begin at a \<open><\<close>.
\<close>

abbreviation animateTag :: string where
  "animateTag \<equiv> ''<animateTransform''"

definition tagStep :: "string \<Rightarrow> char \<Rightarrow> string" where
  "tagStep st c =
     (if st = [] then []
      else if c = CHR ''<'' then tl animateTag
      else if c = hd st then tl st
      else animateTag)"

definition tagScan :: "string \<Rightarrow> string \<Rightarrow> string" where
  "tagScan st s = foldl tagStep st s"

section \<open>Server (server.ts): requests, responses and the runtime\<close>

text \<open>A value as \<open>JSON.parse\<close> returns it; an object keeps its members in an association list.\<close>

datatype json =
  JNull
  | JBool bool
  | JNum real
  | JStr string
  | JArr "json list"
  | JObj "(string \<times> json) list"

text \<open>
  The parts of a \<open>Request\<close> the server reads: the method, the path and the query
  parameters of its URL, the \<open>Authorization\<close> header and the body text.
\<close>

record Request =
  req_method :: string
  req_path :: string
  req_params :: "(string \<times> string) list"
  req_authorization :: "string option"
  req_body :: string

record Response =
  resp_status :: nat
  resp_headers :: "(string \<times> string) list"
  resp_body :: "string option"

text \<open>
  What the JavaScript runtime and the deployment provide: the conversion of a number to a
  string, \<open>JSON.parse\<close> (\<open>None\<close> when it throws), \<open>JSON.stringify\<close>, \<open>Deno.readTextFile\<close> and
  \<open>Deno.readFile\<close> followed by \<open>btoa\<close> (\<open>None\<close> when the read throws), and \<open>Date.now()\<close>; of
  the key-value store, whether \<open>kv.set\<close> accepts a value (it rejects one whose serialisation
  exceeds 64 KiB) and whether \<open>kv.get\<close> answers; and what \<open>generateNowPlayingSvg\<close> does with
  a stored object that has a field of another type than the declared one, where the
  conversions of JavaScript decide: markup, or \<open>None\<close> when the call throws.
\<close>

record Runtime =
  numberToString :: "real \<Rightarrow> string"
  jsonParse :: "string \<Rightarrow> json option"
  jsonStringify :: "json \<Rightarrow> string"
  readTextFile :: "string \<Rightarrow> string option"
  readFileBase64 :: "string \<Rightarrow> string option"
  dateNow :: real
  kvWrite :: "json \<Rightarrow> bool"
  kvRead :: bool
  renderUntyped :: "json \<Rightarrow> SvgConfig \<Rightarrow> string option"

text \<open>
  The state of the server: the value stored under \<open>KV_KEY\<close> (\<open>None\<close> before the first
  write) and the two module-level caches.
\<close>

record ServerState =
  kv :: "json option"
  themeCache :: "string \<rightharpoonup> SvgConfig"
  fontCache :: "string \<rightharpoonup> string \<times> string"

text \<open>The page that \<open>handleGetPreview\<close> wraps around the card.\<close>

definition previewHtml :: "string \<Rightarrow> string" where
  \<open>previewHtml svg =
     ''<!doctype html>\<newline>'' @ ''<html lang="en">\<newline>'' @ ''  <head>\<newline>'' @
     ''    <meta charset="utf-8" />\<newline>'' @
     ''    <meta name="viewport" content="width=device-width, initial-scale=1" />\<newline>'' @
     ''    <title>Now Playing Preview</title>\<newline>'' @ ''    <style>\<newline>'' @
     ''      body {\<newline>'' @ ''        margin: 0;\<newline>'' @
     ''        padding: 32px;\<newline>'' @
     ''        font-family: ui-sans-serif, system-ui, -apple-system, "Segoe UI", sans-serif;\<newline>'' @
     ''        background: #0b0c0f;\<newline>'' @ ''        color: #e5e7eb;\<newline>'' @
     ''      }\<newline>'' @ ''      .container {\<newline>'' @
     ''        max-width: 900px;\<newline>'' @ ''        margin: 0 auto;\<newline>'' @
     ''      }\<newline>'' @ ''      .card {\<newline>'' @
     ''        background: #0f1115;\<newline>'' @
     ''        border: 1px solid #1f2430;\<newline>'' @
     ''        border-radius: 16px;\<newline>'' @ ''        padding: 24px;\<newline>'' @
     ''        box-shadow: 0 12px 30px rgba(0, 0, 0, 0.35);\<newline>'' @ ''      }\<newline>'' @
     ''      .widget {\<newline>'' @ ''        margin-top: 24px;\<newline>'' @
     ''        width: 100%;\<newline>'' @ ''        display: flex;\<newline>'' @
     ''        justify-content: center;\<newline>'' @ ''      }\<newline>'' @
     ''      .widget svg {\<newline>'' @ ''        display: block;\<newline>'' @
     ''        width: 800px;\<newline>'' @ ''        height: auto;\<newline>'' @
     ''      }\<newline>'' @ ''      p {\<newline>'' @ ''        line-height: 1.7;\<newline>'' @
     ''        color: #cbd5f5;\<newline>'' @ ''      }\<newline>'' @ ''    </style>\<newline>'' @
     ''  </head>\<newline>'' @ ''  <body>\<newline>'' @
     ''    <div class="container">\<newline>'' @ ''      <div class="card">\<newline>'' @
     ''        <p>\<newline>'' @
     ''          Lorem ipsum dolor sit amet, consectetur adipiscing elit. Integer sed\<newline>'' @
     ''          tincidunt lorem. Donec semper, magna in pretium consequat, lorem orci\<newline>'' @
     ''          pharetra neque, sed feugiat sapien mi sed urna. Mauris lacinia justo\<newline>'' @
     ''          a mi consequat, a luctus lorem suscipit.\<newline>'' @
     ''        </p>\<newline>'' @ ''        <p>\<newline>'' @
     ''          Pellentesque habitant morbi tristique senectus et netus et malesuada\<newline>'' @
     ''          fames ac turpis egestas. Nulla facilisi. Fusce at lectus erat. Sed\<newline>'' @
     ''          posuere lorem eget nisl interdum, id condimentum felis tincidunt.\<newline>'' @
     ''        </p>\<newline>'' @ ''        <div class="widget">'' @ svg @ ''</div>\<newline>'' @
     ''      </div>\<newline>'' @ ''    </div>\<newline>'' @ ''  </body>\<newline>'' @
     ''</html>''\<close>

section \<open>Server (server.ts): handlers\<close>

text \<open>\<open>String.prototype.split\<close> with a one-character separator.\<close>

fun splitOn :: "char \<Rightarrow> string \<Rightarrow> string list" where
  "splitOn c [] = [Nil]"
| "splitOn c (x # xs) =
     (if x = c then [] # splitOn c xs
      else (case splitOn c xs of [] \<Rightarrow> [x # Nil] | h # t \<Rightarrow> (x # h) # t))"

definition validateAuth :: "string \<Rightarrow> Request \<Rightarrow> bool" where
  "validateAuth apiKey req =
     (case req_authorization req of
        None \<Rightarrow> False
      | Some auth \<Rightarrow>
          if auth = [] then False
          else (case splitOn (CHR '' '') auth of
                  [p0, p1] \<Rightarrow> if p0 \<noteq> ''Bearer'' then False else p1 = apiKey
                | _ \<Rightarrow> False))"

text \<open>
  The two operations on the store. \<open>None\<close> says that the promise was rejected, which the
  caller sees as an exception; a rejected write leaves the stored value as it was. A read
  of a key that was never written returns \<open>null\<close>.
\<close>

definition storeNowPlaying :: "Runtime \<Rightarrow> ServerState \<Rightarrow> json \<Rightarrow> ServerState option" where
  "storeNowPlaying rt st data = (if kvWrite rt data then Some (st\<lparr> kv := Some data \<rparr>) else None)"

definition getNowPlaying :: "Runtime \<Rightarrow> ServerState \<Rightarrow> json option" where
  "getNowPlaying rt st =
     (if kvRead rt then Some (case kv st of None \<Rightarrow> JNull | Some v \<Rightarrow> v) else None)"

text \<open>The bodies that \<open>JSON.stringify\<close> produces from the handlers' literal objects.\<close>

definition unauthorizedBody :: string where
  \<open>unauthorizedBody = ''{"error":"Unauthorized"}''\<close>

definition successBody :: string where
  \<open>successBody = ''{"success":true}''\<close>

definition invalidJsonBody :: string where
  \<open>invalidJsonBody = ''{"error":"Invalid JSON"}''\<close>

definition notFoundBody :: string where
  \<open>notFoundBody = ''{"error":"Not found"}''\<close>

definition internalErrorBody :: string where
  \<open>internalErrorBody = ''{"error":"Internal server error"}''\<close>

definition jsonResponse :: "nat \<Rightarrow> string \<Rightarrow> Response" where
  "jsonResponse code body =
     \<lparr> resp_status = code, resp_headers = [(''Content-Type'', ''application/json'')],
       resp_body = Some body \<rparr>"

text \<open>
  The \<open>try\<close> block holds \<open>req.json()\<close> and the write, so a body that does not parse and a
  write that the store rejects are answered alike.
\<close>

definition handlePostNowPlaying ::
  "Runtime \<Rightarrow> string \<Rightarrow> Request \<Rightarrow> ServerState \<Rightarrow> Response \<times> ServerState" where
  "handlePostNowPlaying rt apiKey req st =
     (if \<not> validateAuth apiKey req then (jsonResponse 401 unauthorizedBody, st)
      else (case jsonParse rt (req_body req) of
              None \<Rightarrow> (jsonResponse 400 invalidJsonBody, st)
            | Some data \<Rightarrow>
                (case storeNowPlaying rt st data of
                   None \<Rightarrow> (jsonResponse 400 invalidJsonBody, st)
                 | Some st' \<Rightarrow> (jsonResponse 200 successBody, st'))))"

subsection \<open>Themes and fonts\<close>

definition alnumChars :: string where
  "alnumChars = ''abcdefghijklmnopqrstuvwxyzABCDEFGHIJKLMNOPQRSTUVWXYZ0123456789''"

text \<open>The three patterns, each anchored at both ends and case-insensitive.\<close>

definition themeNamePattern :: "string \<Rightarrow> bool" where
  "themeNamePattern s = (s \<noteq> [] \<and> list_all (\<lambda>c. c \<in> set (alnumChars @ ''_-'')) s)"

definition fontFilePattern :: "string \<Rightarrow> bool" where
  "fontFilePattern s = (s \<noteq> [] \<and> list_all (\<lambda>c. c \<in> set (alnumChars @ ''._-'')) s)"

definition fontFamilyPattern :: "string \<Rightarrow> bool" where
  "fontFamilyPattern s = (s \<noteq> [] \<and> list_all (\<lambda>c. c \<in> set (alnumChars @ '' _-'')) s)"

text \<open>A property read on a parsed value; \<open>None\<close> is \<open>undefined\<close>.\<close>

definition jfield :: "json \<Rightarrow> string \<Rightarrow> json option" where
  "jfield v k = (case v of JObj members \<Rightarrow> map_of members k | _ \<Rightarrow> None)"

definition isNumber :: "json option \<Rightarrow> bool" where
  "isNumber v = (case v of Some (JNum r) \<Rightarrow> True | _ \<Rightarrow> False)"

definition isString :: "json option \<Rightarrow> bool" where
  "isString v = (case v of Some (JStr s) \<Rightarrow> s \<noteq> [] | _ \<Rightarrow> False)"

definition isBoolean :: "json option \<Rightarrow> bool" where
  "isBoolean v = (case v of Some (JBool b) \<Rightarrow> True | _ \<Rightarrow> False)"

definition isSvgConfig :: "json \<Rightarrow> bool" where
  "isSvgConfig v =
     (let albumPosition = jfield v ''albumPosition'';
          textAlign = jfield v ''textAlign''
      in isNumber (jfield v ''width'') \<and>
         isNumber (jfield v ''height'') \<and>
         isString (jfield v ''cardBackground'') \<and>
         isString (jfield v ''cardBorder'') \<and>
         isString (jfield v ''textPrimary'') \<and>
         isString (jfield v ''textSecondary'') \<and>
         isString (jfield v ''textMuted'') \<and>
         isNumber (jfield v ''albumSize'') \<and>
         isNumber (jfield v ''borderRadius'') \<and>
         (albumPosition = Some (JStr ''left'') \<or> albumPosition = Some (JStr ''right'')) \<and>
         (textAlign = Some (JStr ''left'') \<or> textAlign = Some (JStr ''center'') \<or>
          textAlign = Some (JStr ''right'')) \<and>
         isBoolean (jfield v ''showStatus'') \<and>
         isBoolean (jfield v ''showTitle'') \<and>
         isBoolean (jfield v ''showArtist'') \<and>
         isBoolean (jfield v ''showAlbum'') \<and>
         isString (jfield v ''fontTitleFamily'') \<and>
         isString (jfield v ''fontBodyFamily'') \<and>
         isString (jfield v ''fontTitleFile'') \<and>
         isString (jfield v ''fontBodyFile'') \<and>
         isString (jfield v ''fontFallback''))"

text \<open>
  A parsed theme that passed \<open>isSvgConfig\<close>, read as a configuration. The four optional
  font-data fields are left out: \<open>buildSvgConfig\<close> overwrites them in every case.
\<close>

definition numberOf :: "json option \<Rightarrow> real" where
  "numberOf v = (case v of Some (JNum r) \<Rightarrow> r | _ \<Rightarrow> 0)"

definition stringOf :: "json option \<Rightarrow> string" where
  "stringOf v = (case v of Some (JStr s) \<Rightarrow> s | _ \<Rightarrow> [])"

definition booleanOf :: "json option \<Rightarrow> bool" where
  "booleanOf v = (case v of Some (JBool b) \<Rightarrow> b | _ \<Rightarrow> False)"

definition themeConfig :: "json \<Rightarrow> SvgConfig" where
  "themeConfig v =
     \<lparr> width = numberOf (jfield v ''width''),
       height = numberOf (jfield v ''height''),
       cardBackground = stringOf (jfield v ''cardBackground''),
       cardBorder = stringOf (jfield v ''cardBorder''),
       textPrimary = stringOf (jfield v ''textPrimary''),
       textSecondary = stringOf (jfield v ''textSecondary''),
       textMuted = stringOf (jfield v ''textMuted''),
       albumSize = numberOf (jfield v ''albumSize''),
       borderRadius = numberOf (jfield v ''borderRadius''),
       albumPosition = (if jfield v ''albumPosition'' = Some (JStr ''right'') then PosRight
                        else PosLeft),
       textAlign = (if jfield v ''textAlign'' = Some (JStr ''right'') then AlignRight
                    else if jfield v ''textAlign'' = Some (JStr ''center'') then AlignCenter
                    else AlignLeft),
       showStatus = booleanOf (jfield v ''showStatus''),
       showTitle = booleanOf (jfield v ''showTitle''),
       showArtist = booleanOf (jfield v ''showArtist''),
       showAlbum = booleanOf (jfield v ''showAlbum''),
       fontTitleFamily = stringOf (jfield v ''fontTitleFamily''),
       fontBodyFamily = stringOf (jfield v ''fontBodyFamily''),
       fontTitleFile = stringOf (jfield v ''fontTitleFile''),
       fontBodyFile = stringOf (jfield v ''fontBodyFile''),
       fontFallback = stringOf (jfield v ''fontFallback''),
       fontTitleDataUrl = None,
       fontBodyDataUrl = None,
       fontTitleFormat = None,
       fontBodyFormat = None \<rparr>"

definition getFontFormat :: "string \<Rightarrow> string option" where
  "getFontFormat fileName =
     (let lower = toLowerCase fileName
      in if suffix ''.woff2'' lower then Some ''woff2''
         else if suffix ''.woff'' lower then Some ''woff''
         else if suffix ''.ttf'' lower then Some ''truetype''
         else if suffix ''.otf'' lower then Some ''opentype''
         else None)"

definition loadFontData ::
  "Runtime \<Rightarrow> ServerState \<Rightarrow> string \<Rightarrow> (string \<times> string) option \<times> ServerState" where
  "loadFontData rt st fileName =
     (if \<not> fontFilePattern fileName then (None, st)
      else (case fontCache st fileName of
              Some entry \<Rightarrow> (Some entry, st)
            | None \<Rightarrow>
                (case getFontFormat fileName of
                   None \<Rightarrow> (None, st)
                 | Some format \<Rightarrow>
                     (case readFileBase64 rt (''./fonts/'' @ fileName) of
                        None \<Rightarrow> (None, st)
                      | Some b64 \<Rightarrow>
                          let mime = (if format = ''woff2'' then ''font/woff2''
                                      else if format = ''woff'' then ''font/woff''
                                      else if format = ''truetype'' then ''font/ttf''
                                      else ''font/otf'');
                              dataUrl = ''data:'' @ mime @ '';base64,'' @ b64;
                              entry = (dataUrl, format)
                          in (Some entry, st\<lparr> fontCache := (fontCache st)(fileName \<mapsto> entry) \<rparr>)))))"

text \<open>\<open>if (!value) return undefined\<close>: a missing and an empty parameter are alike.\<close>

definition parseBooleanParam :: "string option \<Rightarrow> bool option" where
  "parseBooleanParam v =
     (if \<not> truthy v then None
      else let normalized = toLowerCase (trim (orElseOpt v []))
           in if normalized = ''1'' \<or> normalized = ''true'' then Some True
              else if normalized = ''0'' \<or> normalized = ''false'' then Some False
              else None)"

definition parseTextAlign :: "string option \<Rightarrow> TextAlign option" where
  "parseTextAlign v =
     (if \<not> truthy v then None
      else let normalized = toLowerCase (trim (orElseOpt v []))
           in if normalized = ''left'' then Some AlignLeft
              else if normalized = ''right'' then Some AlignRight
              else if normalized = ''center'' \<or> normalized = ''centre'' then Some AlignCenter
              else None)"

text \<open>\<open>fileName.replace(/\.[^.]+$/, "")\<close>: drop the last dot and what follows it, if anything does.\<close>

definition stripExtension :: "string \<Rightarrow> string" where
  "stripExtension s =
     (let ext = takeWhile (\<lambda>c. c \<noteq> CHR ''.'') (rev s)
      in if ext \<noteq> [] \<and> length ext < length s then take (length s - length ext - 1) s else s)"

text \<open>\<open>replace(/[_-]+/g, " ")\<close>; the flag says that the previous character was replaced.\<close>

fun collapseSeparators :: "bool \<Rightarrow> string \<Rightarrow> string" where
  "collapseSeparators prev [] = []"
| "collapseSeparators prev (c # cs) =
     (if c = CHR ''_'' \<or> c = CHR ''-'' then
        (if prev then [] else '' '') @ collapseSeparators True cs
      else c # collapseSeparators False cs)"

definition inferFontFamily :: "string \<Rightarrow> string" where
  "inferFontFamily fileName =
     (let base = stripExtension fileName
      in orElse (trim (collapseSeparators False base)) base)"

definition parseFontFile :: "string option \<Rightarrow> string option" where
  "parseFontFile v =
     (if \<not> truthy v then None
      else let normalized = trim (orElseOpt v [])
           in if normalized = [] \<or> \<not> fontFilePattern normalized then None else Some normalized)"

definition parseFontFamily :: "string option \<Rightarrow> string option" where
  "parseFontFamily v =
     (if \<not> truthy v then None
      else let normalized = trim (orElseOpt v [])
           in if normalized = [] \<or> \<not> fontFamilyPattern normalized then None else Some normalized)"

definition loadTheme :: "Runtime \<Rightarrow> ServerState \<Rightarrow> string \<Rightarrow> SvgConfig option \<times> ServerState" where
  "loadTheme rt st name =
     (case themeCache st name of
        Some theme \<Rightarrow> (Some theme, st)
      | None \<Rightarrow>
          if \<not> themeNamePattern name then (None, st)
          else (case readTextFile rt (''./themes/'' @ name @ ''.json'') of
                  None \<Rightarrow> (None, st)
                | Some raw \<Rightarrow>
                    (case jsonParse rt raw of
                       None \<Rightarrow> (None, st)
                     | Some parsed \<Rightarrow>
                         if \<not> isSvgConfig parsed then (None, st)
                         else (Some (themeConfig parsed),
                               st\<lparr> themeCache := (themeCache st)(name \<mapsto> themeConfig parsed) \<rparr>))))"

text \<open>\<open>URLSearchParams.get\<close>: the first value of the name.\<close>

definition getParam :: "(string \<times> string) list \<Rightarrow> string \<Rightarrow> string option" where
  "getParam params name = map_of params name"

text \<open>One layer of overrides: a defined value replaces the field.\<close>

definition override :: "'a option \<Rightarrow> 'a \<Rightarrow> 'a" where
  "override v base = (case v of None \<Rightarrow> base | Some x \<Rightarrow> x)"

definition buildSvgConfig ::
  "Runtime \<Rightarrow> ServerState \<Rightarrow> (string \<times> string) list \<Rightarrow> SvgConfig \<times> ServerState" where
  "buildSvgConfig rt st params =
     (let themeParam = orElseOpt (getParam params ''theme'') ''default'';
          themeName = (if themeNamePattern themeParam then themeParam else ''default'')
      in case loadTheme rt st themeName of
           (theme, st1) \<Rightarrow>
             let position = getParam params ''position'';
                 albumPositionP = (if position = Some ''right'' then Some PosRight
                                   else if position = Some ''left'' then Some PosLeft
                                   else None);
                 textAlignP = parseTextAlign (getParam params ''align'');
                 showStatusP = parseBooleanParam (getParam params ''showStatus'');
                 showTitleP = parseBooleanParam (getParam params ''showTitle'');
                 showArtistP = parseBooleanParam (getParam params ''showArtist'');
                 showAlbumP = parseBooleanParam (getParam params ''showAlbum'');
                 fontTitleFileP = parseFontFile (getParam params ''fontTitle'');
                 fontBodyFileP = parseFontFile (getParam params ''fontBody'');
                 fontTitleFamilyParam = parseFontFamily (getParam params ''fontTitleFamily'');
                 fontBodyFamilyParam = parseFontFamily (getParam params ''fontBodyFamily'');
                 fontTitleFamilyP =
                   (if truthy fontTitleFamilyParam then fontTitleFamilyParam
                    else map_option inferFontFamily fontTitleFileP);
                 fontBodyFamilyP =
                   (if truthy fontBodyFamilyParam then fontBodyFamilyParam
                    else map_option inferFontFamily fontBodyFileP);
                 themed = override theme defaultSvgConfig;
                 baseConfig = themed
                   \<lparr> albumPosition := override albumPositionP (albumPosition themed),
                     textAlign := override textAlignP (textAlign themed),
                     showStatus := override showStatusP (showStatus themed),
                     showTitle := override showTitleP (showTitle themed),
                     showArtist := override showArtistP (showArtist themed),
                     showAlbum := override showAlbumP (showAlbum themed),
                     fontTitleFile := (if truthy fontTitleFileP
                                       then orElseOpt fontTitleFileP [] else fontTitleFile themed),
                     fontBodyFile := (if truthy fontBodyFileP
                                      then orElseOpt fontBodyFileP [] else fontBodyFile themed),
                     fontTitleFamily := (if truthy fontTitleFamilyP
                                         then orElseOpt fontTitleFamilyP []
                                         else fontTitleFamily themed),
                     fontBodyFamily := (if truthy fontBodyFamilyP
                                        then orElseOpt fontBodyFamilyP []
                                        else fontBodyFamily themed) \<rparr>
             in case loadFontData rt st1 (fontTitleFile baseConfig) of
                  (titleFont, st2) \<Rightarrow>
                    (case loadFontData rt st2 (fontBodyFile baseConfig) of
                       (bodyFont, st3) \<Rightarrow>
                         (baseConfig
                            \<lparr> fontTitleDataUrl := map_option fst titleFont,
                              fontBodyDataUrl := map_option fst bodyFont,
                              fontTitleFormat := map_option snd titleFont,
                              fontBodyFormat := map_option snd bodyFont \<rparr>,
                          st3)))"

subsection \<open>The stored value as a snapshot\<close>

text \<open>
  \<open>kv.get<NowPlayingData>\<close> asserts the type of the stored value without a check, and the
  renderer reads seven of its fields: \<open>title\<close>, \<open>artist\<close>, \<open>album\<close>, \<open>status\<close>, \<open>updatedAt\<close>,
  \<open>artBase64\<close> and \<open>colors\<close>. A field of a stored object is read as \<open>Some (Some x)\<close> when it
  holds a value of the declared type, as \<open>Some None\<close> when the object has no such field
  (\<open>undefined\<close>), or, for \<open>artBase64\<close> and \<open>colors\<close>, holds \<open>null\<close>, and as \<open>None\<close> when it holds a
  value of another type.
\<close>

definition textField :: "json \<Rightarrow> string \<Rightarrow> string option option" where
  "textField v k =
     (case jfield v k of
        None \<Rightarrow> Some None
      | Some (JStr s) \<Rightarrow> Some (Some s)
      | _ \<Rightarrow> None)"

definition numberField :: "json \<Rightarrow> string \<Rightarrow> real option option" where
  "numberField v k =
     (case jfield v k of
        None \<Rightarrow> Some None
      | Some (JNum r) \<Rightarrow> Some (Some r)
      | _ \<Rightarrow> None)"

definition artField :: "json \<Rightarrow> string option option" where
  "artField v =
     (case jfield v ''artBase64'' of
        None \<Rightarrow> Some None
      | Some JNull \<Rightarrow> Some None
      | Some (JStr s) \<Rightarrow> Some (Some s)
      | _ \<Rightarrow> None)"

text \<open>
  A colour that the palette lacks is \<open>undefined\<close>, and the renderer falls back as it does
  on the empty string.
\<close>

definition colorsField :: "json \<Rightarrow> ColorPalette option option" where
  "colorsField v =
     (case jfield v ''colors'' of
        None \<Rightarrow> Some None
      | Some JNull \<Rightarrow> Some None
      | Some (JObj members) \<Rightarrow>
          Option.bind (textField (JObj members) ''dominant'') (\<lambda>d.
          Option.bind (textField (JObj members) ''accent'') (\<lambda>a.
          Option.bind (textField (JObj members) ''highlight'') (\<lambda>h.
          Some (Some \<lparr> dominant = orElseOpt d [], accent = orElseOpt a [],
                        highlight = orElseOpt h [] \<rparr>))))
      | _ \<Rightarrow> None)"

text \<open>
  A stored object whose seven fields are of their declared types where it has them, read
  as a snapshot, with the three texts that it lacks. A text that is missing reads as the
  empty string wherever the renderer tests it with \<open>||\<close>; a missing \<open>status\<close> equals neither
  \<open>"playing"\<close> nor \<open>"paused"\<close>, as the empty string does; a missing \<open>updatedAt\<close> makes the age
  \<open>NaN\<close>, which is not greater than five minutes, as the age of a snapshot written at the
  render time \<open>now\<close> is not. The four fields that the renderer never reads are taken as they
  come.
\<close>

record StoredSnapshot =
  snapshot :: NowPlayingData
  lacksTitle :: bool
  lacksArtist :: bool
  lacksAlbum :: bool

definition decodeStored :: "real \<Rightarrow> json \<Rightarrow> StoredSnapshot option" where
  "decodeStored now v =
     (case v of
        JObj members \<Rightarrow>
          Option.bind (textField v ''title'') (\<lambda>t.
          Option.bind (textField v ''artist'') (\<lambda>ar.
          Option.bind (textField v ''album'') (\<lambda>al.
          Option.bind (textField v ''status'') (\<lambda>s.
          Option.bind (numberField v ''updatedAt'') (\<lambda>u.
          Option.bind (artField v) (\<lambda>art.
          Option.bind (colorsField v) (\<lambda>cs.
          Some \<lparr> snapshot =
                   \<lparr> title = orElseOpt t [], artist = orElseOpt ar [], album = orElseOpt al [],
                     albumArtist = stringOf (jfield v ''albumArtist''),
                     trackNumber = stringOf (jfield v ''trackNumber''),
                     duration = numberOf (jfield v ''duration''),
                     progress = numberOf (jfield v ''progress''),
                     status = orElseOpt s [], artBase64 = art, colors = cs,
                     updatedAt = (case u of None \<Rightarrow> now | Some r \<Rightarrow> r) \<rparr>,
                 lacksTitle = (t = None), lacksArtist = (ar = None),
                 lacksAlbum = (al = None) \<rparr>)))))))
      | _ \<Rightarrow> None)"

text \<open>A stored object that \<open>decodeStored\<close> reads and that lacks none of the three texts.\<close>

definition decodeSnapshot :: "real \<Rightarrow> json \<Rightarrow> NowPlayingData option" where
  "decodeSnapshot now v =
     (case decodeStored now v of
        None \<Rightarrow> None
      | Some s \<Rightarrow> if lacksTitle s \<or> lacksArtist s \<or> lacksAlbum s then None else Some (snapshot s))"

text \<open>
  The call \<open>generateNowPlayingSvg(data, config)\<close> of the two handlers below, on what the
  store returned. \<open>None\<close> says that the call throws.

  On \<open>null\<close>, and on any other value that is not an object, no field that the renderer
  reads is defined, the card has no track, and the markup is that of \<open>null\<close>.

  On an object that \<open>decodeStored\<close> reads, the card is the one of the snapshot read, unless
  it has a track and shows a line whose text the object lacks: \<open>truncateText\<close> then reads
  the \<open>length\<close> of \<open>undefined\<close> and throws a \<open>TypeError\<close>. A stored \<open>{"updatedAt": 0}\<close>, for one, is
  stale, so the card has a track, and the title line throws.

  On an object with a field of another type than the declared one, the conversions of
  JavaScript decide, and the outcome is the runtime's \<open>renderUntyped\<close>.
\<close>

definition renderStored :: "Runtime \<Rightarrow> json \<Rightarrow> SvgConfig \<Rightarrow> string option" where
  "renderStored rt v config =
     (case v of
        JObj members \<Rightarrow>
          (case decodeStored (dateNow rt) v of
             None \<Rightarrow> renderUntyped rt v config
           | Some s \<Rightarrow>
               if hasTrack (dateNow rt) (Some (snapshot s)) \<and>
                  (showTitle config \<and> lacksTitle s \<or> showArtist config \<and> lacksArtist s \<or>
                   showAlbum config \<and> lacksAlbum s)
               then None
               else Some (generateNowPlayingSvg (numberToString rt) (dateNow rt)
                            (Some (snapshot s)) config))
      | _ \<Rightarrow> Some (generateNowPlayingSvg (numberToString rt) (dateNow rt) None config))"

subsection \<open>Routes\<close>

text \<open>
  A handler returns its response, or \<open>None\<close> when it throws, and the state it leaves: the
  caches that \<open>buildSvgConfig\<close> filled stay filled when the rendering throws after it.
\<close>

definition handleGetSvg ::
  "Runtime \<Rightarrow> Request \<Rightarrow> ServerState \<Rightarrow> Response option \<times> ServerState" where
  "handleGetSvg rt req st =
     (case getNowPlaying rt st of
        None \<Rightarrow> (None, st)
      | Some data \<Rightarrow>
          (case buildSvgConfig rt st (req_params req) of
             (config, st') \<Rightarrow>
               (case renderStored rt data config of
                  None \<Rightarrow> (None, st')
                | Some svg \<Rightarrow>
                    (Some \<lparr> resp_status = 200,
                            resp_headers = [(''Content-Type'', ''image/svg+xml''),
                                            (''Cache-Control'', ''s-maxage=1'')],
                            resp_body = Some svg \<rparr>,
                     st'))))"

definition handleGetNowPlaying :: "Runtime \<Rightarrow> ServerState \<Rightarrow> Response option" where
  "handleGetNowPlaying rt st =
     (case getNowPlaying rt st of
        None \<Rightarrow> None
      | Some data \<Rightarrow>
          Some \<lparr> resp_status = 200,
                 resp_headers = [(''Content-Type'', ''application/json''),
                                 (''Cache-Control'', ''no-cache'')],
                 resp_body = Some (jsonStringify rt data) \<rparr>)"

definition handleGetPreview ::
  "Runtime \<Rightarrow> Request \<Rightarrow> ServerState \<Rightarrow> Response option \<times> ServerState" where
  "handleGetPreview rt req st =
     (case getNowPlaying rt st of
        None \<Rightarrow> (None, st)
      | Some data \<Rightarrow>
          (case buildSvgConfig rt st (req_params req) of
             (config, st') \<Rightarrow>
               (case renderStored rt data config of
                  None \<Rightarrow> (None, st')
                | Some svg \<Rightarrow>
                    (Some \<lparr> resp_status = 200,
                            resp_headers = [(''Content-Type'', ''text/html; charset=utf-8''),
                                            (''Cache-Control'', ''no-cache'')],
                            resp_body = Some (previewHtml svg) \<rparr>,
                     st'))))"

definition corsHeaders :: "(string \<times> string) list" where
  "corsHeaders =
     [(''Access-Control-Allow-Origin'', ''*''),
      (''Access-Control-Allow-Methods'', ''GET, POST, OPTIONS''),
      (''Access-Control-Allow-Headers'', ''Authorization, Content-Type'')]"

text \<open>\<open>Headers.prototype.set\<close>: replace the value of the name, or append the pair.\<close>

fun setHeader :: "string \<Rightarrow> string \<Rightarrow> (string \<times> string) list \<Rightarrow> (string \<times> string) list" where
  "setHeader k v [] = [(k, v)]"
| "setHeader k v ((k', v') # hs) = (if k' = k then (k, v) # hs else (k', v') # setHeader k v hs)"

definition withCors :: "Response \<Rightarrow> Response" where
  "withCors response =
     response\<lparr> resp_headers := foldl (\<lambda>hs (k, v). setHeader k v hs) (resp_headers response)
                                    corsHeaders \<rparr>"

definition endpointListing :: string where
  \<open>endpointListing =
     ''{"endpoints":{"widget":"/now-playing.svg","preview":"/preview",'' @
     ''"update":"POST /api/now-playing","debug":"/api/now-playing"}}''\<close>

text \<open>
  The router. What a handler throws is caught here and answered 500, without the
  cross-origin headers that a handler's own response receives.
\<close>

definition handleRequest ::
  "Runtime \<Rightarrow> string \<Rightarrow> Request \<Rightarrow> ServerState \<Rightarrow> Response \<times> ServerState" where
  "handleRequest rt apiKey req st =
     (let path = req_path req
      in if req_method req = ''OPTIONS'' then
           (\<lparr> resp_status = 204, resp_headers = corsHeaders, resp_body = None \<rparr>, st)
         else
           (case (if path = ''/now-playing.svg'' \<and> req_method req = ''GET'' then
                    handleGetSvg rt req st
                  else if path = ''/preview'' \<and> req_method req = ''GET'' then
                    handleGetPreview rt req st
                  else if path = ''/api/now-playing'' \<and> req_method req = ''POST'' then
                    (case handlePostNowPlaying rt apiKey req st of
                       (response, st') \<Rightarrow> (Some response, st'))
                  else if path = ''/api/now-playing'' \<and> req_method req = ''GET'' then
                    (handleGetNowPlaying rt st, st)
                  else if path = ''/'' then
                    (Some (jsonResponse 200 endpointListing), st)
                  else
                    (Some (jsonResponse 404 notFoundBody), st)) of
              (Some response, st') \<Rightarrow> (withCors response, st')
            | (None, st') \<Rightarrow> (jsonResponse 500 internalErrorBody, st')))"

section \<open>Sample inputs\<close>

definition demoTrack :: TauonTrack where
  "demoTrack = \<lparr> tr_title = ''Song'', tr_artist = ''Band'', tr_album = ''Record'',
                 tr_album_artist = ''Band'', tr_duration = 215, tr_track_number = ''3'' \<rparr>"

definition demoStatus :: TauonStatus where
  "demoStatus = \<lparr> ts_status = ''playing'', ts_id = 5, ts_title = ''Song'', ts_artist = ''Band'',
                  ts_album = ''Record'', ts_progress = 12, ts_track = Some demoTrack \<rparr>"

definition demoPalette :: ColorPalette where
  "demoPalette = \<lparr> dominant = ''#336699'', accent = ''#3d7ab8'', highlight = ''#ff9a1a'' \<rparr>"

definition demoArt :: "int \<Rightarrow> ArtResult option" where
  "demoArt i = Some \<lparr> base64 = ''QUJD'', art_colors = demoPalette \<rparr>"

definition noArt :: "int \<Rightarrow> ArtResult option" where
  "noArt i = None"

text \<open>Track 5 was sent while playing, and a \<open>stopped\<close> observation has been seen since.\<close>

definition stoppedState :: PollerState where
  "stoppedState = initialPollerState\<lparr> lastSentTrackId := Some 5,
       lastSentStatus := Some ''playing'', lastSeenStatus := Some ''stopped'' \<rparr>"

text \<open>
  A stand-in for the conversion of a number to a string: the integer part in decimal. The
  theorems about the renderer hold for every conversion; closed examples use this one.
\<close>

definition digitChar :: "nat \<Rightarrow> char" where
  "digitChar n = ''0123456789'' ! (n mod 10)"

fun showNat :: "nat \<Rightarrow> string" where
  "showNat n = (if n < 10 then [digitChar n] else showNat (n div 10) @ [digitChar n])"

declare showNat.simps [simp del]

definition showInt :: "int \<Rightarrow> string" where
  "showInt i = (if i < 0 then CHR ''-'' # showNat (nat (- i)) else showNat (nat i))"

definition demoStr :: "real \<Rightarrow> string" where
  "demoStr r = showInt \<lfloor>r\<rfloor>"

text \<open>A snapshot published at time 1000, read at time 2000 (fresh) or 601000 (ten minutes on).\<close>

definition demoSnapshot :: NowPlayingData where
  "demoSnapshot =
     \<lparr> title = ''Song'', artist = ''Band'', album = ''Record'', albumArtist = ''Band'',
       trackNumber = ''3'', duration = 215, progress = 12, status = ''playing'',
       artBase64 = Some ''QUJD'', colors = Some demoPalette, updatedAt = 1000 \<rparr>"

text \<open>A title of sixty characters, wider than the default card's text area.\<close>

definition longTitleSnapshot :: NowPlayingData where
  "longTitleSnapshot = demoSnapshot\<lparr> title := replicate 60 (CHR ''x'') \<rparr>"

text \<open>A card whose album art leaves no room for text: the title clip width is 0.\<close>

definition wideAlbumConfig :: SvgConfig where
  "wideAlbumConfig = defaultSvgConfig\<lparr> albumSize := 760 \<rparr>"

definition centeredConfig :: SvgConfig where
  "centeredConfig = defaultSvgConfig\<lparr> textAlign := AlignCenter \<rparr>"

text \<open>
  A snapshot whose art field holds markup: the scrolling title group of the long title, as
  the card prints it.
\<close>

definition markupArtSnapshot :: NowPlayingData where
  "markupArtSnapshot =
     longTitleSnapshot\<lparr> artBase64 := Some (scrollingTitle demoStr longTitleSnapshot centeredConfig) \<rparr>"

text \<open>
  A stand-in runtime: a parser that knows four documents, no theme or font files, a store
  that accepts every write and answers every read, a renderer that throws on every stored
  object with a field of a wrong type, and the clock at 2000.
\<close>

definition staleObject :: json where
  "staleObject = JObj [(''updatedAt'', JNum 0)]"

definition demoParse :: "string \<Rightarrow> json option" where
  \<open>demoParse s =
     (if s = ''null'' then Some JNull
      else if s = ''[]'' then Some (JArr [])
      else if s = ''{}'' then Some (JObj [])
      else if s = ''{"updatedAt":0}'' then Some staleObject
      else None)\<close>

definition demoRuntime :: Runtime where
  "demoRuntime =
     \<lparr> numberToString = demoStr, jsonParse = demoParse, jsonStringify = (\<lambda>v. ''null''),
       readTextFile = (\<lambda>p. None), readFileBase64 = (\<lambda>p. None), dateNow = 2000,
       kvWrite = (\<lambda>v. True), kvRead = True, renderUntyped = (\<lambda>v config. None) \<rparr>"

definition emptyServer :: ServerState where
  "emptyServer = \<lparr> kv = None, themeCache = Map.empty, fontCache = Map.empty \<rparr>"

definition postRequest :: "string option \<Rightarrow> string \<Rightarrow> Request" where
  "postRequest auth body =
     \<lparr> req_method = ''POST'', req_path = ''/api/now-playing'', req_params = [],
       req_authorization = auth, req_body = body \<rparr>"

definition getRequest :: "string \<Rightarrow> Request" where
  "getRequest path =
     \<lparr> req_method = ''GET'', req_path = path, req_params = [],
       req_authorization = None, req_body = [] \<rparr>"

text \<open>The sample snapshot as the store holds it, and a server that holds it.\<close>

definition demoSnapshotJson :: json where
  "demoSnapshotJson =
     JObj [(''title'', JStr ''Song''), (''artist'', JStr ''Band''), (''album'', JStr ''Record''),
           (''albumArtist'', JStr ''Band''), (''trackNumber'', JStr ''3''),
           (''duration'', JNum 215), (''progress'', JNum 12), (''status'', JStr ''playing''),
           (''artBase64'', JStr ''QUJD''),
           (''colors'', JObj [(''dominant'', JStr ''#336699''), (''accent'', JStr ''#3d7ab8''),
                             (''highlight'', JStr ''#ff9a1a'')]),
           (''updatedAt'', JNum 1000)]"

definition playingServer :: ServerState where
  "playingServer = emptyServer\<lparr> kv := Some demoSnapshotJson \<rparr>"

text \<open>
  A store with the size limit of Deno KV, on a stand-in for the size of a serialised value,
  and two documents beyond the limit: a string of 70000 characters, and an array that holds
  it.
\<close>

fun jsonSize :: "json \<Rightarrow> nat" where
  "jsonSize JNull = 1"
| "jsonSize (JBool b) = 1"
| "jsonSize (JNum r) = 8"
| "jsonSize (JStr s) = length s"
| "jsonSize (JArr vs) = sum_list (map jsonSize vs)"
| "jsonSize (JObj members) = sum_list (map (\<lambda>m. length (fst m) + jsonSize (snd m)) members)"

definition longString :: string where
  "longString = replicate 70000 (CHR ''x'')"

definition longStringBody :: string where
  "longStringBody = CHR 0x22 # longString @ [CHR 0x22]"

definition longArrayBody :: string where
  "longArrayBody = CHR ''['' # longStringBody @ '']''"

definition limitedParse :: "string \<Rightarrow> json option" where
  "limitedParse s =
     (if s = longStringBody then Some (JStr longString)
      else if s = longArrayBody then Some (JArr [JStr longString])
      else demoParse s)"

definition limitedRuntime :: Runtime where
  "limitedRuntime =
     demoRuntime\<lparr> jsonParse := limitedParse, kvWrite := (\<lambda>v. jsonSize v \<le> 65536) \<rparr>"

text \<open>The same runtime when the clock shows a date of the year 2023.\<close>

definition lateRuntime :: Runtime where
  "lateRuntime = demoRuntime\<lparr> dateNow := 1700000000000 \<rparr>"

text \<open>A store that does not answer.\<close>

definition offlineRuntime :: Runtime where
  "offlineRuntime = demoRuntime\<lparr> kvRead := False \<rparr>"

text \<open>A deployment whose \<open>themes/default.json\<close> is a valid theme, 480 wide.\<close>

definition narrowTheme :: json where
  "narrowTheme =
     JObj [(''width'', JNum 480), (''height'', JNum 160),
           (''cardBackground'', JStr ''#000000''), (''cardBorder'', JStr ''#111111''),
           (''textPrimary'', JStr ''#ffffff''), (''textSecondary'', JStr ''#dddddd''),
           (''textMuted'', JStr ''#999999''), (''albumSize'', JNum 120),
           (''borderRadius'', JNum 8), (''albumPosition'', JStr ''right''),
           (''textAlign'', JStr ''center''), (''showStatus'', JBool False),
           (''showTitle'', JBool True), (''showArtist'', JBool True),
           (''showAlbum'', JBool False), (''fontTitleFamily'', JStr ''Inter''),
           (''fontBodyFamily'', JStr ''Inter''), (''fontTitleFile'', JStr ''Inter.ttf''),
           (''fontBodyFile'', JStr ''Inter.ttf''), (''fontFallback'', JStr ''sans-serif'')]"

definition themedRuntime :: Runtime where
  "themedRuntime =
     demoRuntime\<lparr> readTextFile := (\<lambda>p. if p = ''./themes/default.json'' then Some ''narrow''
                                        else None),
                  jsonParse := (\<lambda>s. if s = ''narrow'' then Some narrowTheme else demoParse s) \<rparr>"

section \<open>Properties of the rounding\<close>

lemma roundHalfEven_of_int [simp]: "roundHalfEven (of_int m) = m"
  by (simp add: roundHalfEven_def)

lemma roundHalfEven_lower: "y - 1 / 2 \<le> of_int (roundHalfEven y)"
proof -
  have "of_int \<lfloor>y\<rfloor> \<le> y" "y < of_int \<lfloor>y\<rfloor> + 1"
    by linarith+
  then show ?thesis
    unfolding roundHalfEven_def Let_def by (simp split: if_splits) linarith
qed

lemma roundHalfEven_upper: "of_int (roundHalfEven y) \<le> y + 1 / 2"
proof -
  have "of_int \<lfloor>y\<rfloor> \<le> y" "y < of_int \<lfloor>y\<rfloor> + 1"
    by linarith+
  then show ?thesis
    unfolding roundHalfEven_def Let_def by (simp split: if_splits) linarith
qed

lemma toDouble_zero [simp]: "toDouble 0 = 0"
  by (simp add: toDouble_def)

text \<open>The unit in the last place at exponent e, for e at most 52, is the reciprocal of a power of two.\<close>

lemma ulp_inverse:
  assumes "e \<le> 52"
  shows "(2::real) powr (of_int e - 52) = 1 / 2 ^ nat (52 - e)"
proof -
  have "real_of_int e - 52 = - real (nat (52 - e))"
    using assms by simp
  then have "(2::real) powr (of_int e - 52) = 2 powr (- real (nat (52 - e)))"
    by (simp only:)
  also have "\<dots> = 1 / 2 powr real (nat (52 - e))"
    by (rule powr_minus_divide)
  also have "(2::real) powr real (nat (52 - e)) = 2 ^ nat (52 - e)"
    by (rule powr_realpow) simp
  finally show ?thesis .
qed

lemma toDouble_of_int:
  assumes "\<bar>n\<bar> < 2 ^ 53"
  shows "toDouble (of_int n) = of_int n"
proof (cases "n = 0")
  case True
  then show ?thesis by simp
next
  case False
  define e where "e = \<lfloor>log 2 \<bar>of_int n :: real\<bar>\<rfloor>"
  define k where "k = nat (52 - e)"
  have abs: "\<bar>of_int n :: real\<bar> = of_int \<bar>n\<bar>"
    by simp
  have "1 \<le> \<bar>n\<bar>"
    using False by simp
  then have pos: "1 \<le> \<bar>of_int n :: real\<bar>"
    unfolding abs by (simp only: of_int_1_le_iff)
  have "(of_int \<bar>n\<bar> :: real) < of_int (2 ^ 53)"
    using assms by (simp only: of_int_less_iff)
  then have lt: "\<bar>of_int n :: real\<bar> < 2 powr 53"
    unfolding abs using powr_realpow [of "2::real" 53] by simp
  have "log 2 \<bar>of_int n :: real\<bar> < 53"
    using pos lt by (subst log_less_iff) simp_all
  then have "e < 53"
    unfolding e_def by linarith
  then have e52: "e \<le> 52" by simp
  have u: "(2::real) powr (of_int e - 52) = 1 / 2 ^ k"
    unfolding k_def by (rule ulp_inverse [OF e52])
  have "of_int n / (1 / 2 ^ k) = (of_int (n * 2 ^ k) :: real)"
    by simp
  then have "toDouble (of_int n) = of_int (n * 2 ^ k) * (1 / 2 ^ k)"
    using False unfolding toDouble_def Let_def e_def [symmetric] u
    by (simp only: of_int_eq_0_iff if_False roundHalfEven_of_int)
  then show ?thesis by simp
qed

lemma toDouble_numeral [simp]:
  "numeral k < (2 ^ 53 :: int) \<Longrightarrow> toDouble (numeral k) = numeral k"
  "numeral k < (2 ^ 53 :: int) \<Longrightarrow> toDouble (- numeral k) = - numeral k"
  "toDouble 1 = 1"
  using toDouble_of_int [of "numeral k"] toDouble_of_int [of "- numeral k"] toDouble_of_int [of 1]
  by simp_all

text \<open>Rounding loses less than one part in a hundred.\<close>

lemma toDouble_lower:
  assumes "0 < x"
  shows "99 / 100 * x \<le> toDouble x"
proof -
  define e where "e = \<lfloor>log 2 \<bar>x\<bar>\<rfloor>"
  define u where "u = (2::real) powr (of_int e - 52)"
  define y where "y = x / u"
  have upos: "0 < u" by (simp add: u_def)
  have "of_int e \<le> log 2 x"
    using assms by (simp add: e_def)
  then have "2 powr of_int e \<le> x"
    using assms by (simp add: le_log_iff)
  moreover have "2 powr of_int e = 2 powr 52 * u"
    unfolding u_def by (simp add: powr_diff)
  ultimately have "2 powr 52 * u \<le> x" by simp
  then have "2 powr 52 \<le> y"
    using upos by (simp add: y_def pos_le_divide_eq)
  moreover have "(2::real) powr 52 = 2 ^ 52"
    using powr_realpow [of 2 52] by simp
  ultimately have y: "2 ^ 52 \<le> y" by simp
  have "99 / 100 * y \<le> y - 1 / 2"
    using y by simp
  also have "\<dots> \<le> of_int (roundHalfEven y)"
    by (rule roundHalfEven_lower)
  finally have "99 / 100 * y * u \<le> of_int (roundHalfEven y) * u"
    using upos by (simp add: mult_right_mono)
  moreover have "y * u = x"
    using upos by (simp add: y_def)
  moreover have "toDouble x = of_int (roundHalfEven y) * u"
    using assms by (simp add: toDouble_def Let_def e_def u_def y_def)
  ultimately show ?thesis by (simp add: mult.assoc)
qed


lemma toDouble_eval:
  assumes "2 powr of_int e \<le> \<bar>x\<bar>" and "\<bar>x\<bar> < 2 powr (of_int e + 1)"
  shows "toDouble x = of_int (roundHalfEven (x / 2 powr (of_int e - 52))) * 2 powr (of_int e - 52)"
proof -
  have pos: "0 < \<bar>x\<bar>"
    using assms(1) by (smt (verit) powr_gt_zero)
  have "of_int e \<le> log 2 \<bar>x\<bar>"
    using assms(1) pos by (simp add: le_log_iff)
  moreover have "log 2 \<bar>x\<bar> < of_int e + 1"
    using assms(2) pos by (simp add: log_less_iff)
  ultimately have "\<lfloor>log 2 \<bar>x\<bar>\<rfloor> = e"
    by linarith
  then show ?thesis
    using pos by (simp add: toDouble_def Let_def)
qed

lemma powr_values: "(2::real) powr (- 1) = 1 / 2" "(2::real) powr (- 53) = 1 / 2 ^ 53"
  "(2::real) powr 3 = 8" "(2::real) powr 4 = 16" "(2::real) powr (- 49) = 1 / 2 ^ 49"
  "(2::real) powr 7 = 128" "(2::real) powr 8 = 256" "(2::real) powr (- 45) = 1 / 2 ^ 45"
  by (simp_all add: powr_minus_divide)

lemma double_0_55: "toDouble (11 / 20) = 4953959590107546 / 2 ^ 53"
  using toDouble_eval [of "- 1" "11 / 20"]
  by (simp add: powr_values roundHalfEven_def Let_def)

lemma double_13_2: "toDouble (24 * toDouble (11 / 20)) = 7430939385161319 / 2 ^ 49"
  using toDouble_eval [of 3 "24 * toDouble (11 / 20)"]
  by (simp add: double_0_55 powr_values roundHalfEven_def Let_def)

text \<open>
  The width of one title character is the double next above 13.2, so a text area of width
  198 holds fourteen characters, not fifteen, and a title of fifteen characters is estimated
  wider than 198.
\<close>

lemma title_char_width: "fmul titleFontSize (toDouble 0.55) = 7430939385161319 / 2 ^ 49"
  using double_13_2 by (simp add: fmul_def titleFontSize_def)

lemma titleMaxChars_198:
  assumes "textAreaWidth config = 198"
  shows "titleMaxChars config = 14"
proof -
  define q where "q = toDouble (198 / (7430939385161319 / 2 ^ 49))"
  have "q = 8444249301319679 / 2 ^ 49"
    unfolding q_def
    using toDouble_eval [of 3 "198 / (7430939385161319 / 2 ^ 49)"]
    by (simp add: powr_values roundHalfEven_def Let_def)
  then have "14 \<le> q" "q < 15"
    by simp_all
  then have f: "\<lfloor>q\<rfloor> = 14"
    by linarith
  have "titleMaxChars config = max 10 \<lfloor>q\<rfloor>"
    unfolding titleMaxChars_def assms fdiv_def title_char_width q_def by (rule refl)
  with f show ?thesis
    by simp
qed

lemma estimate_fifteen_chars:
  assumes "length t = 15"
  shows "estimateTextWidth t titleFontSize > 198"
proof -
  define w where "w = toDouble (15 * (7430939385161319 / 2 ^ 49))"
  have "w > 198"
    unfolding w_def
    using toDouble_eval [of 7 "15 * (7430939385161319 / 2 ^ 49)"]
    by (simp add: powr_values roundHalfEven_def Let_def)
  moreover have "estimateTextWidth t titleFontSize = w"
    unfolding estimateTextWidth_def title_char_width assms
    by (simp only: fmul_def of_nat_numeral w_def)
  ultimately show ?thesis
    by simp
qed

section \<open>Properties of the admission filter and the poller\<close>

lemma resolveArt_both:
  "resolveArt st tk s = (art, cols, st1) \<Longrightarrow> (art = None) = (cols = None)"
  by (auto simp: resolveArt_def Let_def truthy_def split: if_splits option.splits)

text \<open>An admitted observation whose publish succeeds advances the last-sent memory.\<close>

lemma poll_admitted:
  assumes "fetched tk = Some s"
    and "shouldUpdate s (lastSentTrackId st) (lastSentStatus st) (lastSeenStatus st)"
    and "delivered tk"
  shows "\<exists>st' d. poll st tk = (st', Some d) \<and> lastSentTrackId st' = Some (ts_id s) \<and>
           lastSentStatus st' = Some (ts_status s) \<and> lastSeenStatus st' = Some (ts_status s)"
proof -
  from assms(2) have playable: "ts_status s = ''playing'' \<or> ts_status s = ''paused''"
    by (auto simp: shouldUpdate_def Let_def split: if_splits)
  obtain art cols st1 where r: "resolveArt st tk s = (art, cols, st1)"
    by (cases "resolveArt st tk s") auto
  show ?thesis
    using assms playable r by (auto simp: poll_def Let_def)
qed

text \<open>A rejected observation only records the status it saw.\<close>

lemma poll_suppressed:
  assumes "fetched tk = Some s"
    and "\<not> shouldUpdate s (lastSentTrackId st) (lastSentStatus st) (lastSeenStatus st)"
  shows "poll st tk = (st\<lparr> lastSeenStatus := Some (ts_status s) \<rparr>, None)"
  using assms by (simp add: poll_def)

lemma observe_simps:
  "fetched (observe b f n t s) = Some (b\<lparr> ts_id := t, ts_status := s \<rparr>)"
  "delivered (observe b f n t s)"
  by (simp_all add: observe_def)

text \<open>
  Claim C1. From empty memory, with every admitted observation published successfully, the
  observations of tracks 5, 5, 5, 7, 7 in statuses playing, playing, paused, paused, paused
  are published at indices 0, 2 and 3 and suppressed at indices 1 and 4. The other fields
  of each observation, the art fetches and the clock are arbitrary.
\<close>

theorem admission_sequence:
  "map published (pollAll initialPollerState
     [observe b0 f0 n0 5 ''playing'', observe b1 f1 n1 5 ''playing'',
      observe b2 f2 n2 5 ''paused'', observe b3 f3 n3 7 ''paused'',
      observe b4 f4 n4 7 ''paused'']) = [True, False, True, True, False]"
proof -
  let ?s0 = initialPollerState
  note f = observe_simps
  obtain s1 d0 where p0: "poll ?s0 (observe b0 f0 n0 5 ''playing'') = (s1, Some d0)"
    and s1: "lastSentTrackId s1 = Some 5" "lastSentStatus s1 = Some ''playing''"
      "lastSeenStatus s1 = Some ''playing''"
    using poll_admitted [of "observe b0 f0 n0 5 ''playing''"
        "b0\<lparr> ts_id := 5, ts_status := ''playing'' \<rparr>" "?s0"] f
    by (auto simp: shouldUpdate_def initialPollerState_def)
  define s2 where "s2 = s1\<lparr> lastSeenStatus := Some ''playing'' \<rparr>"
  have p1: "poll s1 (observe b1 f1 n1 5 ''playing'') = (s2, None)"
    using poll_suppressed [of "observe b1 f1 n1 5 ''playing''"
        "b1\<lparr> ts_id := 5, ts_status := ''playing'' \<rparr>" "s1"] f s1
    by (simp add: shouldUpdate_def s2_def)
  have s2: "lastSentTrackId s2 = Some 5" "lastSentStatus s2 = Some ''playing''"
    "lastSeenStatus s2 = Some ''playing''"
    using s1 by (simp_all add: s2_def)
  obtain s3 d2 where p2: "poll s2 (observe b2 f2 n2 5 ''paused'') = (s3, Some d2)"
    and s3: "lastSentTrackId s3 = Some 5" "lastSentStatus s3 = Some ''paused''"
      "lastSeenStatus s3 = Some ''paused''"
    using poll_admitted [of "observe b2 f2 n2 5 ''paused''"
        "b2\<lparr> ts_id := 5, ts_status := ''paused'' \<rparr>" "s2"] f s2
    by (auto simp: shouldUpdate_def)
  obtain s4 d3 where p3: "poll s3 (observe b3 f3 n3 7 ''paused'') = (s4, Some d3)"
    and s4: "lastSentTrackId s4 = Some 7" "lastSentStatus s4 = Some ''paused''"
      "lastSeenStatus s4 = Some ''paused''"
    using poll_admitted [of "observe b3 f3 n3 7 ''paused''"
        "b3\<lparr> ts_id := 7, ts_status := ''paused'' \<rparr>" "s3"] f s3
    by (auto simp: shouldUpdate_def)
  have p4: "poll s4 (observe b4 f4 n4 7 ''paused'') =
      (s4\<lparr> lastSeenStatus := Some ''paused'' \<rparr>, None)"
    using poll_suppressed [of "observe b4 f4 n4 7 ''paused''"
        "b4\<lparr> ts_id := 7, ts_status := ''paused'' \<rparr>" "s4"] f s4
    by (simp add: shouldUpdate_def)
  show ?thesis
    by (simp add: p0 p1 p2 p3 p4 published_def)
qed

theorem admission_sequence_witness:
  "map published (pollAll initialPollerState
     [observe demoStatus demoArt 1000 5 ''playing'', observe demoStatus noArt 2000 5 ''playing'',
      observe demoStatus demoArt 3000 5 ''paused'', observe demoStatus noArt 4000 7 ''paused'',
      observe demoStatus demoArt 5000 7 ''paused'']) = [True, False, True, True, False]"
  by (rule admission_sequence)

text \<open>
  Claim C2. For every track id \<open>t\<close>: when the memory holds \<open>t\<close> as the last-sent track and
  \<open>playing\<close> as the last-sent status, but the last-seen status is \<open>stopped\<close>, an observation
  of track \<open>t\<close> in status \<open>playing\<close> is admitted by the filter and \<open>poll\<close> publishes it,
  although track id and status both equal the last-sent values.
\<close>

theorem resume_from_stopped:
  assumes "lastSentTrackId st = Some t"
    and "lastSentStatus st = Some ''playing''"
    and "lastSeenStatus st = Some ''stopped''"
    and "fetched tk = Some s"
    and "ts_id s = t"
    and "ts_status s = ''playing''"
  shows "shouldUpdate s (lastSentTrackId st) (lastSentStatus st) (lastSeenStatus st) \<and>
         published (snd (poll st tk))"
proof -
  have adm: "shouldUpdate s (lastSentTrackId st) (lastSentStatus st) (lastSeenStatus st)"
    using assms by (simp add: shouldUpdate_def)
  obtain art cols st1 where r: "resolveArt st tk s = (art, cols, st1)"
    by (cases "resolveArt st tk s") auto
  have "published (snd (poll st tk))"
    using assms(4,6) adm r by (simp add: poll_def Let_def published_def)
  with adm show ?thesis by simp
qed

theorem resume_from_stopped_witness:
  "shouldUpdate demoStatus (Some 5) (Some ''playing'') (Some ''stopped'') \<and>
   published (snd (poll stoppedState
      \<lparr> fetched = Some demoStatus, fetchArt = demoArt, delivered = True, clock = 1000 \<rparr>))"
  using resume_from_stopped [of stoppedState 5
      "\<lparr> fetched = Some demoStatus, fetchArt = demoArt, delivered = True, clock = 1000 \<rparr>"
      demoStatus]
  by (simp add: stoppedState_def initialPollerState_def demoStatus_def)

text \<open>
  Claim C5. Every snapshot that \<open>poll\<close> assembles and hands to \<open>sendToDeploy\<close> has
  \<open>artBase64\<close> and \<open>colors\<close> both present or both null, whatever the poller's memory and
  whatever the outside world answers.
\<close>

theorem art_and_colors_together:
  assumes "poll st tk = (st', Some d)"
  shows "(artBase64 d = None) = (colors d = None)"
proof -
  from assms obtain s where s: "fetched tk = Some s"
    by (cases "fetched tk") (auto simp: poll_def)
  obtain art cols st1 where r: "resolveArt st tk s = (art, cols, st1)"
    by (cases "resolveArt st tk s") auto
  from assms s r have "d = assemble s art cols (clock tk)"
    by (auto simp: poll_def Let_def split: if_splits)
  then have "artBase64 d = art" "colors d = cols"
    by (simp_all add: assemble_def Let_def)
  with resolveArt_both [OF r] show ?thesis by simp
qed

theorem art_and_colors_together_witness:
  "\<exists>st' d. poll initialPollerState
       \<lparr> fetched = Some demoStatus, fetchArt = demoArt, delivered = True, clock = 1000 \<rparr>
       = (st', Some d) \<and>
     artBase64 d = Some ''QUJD'' \<and> (artBase64 d = None) = (colors d = None)"
proof -
  let ?tk = "\<lparr> fetched = Some demoStatus, fetchArt = demoArt, delivered = True, clock = 1000 \<rparr>"
  have alb: "trim ''Record'' = ''Record''"
    by (simp add: trim_def isSpace_def)
  have art: "resolveArt initialPollerState ?tk demoStatus =
      (Some ''QUJD'', Some demoPalette,
       initialPollerState\<lparr> lastAlbumName := Some ''Record'', lastArtBase64 := Some ''QUJD'',
         lastColors := Some demoPalette \<rparr>)"
    by (simp add: resolveArt_def Let_def demoStatus_def demoTrack_def demoArt_def orElse_def alb
        initialPollerState_def truthy_def)
  have adm: "shouldUpdate demoStatus None None None"
    by (simp add: shouldUpdate_def demoStatus_def)
  let ?d = "assemble demoStatus (Some ''QUJD'') (Some demoPalette) 1000"
  let ?st = "initialPollerState\<lparr> lastAlbumName := Some ''Record'',
      lastArtBase64 := Some ''QUJD'', lastColors := Some demoPalette,
      lastSentTrackId := Some (ts_id demoStatus), lastSentStatus := Some (ts_status demoStatus),
      lastSeenStatus := Some (ts_status demoStatus) \<rparr>"
  have st: "ts_status demoStatus = ''playing''"
    by (simp add: demoStatus_def)
  have p: "poll initialPollerState ?tk = (?st, Some ?d)"
    using adm by (simp add: poll_def Let_def art st) (simp add: initialPollerState_def)
  have a: "artBase64 ?d = Some ''QUJD''"
    by (simp add: assemble_def Let_def)
  have c: "(artBase64 ?d = None) = (colors ?d = None)"
    by (rule art_and_colors_together [OF p])
  from p a c show ?thesis
    by (intro exI [of _ ?st] exI [of _ ?d] conjI)
qed

section \<open>Properties of the colour math\<close>

lemma hex_table: "list_all hexOk ''0123456789abcdefABCDEF''"
  by code_simp

lemma hexdigit_ok: "isHexDigit c \<Longrightarrow> hexOk c"
  using hex_table unfolding isHexDigit_def list_all_iff by blast

lemma parse_two:
  assumes "isHexDigit c1" "isHexDigit c2"
  shows "\<exists>v1 v2. v1 < 16 \<and> v2 < 16 \<and> parseInt16 [c1, c2] = Some (int (16 * v1 + v2)) \<and>
     hexDigit v1 = toLowerChar c1 \<and> hexDigit v2 = toLowerChar c2"
proof -
  from hexdigit_ok [OF assms(1)] obtain v1 where v1: "v1 < 16" "digitValue c1 = Some v1"
    "hexDigit v1 = toLowerChar c1" "\<not> isSpace c1" "c1 \<noteq> CHR ''+''" "c1 \<noteq> CHR ''-''"
    by (auto simp: hexOk_def split: option.splits)
  from hexdigit_ok [OF assms(2)] obtain v2 where v2: "v2 < 16" "digitValue c2 = Some v2"
    "hexDigit v2 = toLowerChar c2" "c2 \<noteq> CHR ''x''" "c2 \<noteq> CHR ''X''"
    by (auto simp: hexOk_def split: option.splits)
  have "parseInt16 [c1, c2] = Some (int (16 * v1 + v2))"
    using v1 v2 by (simp add: parseInt16_def Let_def)
  with v1 v2 show ?thesis by blast
qed

lemma numberToString16_nat: "numberToString16 (Some (int n)) = toString16 n"
  by (simp add: numberToString16_def)

lemma toHex2:
  assumes "v1 < 16" "v2 < 16"
  shows "padStart 2 (CHR ''0'') (numberToString16 (Some (int (16 * v1 + v2)))) = [hexDigit v1, hexDigit v2]"
proof (cases "v1 = 0")
  case True
  then show ?thesis using assms
    by (simp add: numberToString16_def padStart_def toString16.simps [of v2] hexDigit_def)
next
  case False
  have "toString16 (16 * v1 + v2) = toString16 v1 @ [hexDigit v2]"
    using False assms by (subst toString16.simps) simp
  also have "toString16 v1 = [hexDigit v1]"
    using assms by (subst toString16.simps) simp
  finally have "toString16 (16 * v1 + v2) = [hexDigit v1, hexDigit v2]" by simp
  then show ?thesis
    by (simp only: numberToString16_nat padStart_def) simp
qed

lemma jsRound_int: "jsRound (of_int n) = n"
  by (simp add: jsRound_def)

lemma mixChannel_0: "0 \<le> x \<Longrightarrow> x \<le> 255 \<Longrightarrow> mixChannel (Some x) (Some y) 0 = Some x"
  by (simp add: mixChannel_def jsRound_int clamp_def)

lemma mixChannel_1: "0 \<le> y \<Longrightarrow> y \<le> 255 \<Longrightarrow> mixChannel (Some x) (Some y) 1 = Some y"
  by (simp add: mixChannel_def jsRound_int clamp_def)

text \<open>A channel read from two hexadecimal digits prints back as the two digits in lower case.\<close>

lemma channel_roundtrip:
  assumes "isHexDigit c1" "isHexDigit c2"
  shows "\<exists>x. parseInt16 [c1, c2] = Some x \<and> 0 \<le> x \<and> x \<le> 255 \<and>
     padStart 2 (CHR ''0'') (numberToString16 (Some x)) = [toLowerChar c1, toLowerChar c2]"
proof -
  from parse_two [OF assms] obtain v1 v2 where v: "v1 < 16" "v2 < 16"
    "parseInt16 [c1, c2] = Some (int (16 * v1 + v2))"
    "hexDigit v1 = toLowerChar c1" "hexDigit v2 = toLowerChar c2" by blast
  have "int (16 * v1 + v2) \<le> 255" using v(1,2) by simp
  moreover have "0 \<le> int (16 * v1 + v2)" by simp
  ultimately show ?thesis
    using v(3) toHex2 [OF v(1,2)] v(4,5) by (intro exI [of _ "int (16 * v1 + v2)"]) simp
qed

lemma validHex_shape:
  assumes "validHex s"
  obtains c1 c2 c3 c4 c5 c6 where "s = [CHR ''#'', c1, c2, c3, c4, c5, c6]"
    "isHexDigit c1" "isHexDigit c2" "isHexDigit c3" "isHexDigit c4" "isHexDigit c5" "isHexDigit c6"
proof -
  from assms have l: "length s = 7" and h: "hd s = CHR ''#''" and a: "list_all isHexDigit (tl s)"
    by (simp_all add: validHex_def)
  from l obtain h0 c1 c2 c3 c4 c5 c6 where s: "s = [h0, c1, c2, c3, c4, c5, c6]"
    by (auto simp: length_Suc_conv eval_nat_numeral)
  with h a that show ?thesis by simp
qed

lemma hexToRgb_valid:
  assumes "isHexDigit c1" "isHexDigit c2" "isHexDigit c3" "isHexDigit c4" "isHexDigit c5" "isHexDigit c6"
  shows "hexToRgb [CHR ''#'', c1, c2, c3, c4, c5, c6] =
     \<lparr> rgb_r = parseInt16 [c1, c2], rgb_g = parseInt16 [c3, c4], rgb_b = parseInt16 [c5, c6] \<rparr>"
  by (simp add: hexToRgb_def slice_def)

lemma mix_identity:
  assumes "validHex A" "validHex B"
  shows "mixColors A B 0 = toLowerCase A" "mixColors A B 1 = toLowerCase B"
proof -
  from assms(1) obtain a1 a2 a3 a4 a5 a6 where A: "A = [CHR ''#'', a1, a2, a3, a4, a5, a6]"
    and a: "isHexDigit a1" "isHexDigit a2" "isHexDigit a3" "isHexDigit a4" "isHexDigit a5" "isHexDigit a6"
    by (rule validHex_shape)
  from assms(2) obtain b1 b2 b3 b4 b5 b6 where B: "B = [CHR ''#'', b1, b2, b3, b4, b5, b6]"
    and b: "isHexDigit b1" "isHexDigit b2" "isHexDigit b3" "isHexDigit b4" "isHexDigit b5" "isHexDigit b6"
    by (rule validHex_shape)
  obtain ar where ar: "parseInt16 [a1, a2] = Some ar" "0 \<le> ar" "ar \<le> 255"
    "padStart 2 (CHR ''0'') (numberToString16 (Some ar)) = [toLowerChar a1, toLowerChar a2]"
    using channel_roundtrip [OF a(1,2)] by blast
  obtain ag where ag: "parseInt16 [a3, a4] = Some ag" "0 \<le> ag" "ag \<le> 255"
    "padStart 2 (CHR ''0'') (numberToString16 (Some ag)) = [toLowerChar a3, toLowerChar a4]"
    using channel_roundtrip [OF a(3,4)] by blast
  obtain ab where ab: "parseInt16 [a5, a6] = Some ab" "0 \<le> ab" "ab \<le> 255"
    "padStart 2 (CHR ''0'') (numberToString16 (Some ab)) = [toLowerChar a5, toLowerChar a6]"
    using channel_roundtrip [OF a(5,6)] by blast
  obtain br where br: "parseInt16 [b1, b2] = Some br" "0 \<le> br" "br \<le> 255"
    "padStart 2 (CHR ''0'') (numberToString16 (Some br)) = [toLowerChar b1, toLowerChar b2]"
    using channel_roundtrip [OF b(1,2)] by blast
  obtain bg where bg: "parseInt16 [b3, b4] = Some bg" "0 \<le> bg" "bg \<le> 255"
    "padStart 2 (CHR ''0'') (numberToString16 (Some bg)) = [toLowerChar b3, toLowerChar b4]"
    using channel_roundtrip [OF b(3,4)] by blast
  obtain bb where bb: "parseInt16 [b5, b6] = Some bb" "0 \<le> bb" "bb \<le> 255"
    "padStart 2 (CHR ''0'') (numberToString16 (Some bb)) = [toLowerChar b5, toLowerChar b6]"
    using channel_roundtrip [OF b(5,6)] by blast
  have hash: "toLowerChar (CHR ''#'') = CHR ''#''"
    by (simp add: toLowerChar_def)
  show "mixColors A B 0 = toLowerCase A"
    unfolding A B mixColors_def Let_def hexToRgb_valid [OF a] hexToRgb_valid [OF b]
    by (simp add: ar ag ab br bg bb mixChannel_0 rgbToHex_def toLowerCase_def hash)
  show "mixColors A B 1 = toLowerCase B"
    unfolding A B mixColors_def Let_def hexToRgb_valid [OF a] hexToRgb_valid [OF b]
    by (simp add: ar ag ab br bg bb mixChannel_1 rgbToHex_def toLowerCase_def hash)
qed

text \<open>Lower-casing a valid colour string gives a valid string for the same colour.\<close>

lemma parseInt16_lower:
  assumes "isHexDigit c1" "isHexDigit c2"
  shows "parseInt16 [toLowerChar c1, toLowerChar c2] = parseInt16 [c1, c2]"
proof -
  from hexdigit_ok [OF assms(1)] obtain v1 where c1: "digitValue c1 = Some v1"
    "digitValue (toLowerChar c1) = Some v1" "isHexDigit (toLowerChar c1)"
    "\<not> isSpace c1" "c1 \<noteq> CHR ''+''" "c1 \<noteq> CHR ''-''"
    by (auto simp: hexOk_def split: option.splits)
  from hexdigit_ok [OF assms(2)] obtain v2 where c2: "digitValue c2 = Some v2"
    "digitValue (toLowerChar c2) = Some v2" "isHexDigit (toLowerChar c2)"
    "c2 \<noteq> CHR ''x''" "c2 \<noteq> CHR ''X''"
    by (auto simp: hexOk_def split: option.splits)
  from hexdigit_ok [OF c1(3)] have l1: "\<not> isSpace (toLowerChar c1)"
    "toLowerChar c1 \<noteq> CHR ''+''" "toLowerChar c1 \<noteq> CHR ''-''"
    by (simp_all add: hexOk_def)
  from hexdigit_ok [OF c2(3)] have l2: "toLowerChar c2 \<noteq> CHR ''x''" "toLowerChar c2 \<noteq> CHR ''X''"
    by (simp_all add: hexOk_def)
  have "parseInt16 [c1, c2] = Some (int (16 * v1 + v2))"
    using c1 c2 by (simp add: parseInt16_def Let_def)
  moreover have "parseInt16 [toLowerChar c1, toLowerChar c2] = Some (int (16 * v1 + v2))"
    using c1(2) c2(2) l1 l2 by (simp add: parseInt16_def Let_def)
  ultimately show ?thesis by simp
qed

lemma toLowerCase_valid:
  assumes "validHex A"
  shows "validHex (toLowerCase A)" "hexToRgb (toLowerCase A) = hexToRgb A"
proof -
  from assms obtain a1 a2 a3 a4 a5 a6 where A: "A = [CHR ''#'', a1, a2, a3, a4, a5, a6]"
    and a: "isHexDigit a1" "isHexDigit a2" "isHexDigit a3" "isHexDigit a4" "isHexDigit a5"
      "isHexDigit a6"
    by (rule validHex_shape)
  have hash: "toLowerChar (CHR ''#'') = CHR ''#''"
    by (simp add: toLowerChar_def)
  have l: "isHexDigit (toLowerChar a1)" "isHexDigit (toLowerChar a2)" "isHexDigit (toLowerChar a3)"
    "isHexDigit (toLowerChar a4)" "isHexDigit (toLowerChar a5)" "isHexDigit (toLowerChar a6)"
    using a [THEN hexdigit_ok] by (simp_all add: hexOk_def)
  show "validHex (toLowerCase A)"
    using l by (simp add: A validHex_def toLowerCase_def hash)
  have "hexToRgb (toLowerCase A) =
      \<lparr> rgb_r = parseInt16 [toLowerChar a1, toLowerChar a2],
        rgb_g = parseInt16 [toLowerChar a3, toLowerChar a4],
        rgb_b = parseInt16 [toLowerChar a5, toLowerChar a6] \<rparr>"
    using hexToRgb_valid [OF l] by (simp add: A toLowerCase_def hash)
  then show "hexToRgb (toLowerCase A) = hexToRgb A"
    by (simp add: A hexToRgb_valid [OF a] parseInt16_lower a)
qed

text \<open>
  Claim C8, as the code has it. For all colour strings \<open>A\<close> and \<open>B\<close> made of \<open>#\<close> and six
  hexadecimal digits, \<open>mixColors(A, B, 0)\<close> is \<open>A\<close> written with lower-case digits and
  \<open>mixColors(A, B, 1)\<close> is \<open>B\<close> written with lower-case digits; each result has the same red,
  green and blue channels as the input it stands for, and is that input itself when the
  input is written in lower case.
\<close>

theorem mixColors_identity_lowercase:
  assumes "validHex A" and "validHex B"
  shows "mixColors A B 0 = toLowerCase A \<and> mixColors A B 1 = toLowerCase B \<and>
         hexToRgb (mixColors A B 0) = hexToRgb A \<and> hexToRgb (mixColors A B 1) = hexToRgb B \<and>
         (toLowerCase A = A \<longrightarrow> mixColors A B 0 = A) \<and>
         (toLowerCase B = B \<longrightarrow> mixColors A B 1 = B)"
  using mix_identity [OF assms] toLowerCase_valid(2) [OF assms(1)] toLowerCase_valid(2) [OF assms(2)]
  by simp

theorem mixColors_identity_lowercase_witness:
  "mixColors ''#FAFAFA'' ''#0d0f12'' 0 = ''#fafafa'' \<and>
   mixColors ''#FAFAFA'' ''#0d0f12'' 1 = ''#0d0f12'' \<and>
   mixColors ''#27272a'' ''#050505'' 0 = ''#27272a''"
proof -
  have v: "validHex ''#FAFAFA''" "validHex ''#0d0f12''" "validHex ''#27272a''" "validHex ''#050505''"
    by (simp_all add: validHex_def isHexDigit_def)
  have l: "toLowerCase ''#FAFAFA'' = ''#fafafa''" "toLowerCase ''#0d0f12'' = ''#0d0f12''"
    "toLowerCase ''#27272a'' = ''#27272a''"
    by (simp_all add: toLowerCase_def toLowerChar_def)
  from mixColors_identity_lowercase [OF v(1,2)] mixColors_identity_lowercase [OF v(3,4)] l
  show ?thesis by simp
qed

text \<open>
  Claim C8, as the specification states it, fails on an upper-case input: the blend of
  \<open>#FAFAFA\<close> at ratio 0 is \<open>#fafafa\<close>, a different string.
\<close>

theorem mixColors_identity_counterexample:
  "validHex ''#FAFAFA'' \<and> validHex ''#000000'' \<and>
   mixColors ''#FAFAFA'' ''#000000'' 0 = ''#fafafa'' \<and>
   mixColors ''#FAFAFA'' ''#000000'' 0 \<noteq> ''#FAFAFA''"
  by code_simp

section \<open>Properties of the card renderer\<close>

lemma sub_left: "sublist xs ys \<Longrightarrow> sublist xs (zs @ ys)"
  by (metis sublist_append_leftI sublist_order.order_trans)

lemma sub_right: "sublist xs ys \<Longrightarrow> sublist xs (ys @ zs)"
  by (metis sublist_append_rightI sublist_order.order_trans)

lemma sub_trans: "sublist xs ys \<Longrightarrow> sublist ys zs \<Longrightarrow> sublist xs zs"
  by (rule sublist_order.order_trans)

text \<open>Where each block of markup sits in the one that encloses it.\<close>

lemma statusText_in_pill: "sublist (statusText now (Some d)) (statusPill str now d config)"
  unfolding statusPill_def by (rule sublist_append_rightI | rule sub_left)+

lemma statusBlock_in_track: "sublist (statusBlock str now d config) (trackText str now d config)"
  unfolding trackText_def by (rule sublist_append_rightI | rule sub_left)+

lemma titleBlock_in_track: "sublist (titleBlock str d config) (trackText str now d config)"
  unfolding trackText_def by (rule sublist_append_rightI | rule sub_left)+

lemma titleMarkup_in_block:
  "showTitle config \<Longrightarrow> sublist (titleMarkup str d config) (titleBlock str d config)"
  unfolding titleBlock_def by (simp only: if_True) ((rule sublist_append_rightI | rule sub_left)+)

lemma textContent_in_svg:
  "sublist (textContent str now data config) (generateNowPlayingSvg str now data config)"
  unfolding generateNowPlayingSvg_def by (rule sublist_append_rightI | rule sub_left)+

lemma trackText_in_svg:
  assumes "hasTrack now (Some d)"
  shows "sublist (trackText str now d config) (generateNowPlayingSvg str now (Some d) config)"
  using textContent_in_svg [of str now "Some d" config] assms by (simp add: textContent_def)

text \<open>
  Claim C3. For every snapshot whose \<open>updatedAt\<close> lies ten minutes before the render time,
  whatever its \<open>status\<close> field holds, and every configuration that shows the status line:
  the text of the status pill is \<open>LAST PLAYED\<close> and the rendered SVG contains it.
\<close>

theorem stale_snapshot_last_played:
  assumes "updatedAt d = now - 10 * 60 * 1000" and "showStatus config"
  shows "statusText now (Some d) = ''LAST PLAYED'' \<and>
         sublist ''LAST PLAYED'' (generateNowPlayingSvg str now (Some d) config)"
proof -
  have s: "isStale now (Some d)"
    using assms(1) by (simp add: isStale_def)
  then have t: "statusText now (Some d) = ''LAST PLAYED''"
    by (simp add: statusText_def)
  from s have h: "hasTrack now (Some d)"
    by (simp add: hasTrack_def)
  have "sublist (statusText now (Some d)) (statusBlock str now d config)"
    using assms(2) statusText_in_pill by (simp add: statusBlock_def)
  then have "sublist (statusText now (Some d)) (trackText str now d config)"
    by (rule sub_trans [OF _ statusBlock_in_track])
  then have "sublist (statusText now (Some d)) (generateNowPlayingSvg str now (Some d) config)"
    by (rule sub_trans [OF _ trackText_in_svg [OF h]])
  with t show ?thesis by simp
qed

theorem stale_snapshot_last_played_witness:
  "statusText 601000 (Some demoSnapshot) = ''LAST PLAYED'' \<and>
   sublist ''LAST PLAYED'' (generateNowPlayingSvg demoStr 601000 (Some demoSnapshot) defaultSvgConfig) \<and>
   sublist ''LAST PLAYED''
     (generateNowPlayingSvg demoStr 601000 (Some (demoSnapshot\<lparr> status := ''paused'' \<rparr>))
        defaultSvgConfig)"
proof -
  have u: "updatedAt demoSnapshot = 601000 - 10 * 60 * 1000"
    "updatedAt (demoSnapshot\<lparr> status := ''paused'' \<rparr>) = 601000 - 10 * 60 * 1000"
    by (simp_all add: demoSnapshot_def)
  have c: "showStatus defaultSvgConfig"
    by (simp add: defaultSvgConfig_def)
  from stale_snapshot_last_played [OF u(1) c, of demoStr]
    stale_snapshot_last_played [OF u(2) c, of demoStr]
  show ?thesis by simp
qed

text \<open>Strings without \<open><\<close>.\<close>

lemma plainText_Nil [simp]: "plainText []"
  by (simp add: plainText_def)

lemma plainText_Cons [simp]: "plainText (c # s) = (c \<noteq> CHR ''<'' \<and> plainText s)"
  by (auto simp: plainText_def)

lemma plainText_append [simp]: "plainText (xs @ ys) = (plainText xs \<and> plainText ys)"
  by (auto simp: plainText_def)

lemma plain_sq [simp]: "plainText sq"
  by (simp add: sq_def)

lemma plain_orElse: "plainText a \<Longrightarrow> plainText b \<Longrightarrow> plainText (orElse a b)"
  by (simp add: orElse_def)

lemma plain_orElseOpt: "plainOpt a \<Longrightarrow> plainText b \<Longrightarrow> plainText (orElseOpt a b)"
  by (cases a) (simp_all add: orElseOpt_def plainOpt_def plain_orElse)

lemma plain_replaceAll:
  "plainText rep \<Longrightarrow> plainText s \<or> c = CHR ''<'' \<Longrightarrow> plainText (replaceAll c rep s)"
  by (induction s) (auto simp: replaceAll_def)

lemma plain_escapeXml [simp]: "plainText (escapeXml s)"
  unfolding escapeXml_def by (intro plain_replaceAll disjI1 disjI2) simp_all

lemma plain_toString16: "plainText (toString16 n)"
proof (induction n rule: toString16.induct)
  case (1 n)
  have "hexDigit k \<noteq> CHR ''<''" if "k < 16" for k
  proof -
    from that have "hexDigit k \<in> set ''0123456789abcdef''"
      unfolding hexDigit_def by (intro nth_mem) simp
    then show ?thesis by auto
  qed
  with 1 show ?case
    by (subst toString16.simps) simp
qed

lemma plain_padStart: "plainText s \<Longrightarrow> c \<noteq> CHR ''<'' \<Longrightarrow> plainText (padStart n c s)"
  by (simp add: padStart_def plainText_def)

lemma plain_numberToString16: "plainText (numberToString16 v)"
  by (cases v) (simp_all add: numberToString16_def plain_toString16)

lemma plain_mixColors [simp]: "plainText (mixColors a b r)"
  by (simp add: mixColors_def Let_def rgbToHex_def plain_padStart plain_numberToString16)

lemma plain_waveSegments: "\<forall>r. plainText (str r) \<Longrightarrow> plainText (waveSegments str vs)"
  by (induction str vs rule: waveSegments.induct) simp_all

lemma plain_wavePath:
  "\<forall>r. plainText (str r) \<Longrightarrow> plainText (generateWavePath str startX endX baseY h points seed)"
  by (simp add: generateWavePath_def Let_def plain_waveSegments split: list.split)

text \<open>
  The scanner reaches the empty state on every string that holds the pattern, and reads a
  string without \<open><\<close> without leaving its initial state.
\<close>

lemma tagScan_Nil [simp]: "tagScan st [] = st"
  by (simp add: tagScan_def)

lemma tagScan_Cons [simp]: "tagScan st (c # cs) = tagScan (tagStep st c) cs"
  by (simp add: tagScan_def)

lemma tagScan_append [simp]: "tagScan st (xs @ ys) = tagScan (tagScan st xs) ys"
  by (simp add: tagScan_def)

lemma tagScan_found [simp]: "tagScan [] s = []"
  by (induction s) (simp_all add: tagStep_def)

lemma tagStep_Nil [simp]: "tagStep [] c = []"
  by (simp add: tagStep_def)

lemma tagStep_Cons:
  "tagStep (x # xs) c =
     (if c = CHR ''<'' then ''animateTransform'' else if c = x then xs else animateTag)"
  by (simp add: tagStep_def)

lemma tagScan_pattern: "tagScan st animateTag = []"
  by (cases st) (simp_all add: tagStep_Cons)

lemma tagScan_sound:
  assumes "sublist animateTag s"
  shows "tagScan st s = []"
proof -
  from assms obtain ps ss where s: "s = ps @ animateTag @ ss"
    by (auto simp: sublist_def)
  have "tagScan st s = tagScan (tagScan (tagScan st ps) animateTag) ss"
    unfolding s by (simp only: tagScan_append)
  then show ?thesis
    by (simp only: tagScan_pattern tagScan_found)
qed

lemma tagScan_plain: "plainText s \<Longrightarrow> tagScan animateTag s = animateTag"
  by (induction s) (simp_all add: tagStep_Cons)

lemma scan_layer:
  assumes "\<forall>r. plainText (str r)" and "plainText color"
  shows "tagScan animateTag
           (generateWaveformLayer str color opacity startX endX baseY h seed seconds) = animateTag"
  using assms
  by (simp add: generateWaveformLayer_def Let_def tagStep_Cons tagScan_plain plain_wavePath)

text \<open>The strings that the template inserts, read by the scanner.\<close>

lemma plain_textAnchor: "plainText (textAnchor config)"
  by (simp add: textAnchor_def)

lemma plain_statusText: "plainText (statusText now data)"
  by (simp add: statusText_def)

lemma plain_fontCss:
  assumes "plainConfig config"
  shows "plainText (fontFallbackCss config)" "plainText (fontTitleFamilyCss config)"
    "plainText (fontBodyFamilyCss config)"
  using assms
  by (simp_all add: plainConfig_def fontFallbackCss_def fontTitleFamilyCss_def
      fontBodyFamilyCss_def plain_orElse)

lemma plain_fontFaces:
  assumes "plainConfig config"
  shows "plainText (fontFaces config)"
proof -
  have t: "plainText (titleFontFace config)"
    using assms by (simp add: titleFontFace_def plainConfig_def plain_orElseOpt)
  have b: "plainText (bodyFontFace config)"
    using assms by (simp add: bodyFontFace_def plainConfig_def plain_orElseOpt)
  from t b show ?thesis
    by (simp add: fontFaces_def)
qed

lemma plain_palette:
  assumes "plainSnapshot d"
  shows "plainText (accentColor (Some d))" "plainText (highlightColor (Some d))"
  using assms
  by (auto simp: plainSnapshot_def accentColor_def highlightColor_def paletteField_def
      intro!: plain_orElse split: option.splits)

lemma scan_free [simp]:
  "tagScan animateTag (escapeXml t) = animateTag"
  "tagScan animateTag (mixColors a b r) = animateTag"
  "tagScan animateTag (textAnchor config) = animateTag"
  "tagScan animateTag (statusText now data) = animateTag"
  by (simp_all add: tagScan_plain plain_textAnchor plain_statusText)

lemma scan_atoms:
  assumes "\<forall>r. plainText (str r)" and "plainConfig config" and "plainSnapshot d"
  shows "tagScan animateTag (str x) = animateTag"
    "tagScan animateTag (textPrimary config) = animateTag"
    "tagScan animateTag (textSecondary config) = animateTag"
    "tagScan animateTag (textMuted config) = animateTag"
    "tagScan animateTag (fontTitleFamilyCss config) = animateTag"
    "tagScan animateTag (fontBodyFamilyCss config) = animateTag"
    "tagScan animateTag (accentColor (Some d)) = animateTag"
    "tagScan animateTag (highlightColor (Some d)) = animateTag"
    "tagScan animateTag (styleBlock config) = animateTag"
proof -
  show "tagScan animateTag (str x) = animateTag"
    using assms(1) by (simp add: tagScan_plain)
  show "tagScan animateTag (textPrimary config) = animateTag"
    "tagScan animateTag (textSecondary config) = animateTag"
    "tagScan animateTag (textMuted config) = animateTag"
    using assms(2) by (simp_all add: plainConfig_def tagScan_plain)
  show "tagScan animateTag (fontTitleFamilyCss config) = animateTag"
    "tagScan animateTag (fontBodyFamilyCss config) = animateTag"
    by (rule tagScan_plain, rule plain_fontCss [OF assms(2)])+
  show "tagScan animateTag (accentColor (Some d)) = animateTag"
    "tagScan animateTag (highlightColor (Some d)) = animateTag"
    by (rule tagScan_plain, rule plain_palette [OF assms(3)])+
  show "tagScan animateTag (styleBlock config) = animateTag"
    using tagScan_plain [OF plain_fontFaces [OF assms(2)]]
    by (simp add: styleBlock_def tagStep_Cons)
qed

text \<open>
  The blocks of the card, read by the scanner: none of them holds the pattern as long as
  the title does not scroll.
\<close>

lemma scan_prologue:
  assumes "\<forall>r. plainText (str r)" and "plainConfig config" and "plainSnapshot d"
  shows "tagScan animateTag (svgPrologue str (Some d) config) = animateTag"
  by (simp add: svgPrologue_def baseDark_def midDark_def tagStep_Cons scan_atoms [OF assms])

lemma scan_waves:
  assumes "\<forall>r. plainText (str r)" and "plainSnapshot d"
  shows "tagScan animateTag (backgroundWave1 str (Some d) config) = animateTag"
    "tagScan animateTag (backgroundWave2 str (Some d) config) = animateTag"
    "tagScan animateTag (playingWave str now (Some d) config) = animateTag"
  using scan_layer [OF assms(1) plain_palette(2) [OF assms(2)]]
  by (simp_all add: backgroundWave1_def backgroundWave2_def playingWave_def tagStep_Cons)

lemma scan_statusBlock:
  assumes "\<forall>r. plainText (str r)" and "plainConfig config" and "plainSnapshot d"
  shows "tagScan animateTag (statusBlock str now d config) = animateTag"
  by (simp add: statusBlock_def statusPill_def tagStep_Cons scan_atoms [OF assms])

lemma scan_staticTitle:
  assumes "\<forall>r. plainText (str r)" and "plainConfig config" and "plainSnapshot d"
  shows "tagScan animateTag (staticTitle str d config) = animateTag"
  by (simp add: staticTitle_def tagStep_Cons scan_atoms [OF assms])

lemma scan_titleBlock:
  assumes "\<forall>r. plainText (str r)" and "plainConfig config" and "plainSnapshot d"
    and "\<not> titleScrollNeeded (Some d) config"
  shows "tagScan animateTag (titleBlock str d config) = animateTag"
  using assms(4)
  by (simp add: titleBlock_def titleMarkup_def tagStep_Cons scan_staticTitle [OF assms(1-3)])

lemma scan_artistBlock:
  assumes "\<forall>r. plainText (str r)" and "plainConfig config" and "plainSnapshot d"
  shows "tagScan animateTag (artistBlock str d config) = animateTag"
  by (simp add: artistBlock_def tagStep_Cons scan_atoms [OF assms])

lemma scan_albumBlock:
  assumes "\<forall>r. plainText (str r)" and "plainConfig config" and "plainSnapshot d"
  shows "tagScan animateTag (albumBlock str d config) = animateTag"
  by (simp add: albumBlock_def tagStep_Cons scan_atoms [OF assms])

lemma scan_nothingPlaying:
  assumes "\<forall>r. plainText (str r)" and "plainConfig config" and "plainSnapshot d"
  shows "tagScan animateTag (nothingPlaying str config) = animateTag"
  by (simp add: nothingPlaying_def tagStep_Cons scan_atoms [OF assms])

lemma scan_textContent:
  assumes "\<forall>r. plainText (str r)" and "plainConfig config" and "plainSnapshot d"
    and "\<not> titleScrollNeeded (Some d) config"
  shows "tagScan animateTag (textContent str now (Some d) config) = animateTag"
  by (simp add: textContent_def trackText_def tagStep_Cons scan_statusBlock [OF assms(1-3)]
      scan_titleBlock [OF assms] scan_artistBlock [OF assms(1-3)]
      scan_albumBlock [OF assms(1-3)] scan_nothingPlaying [OF assms(1-3)])

lemma scan_artBlock:
  assumes "\<forall>r. plainText (str r)" and "plainConfig config" and "plainSnapshot d"
  shows "tagScan animateTag (artBlock str now (Some d) config) = animateTag"
proof -
  have art: "tagScan animateTag a = animateTag" if "artBase64 d = Some a" for a
    using assms(3) that by (simp add: plainSnapshot_def plainOpt_def tagScan_plain)
  have image: "tagScan animateTag (albumArt str d a config) = animateTag"
    if "artBase64 d = Some a" for a
    by (simp add: albumArt_def tagStep_Cons scan_atoms [OF assms] art [OF that])
  have glyph: "tagScan animateTag
      (generateMusicNotePlaceholder str x y z (highlightColor (Some d))) = animateTag" for x y z
    by (simp add: generateMusicNotePlaceholder_def Let_def tagStep_Cons scan_atoms [OF assms])
  show ?thesis
    by (simp add: artBlock_def Let_def image glyph split: option.split)
qed

lemma scan_svg:
  assumes "\<forall>r. plainText (str r)" and "plainConfig config" and "plainSnapshot d"
    and "\<not> titleScrollNeeded (Some d) config"
  shows "tagScan animateTag (generateNowPlayingSvg str now (Some d) config) = animateTag"
  by (simp add: generateNowPlayingSvg_def tagStep_Cons scan_prologue [OF assms(1-3)]
      scan_waves [OF assms(1,3)] scan_textContent [OF assms] scan_artBlock [OF assms(1-3)]
      scan_atoms [OF assms(1-3)])

text \<open>A card whose title does not scroll holds no \<open>animateTransform\<close> element.\<close>

lemma static_card_no_animation:
  assumes "\<forall>r. plainText (str r)" and "plainConfig config" and "plainSnapshot d"
    and "\<not> titleScrollNeeded (Some d) config"
  shows "\<not> sublist ''<animateTransform'' (generateNowPlayingSvg str now (Some d) config)"
proof
  assume "sublist ''<animateTransform'' (generateNowPlayingSvg str now (Some d) config)"
  from tagScan_sound [OF this, of animateTag] scan_svg [OF assms]
  show False by simp
qed

text \<open>The parts of the scrolling title, and the truncated title in the static one.\<close>

lemma scrollingTitle_in_svg:
  assumes "hasTrack now (Some d)" and "showTitle config" and "titleScrollNeeded (Some d) config"
  shows "sublist (scrollingTitle str d config) (generateNowPlayingSvg str now (Some d) config)"
proof -
  have "sublist (scrollingTitle str d config) (titleBlock str d config)"
    using titleMarkup_in_block [OF assms(2), of str d] assms(3) by (simp add: titleMarkup_def)
  then have "sublist (scrollingTitle str d config) (trackText str now d config)"
    by (rule sub_trans [OF _ titleBlock_in_track])
  then show ?thesis
    by (rule sub_trans [OF _ trackText_in_svg [OF assms(1)]])
qed

lemma staticTitle_in_svg:
  assumes "hasTrack now (Some d)" and "showTitle config" and "\<not> titleScrollNeeded (Some d) config"
  shows "sublist (staticTitle str d config) (generateNowPlayingSvg str now (Some d) config)"
proof -
  have "sublist (staticTitle str d config) (titleBlock str d config)"
    using titleMarkup_in_block [OF assms(2), of str d] assms(3) by (simp add: titleMarkup_def)
  then have "sublist (staticTitle str d config) (trackText str now d config)"
    by (rule sub_trans [OF _ titleBlock_in_track])
  then show ?thesis
    by (rule sub_trans [OF _ trackText_in_svg [OF assms(1)]])
qed

lemma sub_mid: "sublist xs (ps @ (xs @ ss) @ rest)"
  using sublist_appendI [of xs ps "ss @ rest"] by simp

lemma scroll_parts:
  "sublist ''<text '' (scrollHead str d config)"
  "sublist ''<text '' (scrollMiddle str d config)"
  "sublist ''<animateTransform '' (scrollTail str d config)"
  "sublist ''indefinite'' (scrollTail str d config)"
proof -
  show "sublist ''<text '' (scrollHead str d config)"
    unfolding scrollHead_def
    using sub_mid [of "''<text ''" "''\<newline>'' @ ''    <g clip-path=\"url(#titleClip)\">\<newline>'' @ ''      <g>\<newline>'' @ ''        ''" "''x=\"''"]
    by simp
  show "sublist ''<text '' (scrollMiddle str d config)"
    unfolding scrollMiddle_def
    using sub_mid [of "''<text ''" "''\<newline>'' @ ''        </text>\<newline>'' @ ''        ''" "''x=\"''"]
    by simp
  show "sublist ''<animateTransform '' (scrollTail str d config)"
    unfolding scrollTail_def
    using sub_mid [of "''<animateTransform ''" "''\<newline>'' @ ''        </text>\<newline>'' @ ''        ''"
        "''attributeName=\"transform\" type=\"translate\" from=\"0 0\" to=\"-''"]
    by simp
  have c: "sublist ''indefinite'' '' 0\" dur=\"15s\" repeatCount=\"indefinite\" />\<newline>''"
    using sublist_appendI [of "''indefinite''" "'' 0\" dur=\"15s\" repeatCount=\"''"
        "''\" />\<newline>''"]
    by simp
  show "sublist ''indefinite'' (scrollTail str d config)"
    unfolding scrollTail_def
    by (rule sub_left, rule sub_left, rule sub_left, rule sub_left, rule sub_right, rule c)
qed

lemma truncated_in_static:
  "sublist (escapeXml (truncateText (title d) (titleMaxChars config))) (staticTitle str d config)"
  unfolding staticTitle_def by (rule sublist_append_rightI | rule sublist_appendI | rule sub_left)+

lemma text_in_static: "sublist ''<text '' (staticTitle str d config)"
  unfolding staticTitle_def
  using sub_mid [of "''<text ''" "''\<newline>'' @ ''    ''" "''x=\"''"]
  by simp

text \<open>The static title is one element: it holds two \<open><\<close>, those of its two tags.\<close>

lemma countChar_Nil [simp]: "countChar c [] = 0"
  by (simp add: countChar_def)

lemma countChar_Cons [simp]: "countChar c (x # xs) = (if x = c then 1 else 0) + countChar c xs"
  by (simp add: countChar_def)

lemma countChar_append [simp]: "countChar c (xs @ ys) = countChar c xs + countChar c ys"
  by (simp add: countChar_def)

lemma countChar_plain: "plainText s \<Longrightarrow> countChar (CHR ''<'') s = 0"
  by (induction s) simp_all

lemma static_title_one_element:
  assumes "\<forall>r. plainText (str r)" and "plainConfig config"
  shows "countChar (CHR ''<'') (staticTitle str d config) = 2"
proof -
  have "countChar (CHR ''<'') (str x) = 0" for x
    using assms(1) by (simp add: countChar_plain)
  moreover have "countChar (CHR ''<'') (textPrimary config) = 0"
    using assms(2) by (simp add: plainConfig_def countChar_plain)
  moreover have "countChar (CHR ''<'') (fontTitleFamilyCss config) = 0"
    by (rule countChar_plain) (rule plain_fontCss [OF assms(2)])
  moreover have "countChar (CHR ''<'') (textAnchor config) = 0"
    by (rule countChar_plain) (rule plain_textAnchor)
  moreover have "countChar (CHR ''<'') (escapeXml t) = 0" for t
    by (rule countChar_plain) simp
  ultimately show ?thesis
    by (simp add: staticTitle_def)
qed

text \<open>
  Claim C4, as the code has it. For a fresh snapshot in status \<open>playing\<close> or \<open>paused\<close> and
  a configuration that shows the title line: when the text alignment is \<open>left\<close>, the title
  clip width is positive and \<open>estimateTextWidth(title, titleFontSize)\<close> exceeds it, the
  title markup is the scrolling group and the SVG contains it; the scrolling group consists
  of two text nodes, each holding the escaped title, and a looping \<open>animateTransform\<close>. When
  the text alignment is \<open>center\<close>, whatever the estimated width, the title markup is the
  static text node, which holds the title truncated to \<open>titleMaxChars\<close>, and the SVG contains
  it; and when moreover no string that the template inserts unescaped (the printed numbers,
  the configuration's text colours, font families, fallback and font data, the snapshot's
  accent and highlight colours and its art) holds a \<open><\<close>, the whole SVG holds no
  \<open>animateTransform\<close> element and the static title is a single element.
\<close>

theorem title_scroll_rule:
  assumes "\<not> isStale now (Some d)"
    and "status d = ''playing'' \<or> status d = ''paused''"
    and "showTitle config"
  shows "(textAlign config = AlignLeft \<and> 0 < titleClipWidth config \<and>
            titleClipWidth config < estimateTextWidth (title d) titleFontSize \<longrightarrow>
          titleMarkup str d config = scrollingTitle str d config \<and>
          sublist (scrollingTitle str d config) (generateNowPlayingSvg str now (Some d) config)) \<and>
         (textAlign config = AlignCenter \<longrightarrow>
          titleMarkup str d config = staticTitle str d config \<and>
          sublist (staticTitle str d config) (generateNowPlayingSvg str now (Some d) config) \<and>
          sublist (escapeXml (truncateText (title d) (titleMaxChars config)))
            (staticTitle str d config)) \<and>
         (textAlign config = AlignCenter \<and> (\<forall>r. plainText (str r)) \<and> plainConfig config \<and>
            plainSnapshot d \<longrightarrow>
          \<not> sublist ''<animateTransform'' (generateNowPlayingSvg str now (Some d) config) \<and>
          countChar (CHR ''<'') (staticTitle str d config) = 2) \<and>
         scrollingTitle str d config =
           scrollHead str d config @ escapeXml (title d) @ scrollMiddle str d config @
           escapeXml (title d) @ scrollTail str d config \<and>
         sublist ''<text '' (scrollHead str d config) \<and>
         sublist ''<text '' (scrollMiddle str d config) \<and>
         sublist ''<animateTransform '' (scrollTail str d config) \<and>
         sublist ''indefinite'' (scrollTail str d config) \<and>
         sublist ''<text '' (staticTitle str d config)"
proof -
  have h: "hasTrack now (Some d)"
    using assms(1,2) by (auto simp: hasTrack_def isPlaying_def isPaused_def)
  have t: "titleText (Some d) = title d"
    by (simp add: titleText_def orElse_def)
  have left: "titleMarkup str d config = scrollingTitle str d config \<and>
      sublist (scrollingTitle str d config) (generateNowPlayingSvg str now (Some d) config)"
    if "textAlign config = AlignLeft" "0 < titleClipWidth config"
      "titleClipWidth config < estimateTextWidth (title d) titleFontSize"
  proof -
    from that have n: "titleScrollNeeded (Some d) config"
      by (simp add: titleScrollNeeded_def t)
    then show ?thesis
      using scrollingTitle_in_svg [OF h assms(3) n] by (simp add: titleMarkup_def)
  qed
  have center: "titleMarkup str d config = staticTitle str d config \<and>
      sublist (staticTitle str d config) (generateNowPlayingSvg str now (Some d) config)"
    if "textAlign config = AlignCenter"
  proof -
    from that have n: "\<not> titleScrollNeeded (Some d) config"
      by (simp add: titleScrollNeeded_def)
    then show ?thesis
      using staticTitle_in_svg [OF h assms(3) n] by (simp add: titleMarkup_def)
  qed
  have absent: "\<not> sublist ''<animateTransform'' (generateNowPlayingSvg str now (Some d) config) \<and>
      countChar (CHR ''<'') (staticTitle str d config) = 2"
    if "textAlign config = AlignCenter" "\<forall>r. plainText (str r)" "plainConfig config"
      "plainSnapshot d"
  proof -
    from that(1) have n: "\<not> titleScrollNeeded (Some d) config"
      by (simp add: titleScrollNeeded_def)
    from static_card_no_animation [OF that(2,3,4) n] static_title_one_element [OF that(2,3)]
    show ?thesis by simp
  qed
  have parts: "scrollingTitle str d config =
      scrollHead str d config @ escapeXml (title d) @ scrollMiddle str d config @
      escapeXml (title d) @ scrollTail str d config"
    by (simp add: scrollingTitle_def)
  from left center absent parts truncated_in_static [of d config str]
    scroll_parts [of str d config] text_in_static [of str d config]
  show ?thesis
    by blast
qed

text \<open>The sample inputs.\<close>

lemma plain_showNat: "plainText (showNat n)"
proof (induction n rule: showNat.induct)
  case (1 n)
  have "digitChar k \<noteq> CHR ''<''" for k
  proof -
    have "digitChar k \<in> set ''0123456789''"
      unfolding digitChar_def by (rule nth_mem) simp
    then show ?thesis by auto
  qed
  with 1 show ?case
    by (subst showNat.simps) simp
qed

lemma plain_demoStr: "\<forall>r. plainText (demoStr r)"
  by (simp add: demoStr_def showInt_def plain_showNat)

lemma plain_samples:
  "plainConfig defaultSvgConfig" "plainConfig centeredConfig" "plainConfig wideAlbumConfig"
  "plainSnapshot demoSnapshot" "plainSnapshot longTitleSnapshot"
  by (simp_all add: plainConfig_def plainSnapshot_def plainOpt_def defaultSvgConfig_def
      centeredConfig_def wideAlbumConfig_def demoSnapshot_def longTitleSnapshot_def
      demoPalette_def)

lemma sample_clip:
  "titleClipWidth defaultSvgConfig = 576" "titleClipWidth wideAlbumConfig = 0"
  by (simp_all add: titleClipWidth_def textAreaWidth_def textAreaRight_def textAreaLeft_def
      albumX_def padding_def defaultSvgConfig_def wideAlbumConfig_def fadd_def fsub_def)

lemma sample_estimate:
  "576 < estimateTextWidth (title longTitleSnapshot) titleFontSize"
  "0 < estimateTextWidth (title demoSnapshot) titleFontSize"
proof -
  have w: "estimateTextWidth s titleFontSize
      = toDouble (real (length s) * (7430939385161319 / 2 ^ 49))" for s
    unfolding estimateTextWidth_def title_char_width by (simp only: fmul_def)
  have "99 / 100 * (60 * (7430939385161319 / 2 ^ 49)) \<le> toDouble (60 * (7430939385161319 / 2 ^ 49))"
    by (rule toDouble_lower) simp
  then show "576 < estimateTextWidth (title longTitleSnapshot) titleFontSize"
    by (simp add: w longTitleSnapshot_def)
  have "99 / 100 * (4 * (7430939385161319 / 2 ^ 49)) \<le> toDouble (4 * (7430939385161319 / 2 ^ 49))"
    by (rule toDouble_lower) simp
  then show "0 < estimateTextWidth (title demoSnapshot) titleFontSize"
    by (simp add: w demoSnapshot_def)
qed

lemma sample_states:
  "\<not> isStale 2000 (Some demoSnapshot)" "\<not> isStale 2000 (Some longTitleSnapshot)"
  "\<not> isStale 2000 (Some markupArtSnapshot)"
  "status demoSnapshot = ''playing''" "status longTitleSnapshot = ''playing''"
  "status markupArtSnapshot = ''playing''"
  by (simp_all add: isStale_def demoSnapshot_def longTitleSnapshot_def markupArtSnapshot_def)

lemma sample_alignment:
  "textAlign defaultSvgConfig = AlignLeft" "textAlign wideAlbumConfig = AlignLeft"
  "textAlign centeredConfig = AlignCenter"
  "showTitle defaultSvgConfig" "showTitle wideAlbumConfig" "showTitle centeredConfig"
  by (simp_all add: defaultSvgConfig_def wideAlbumConfig_def centeredConfig_def)

theorem title_scroll_rule_witness:
  "sublist (scrollingTitle demoStr longTitleSnapshot defaultSvgConfig)
     (generateNowPlayingSvg demoStr 2000 (Some longTitleSnapshot) defaultSvgConfig) \<and>
   titleMarkup demoStr longTitleSnapshot centeredConfig =
     staticTitle demoStr longTitleSnapshot centeredConfig \<and>
   sublist (staticTitle demoStr longTitleSnapshot centeredConfig)
     (generateNowPlayingSvg demoStr 2000 (Some longTitleSnapshot) centeredConfig) \<and>
   \<not> sublist ''<animateTransform''
     (generateNowPlayingSvg demoStr 2000 (Some longTitleSnapshot) centeredConfig) \<and>
   countChar (CHR ''<'') (staticTitle demoStr longTitleSnapshot centeredConfig) = 2"
proof -
  have st: "status longTitleSnapshot = ''playing'' \<or> status longTitleSnapshot = ''paused''"
    by (simp add: sample_states)
  have left: "textAlign defaultSvgConfig = AlignLeft \<and> 0 < titleClipWidth defaultSvgConfig \<and>
      titleClipWidth defaultSvgConfig < estimateTextWidth (title longTitleSnapshot) titleFontSize"
    by (simp add: sample_alignment sample_clip sample_estimate)
  have plain: "textAlign centeredConfig = AlignCenter \<and> (\<forall>r. plainText (demoStr r)) \<and>
      plainConfig centeredConfig \<and> plainSnapshot longTitleSnapshot"
    using plain_demoStr by (simp add: sample_alignment plain_samples)
  note scrolling = title_scroll_rule [OF sample_states(2) st sample_alignment(4), of demoStr,
      THEN conjunct1, rule_format, OF left]
  note rule = title_scroll_rule [OF sample_states(2) st sample_alignment(6), of demoStr]
  note static = rule [THEN conjunct2, THEN conjunct1, rule_format, OF sample_alignment(3)]
  note absent = rule [THEN conjunct2, THEN conjunct2, THEN conjunct1, rule_format, OF plain]
  from scrolling static absent show ?thesis by blast
qed

text \<open>
  Claim C4, as the specification states it, fails in two ways. When the title clip width is
  0 the title never scrolls: the first card below is fresh, shows the title, is left-aligned,
  and the estimated title width exceeds the clip width 0, yet the title is the static text
  node and the SVG holds no \<open>animateTransform\<close> element. And a centred card can hold the
  scrolling markup: the art field of the second snapshot carries the scrolling group of its
  title, the template inserts the field unescaped, and the SVG contains the group.
\<close>

theorem title_scroll_counterexample:
  "textAlign wideAlbumConfig = AlignLeft \<and> showTitle wideAlbumConfig \<and>
   \<not> isStale 2000 (Some demoSnapshot) \<and> status demoSnapshot = ''playing'' \<and>
   estimateTextWidth (title demoSnapshot) titleFontSize > titleClipWidth wideAlbumConfig \<and>
   titleMarkup demoStr demoSnapshot wideAlbumConfig =
     staticTitle demoStr demoSnapshot wideAlbumConfig \<and>
   \<not> sublist ''<animateTransform''
       (generateNowPlayingSvg demoStr 2000 (Some demoSnapshot) wideAlbumConfig) \<and>
   textAlign centeredConfig = AlignCenter \<and> showTitle centeredConfig \<and>
   \<not> isStale 2000 (Some markupArtSnapshot) \<and> status markupArtSnapshot = ''playing'' \<and>
   sublist (scrollingTitle demoStr markupArtSnapshot centeredConfig)
     (generateNowPlayingSvg demoStr 2000 (Some markupArtSnapshot) centeredConfig) \<and>
   sublist ''<animateTransform''
     (generateNowPlayingSvg demoStr 2000 (Some markupArtSnapshot) centeredConfig)"
proof -
  have still: "\<not> titleScrollNeeded (Some demoSnapshot) wideAlbumConfig"
    by (simp add: titleScrollNeeded_def sample_clip)
  note none = static_card_no_animation [OF plain_demoStr plain_samples(3) plain_samples(4) still,
      of 2000]
  have wider: "estimateTextWidth (title demoSnapshot) titleFontSize > titleClipWidth wideAlbumConfig"
    by (simp add: sample_clip sample_estimate)
  have markup: "titleMarkup demoStr demoSnapshot wideAlbumConfig =
      staticTitle demoStr demoSnapshot wideAlbumConfig"
    using still by (simp add: titleMarkup_def)
  define g where "g = scrollingTitle demoStr longTitleSnapshot centeredConfig"
  have same: "scrollingTitle demoStr markupArtSnapshot centeredConfig = g"
    by (simp add: g_def markupArtSnapshot_def scrollingTitle_def scrollHead_def scrollMiddle_def
        scrollTail_def titleScrollDistance_def titleTextWidth_def titleText_def)
  have art: "artBase64 markupArtSnapshot = Some g"
    by (simp add: markupArtSnapshot_def g_def)
  have nonempty: "g \<noteq> []"
    by (simp add: g_def scrollingTitle_def scrollHead_def)
  have track: "hasTrack 2000 (Some markupArtSnapshot)"
    by (simp add: hasTrack_def isPlaying_def sample_states)
  have "sublist g (albumArt demoStr markupArtSnapshot g centeredConfig)"
    unfolding albumArt_def by (rule sublist_append_rightI | rule sub_left)+
  moreover have "artBlock demoStr 2000 (Some markupArtSnapshot) centeredConfig =
      albumArt demoStr markupArtSnapshot g centeredConfig"
    by (simp add: artBlock_def Let_def art track nonempty)
  moreover have "sublist (artBlock demoStr 2000 (Some markupArtSnapshot) centeredConfig)
      (generateNowPlayingSvg demoStr 2000 (Some markupArtSnapshot) centeredConfig)"
    unfolding generateNowPlayingSvg_def by (rule sublist_append_rightI | rule sub_left)+
  ultimately have group: "sublist g
      (generateNowPlayingSvg demoStr 2000 (Some markupArtSnapshot) centeredConfig)"
    by (simp add: sub_trans)
  have "sublist ''<animateTransform'' ''<animateTransform ''"
    using sublist_appendI [of "''<animateTransform''" "[]" "'' ''"] by simp
  then have "sublist ''<animateTransform'' (scrollTail demoStr longTitleSnapshot centeredConfig)"
    by (rule sub_trans [OF _ scroll_parts(3)])
  then have "sublist ''<animateTransform'' g"
    unfolding g_def scrollingTitle_def by (intro sub_left)
  then have tag: "sublist ''<animateTransform''
      (generateNowPlayingSvg demoStr 2000 (Some markupArtSnapshot) centeredConfig)"
    by (rule sub_trans [OF _ group])
  from none wider markup group tag show ?thesis
    by (simp add: same sample_alignment sample_states)
qed

section \<open>Properties of the server\<close>

lemma splitOn_nonempty: "splitOn c s \<noteq> []"
  by (induction s) (auto split: list.splits)

lemma splitOn_one: "splitOn c s = [b] \<Longrightarrow> s = b"
proof (induction s arbitrary: b)
  case Nil
  then show ?case by simp
next
  case (Cons x xs)
  then show ?case
    by (auto simp: splitOn_nonempty split: if_splits list.splits)
qed

lemma splitOn_two: "splitOn c s = [a, b] \<Longrightarrow> s = a @ c # b"
proof (induction s arbitrary: a)
  case Nil
  then show ?case by simp
next
  case (Cons x xs)
  show ?case
  proof (cases "x = c")
    case True
    with Cons.prems have "a = []" "splitOn c xs = [b]" by simp_all
    with True splitOn_one [of c xs b] show ?thesis by simp
  next
    case False
    with Cons.prems obtain h where "a = x # h" "splitOn c xs = [h, b]"
      by (auto split: list.splits)
    with Cons.IH [of h] show ?thesis by simp
  qed
qed

lemma splitOn_no_sep: "c \<notin> set s \<Longrightarrow> splitOn c s = [s]"
  by (induction s) auto

lemma validateAuth_header:
  "validateAuth apiKey req \<Longrightarrow> req_authorization req = Some (''Bearer '' @ apiKey)"
proof -
  assume v: "validateAuth apiKey req"
  then obtain auth where a: "req_authorization req = Some auth"
    by (cases "req_authorization req") (simp_all add: validateAuth_def)
  from v a obtain p0 p1 where s: "splitOn (CHR '' '') auth = [p0, p1]"
    by (auto simp: validateAuth_def split: if_splits list.splits)
  with v a have "p0 = ''Bearer''" "p1 = apiKey"
    by (auto simp: validateAuth_def split: if_splits)
  with splitOn_two [OF s] a show ?thesis by simp
qed

lemma validateAuth_bearer:
  assumes "CHR '' '' \<notin> set apiKey" and "req_authorization req = Some (''Bearer '' @ apiKey)"
  shows "validateAuth apiKey req"
  using assms by (simp add: validateAuth_def splitOn_no_sep)

lemma withCors_fields [simp]:
  "resp_status (withCors r) = resp_status r" "resp_body (withCors r) = resp_body r"
  by (simp_all add: withCors_def)

lemma post_route:
  assumes "req_method req = ''POST''" and "req_path req = ''/api/now-playing''"
  shows "handleRequest rt apiKey req st =
     (withCors (fst (handlePostNowPlaying rt apiKey req st)), snd (handlePostNowPlaying rt apiKey req st))"
  using assms by (simp add: handleRequest_def Let_def split: prod.splits)

lemma themeNamePattern_default: "themeNamePattern ''default''"
  by (simp add: themeNamePattern_def alnumChars_def)

text \<open>
  Claim C6, as the code has it. \<open>POST /api/now-playing\<close> answers 401 and leaves the server
  state as it was when the \<open>Authorization\<close> header is missing or is not \<open>Bearer\<close>, a space and
  the configured key; with a header that \<open>validateAuth\<close> accepts it answers 400 and leaves
  the state as it was when the body does not parse as JSON; when the body parses and the
  store accepts the write it answers 200 with the body \<open>{"success":true}\<close> and the store holds
  the parsed value; when the body parses and the store rejects the write it answers 400
  with the body \<open>{"error":"Invalid JSON"}\<close> and leaves the state as it was. A header made of
  \<open>Bearer\<close>, a space and the key is accepted whenever the key holds no space.
\<close>

theorem post_now_playing_responses:
  assumes "req_method req = ''POST''" and "req_path req = ''/api/now-playing''"
  shows "(req_authorization req \<noteq> Some (''Bearer '' @ apiKey) \<longrightarrow>
            resp_status (fst (handleRequest rt apiKey req st)) = 401 \<and>
            snd (handleRequest rt apiKey req st) = st) \<and>
         (validateAuth apiKey req \<and> jsonParse rt (req_body req) = None \<longrightarrow>
            resp_status (fst (handleRequest rt apiKey req st)) = 400 \<and>
            snd (handleRequest rt apiKey req st) = st) \<and>
         (validateAuth apiKey req \<and> jsonParse rt (req_body req) = Some v \<and> kvWrite rt v \<longrightarrow>
            resp_status (fst (handleRequest rt apiKey req st)) = 200 \<and>
            resp_body (fst (handleRequest rt apiKey req st)) = Some successBody \<and>
            kv (snd (handleRequest rt apiKey req st)) = Some v) \<and>
         (validateAuth apiKey req \<and> jsonParse rt (req_body req) = Some v \<and> \<not> kvWrite rt v \<longrightarrow>
            resp_status (fst (handleRequest rt apiKey req st)) = 400 \<and>
            resp_body (fst (handleRequest rt apiKey req st)) = Some invalidJsonBody \<and>
            snd (handleRequest rt apiKey req st) = st) \<and>
         (CHR '' '' \<notin> set apiKey \<and> req_authorization req = Some (''Bearer '' @ apiKey) \<longrightarrow>
            validateAuth apiKey req)"
proof -
  note route = post_route [OF assms, of rt apiKey st]
  have unauthorized: "resp_status (fst (handleRequest rt apiKey req st)) = 401 \<and>
      snd (handleRequest rt apiKey req st) = st"
    if "req_authorization req \<noteq> Some (''Bearer '' @ apiKey)"
  proof -
    from that validateAuth_header [of apiKey req] have "\<not> validateAuth apiKey req" by blast
    then show ?thesis
      by (simp add: route handlePostNowPlaying_def jsonResponse_def)
  qed
  have invalid: "resp_status (fst (handleRequest rt apiKey req st)) = 400 \<and>
      snd (handleRequest rt apiKey req st) = st"
    if "validateAuth apiKey req" "jsonParse rt (req_body req) = None"
    using that by (simp add: route handlePostNowPlaying_def jsonResponse_def)
  have stored: "resp_status (fst (handleRequest rt apiKey req st)) = 200 \<and>
      resp_body (fst (handleRequest rt apiKey req st)) = Some successBody \<and>
      kv (snd (handleRequest rt apiKey req st)) = Some v"
    if "validateAuth apiKey req" "jsonParse rt (req_body req) = Some v" "kvWrite rt v"
    using that by (simp add: route handlePostNowPlaying_def jsonResponse_def storeNowPlaying_def)
  have rejected: "resp_status (fst (handleRequest rt apiKey req st)) = 400 \<and>
      resp_body (fst (handleRequest rt apiKey req st)) = Some invalidJsonBody \<and>
      snd (handleRequest rt apiKey req st) = st"
    if "validateAuth apiKey req" "jsonParse rt (req_body req) = Some v" "\<not> kvWrite rt v"
    using that by (simp add: route handlePostNowPlaying_def jsonResponse_def storeNowPlaying_def)
  from unauthorized invalid stored rejected validateAuth_bearer [of apiKey req] show ?thesis
    by blast
qed

text \<open>The sample requests.\<close>

lemma postRequest_fields:
  "req_method (postRequest a b) = ''POST''" "req_path (postRequest a b) = ''/api/now-playing''"
  "req_authorization (postRequest a b) = a" "req_body (postRequest a b) = b"
  by (simp_all add: postRequest_def)

lemma devkey_accepted: "validateAuth ''devkey'' (postRequest (Some ''Bearer devkey'') b)"
  by (simp add: validateAuth_def postRequest_def)

lemma demoRuntime_fields:
  "jsonParse demoRuntime = demoParse" "kvWrite demoRuntime v" "kvRead demoRuntime"
  "numberToString demoRuntime = demoStr" "dateNow demoRuntime = 2000"
  "renderUntyped demoRuntime v config = None" "readTextFile demoRuntime p = None"
  "readFileBase64 demoRuntime p = None"
  by (simp_all add: demoRuntime_def)

lemma limitedRuntime_fields:
  "jsonParse limitedRuntime = limitedParse"
  "kvWrite limitedRuntime v = (jsonSize v \<le> 65536)"
  by (simp_all add: limitedRuntime_def)

lemma limitedParse_long:
  "limitedParse longStringBody = Some (JStr longString)"
  "limitedParse longArrayBody = Some (JArr [JStr longString])"
  by (simp_all add: limitedParse_def longArrayBody_def longStringBody_def)

lemma longString_length: "length longString = 70000"
  unfolding longString_def by (rule length_replicate)

lemma long_values_rejected:
  "\<not> kvWrite limitedRuntime (JStr longString)"
  "\<not> kvWrite limitedRuntime (JArr [JStr longString])"
  by (simp_all add: limitedRuntime_fields longString_length)

theorem post_now_playing_responses_witness:
  "resp_status (fst (handleRequest demoRuntime ''devkey'' (postRequest None ''{}'') emptyServer)) = 401 \<and>
   snd (handleRequest demoRuntime ''devkey'' (postRequest None ''{}'') emptyServer) = emptyServer \<and>
   resp_status (fst (handleRequest demoRuntime ''devkey''
      (postRequest (Some ''Bearer devkey'') ''{broken'') emptyServer)) = 400 \<and>
   snd (handleRequest demoRuntime ''devkey''
      (postRequest (Some ''Bearer devkey'') ''{broken'') emptyServer) = emptyServer \<and>
   resp_status (fst (handleRequest demoRuntime ''devkey''
      (postRequest (Some ''Bearer devkey'') ''{}'') emptyServer)) = 200 \<and>
   kv (snd (handleRequest demoRuntime ''devkey''
      (postRequest (Some ''Bearer devkey'') ''{}'') emptyServer)) = Some (JObj []) \<and>
   resp_status (fst (handleRequest limitedRuntime ''devkey''
      (postRequest (Some ''Bearer devkey'') longStringBody) playingServer)) = 400 \<and>
   snd (handleRequest limitedRuntime ''devkey''
      (postRequest (Some ''Bearer devkey'') longStringBody) playingServer) = playingServer"
proof -
  note m = postRequest_fields(1,2)
  have missing: "req_authorization (postRequest None ''{}'') \<noteq> Some (''Bearer '' @ ''devkey'')"
    by (simp add: postRequest_def)
  have bad: "jsonParse demoRuntime (req_body (postRequest (Some ''Bearer devkey'') ''{broken'')) = None"
    by (simp add: postRequest_fields demoRuntime_fields demoParse_def)
  have good: "jsonParse demoRuntime (req_body (postRequest (Some ''Bearer devkey'') ''{}''))
      = Some (JObj [])"
    by (simp add: postRequest_fields demoRuntime_fields demoParse_def)
  have long: "jsonParse limitedRuntime (req_body (postRequest (Some ''Bearer devkey'') longStringBody))
      = Some (JStr longString)"
    by (simp add: postRequest_fields limitedRuntime_fields limitedParse_long)
  note r1 = post_now_playing_responses [OF m, of None "''{}''" "''devkey''" demoRuntime emptyServer,
      THEN conjunct1, rule_format, OF missing]
  note r2 = post_now_playing_responses [OF m, of "Some ''Bearer devkey''" "''{broken''" "''devkey''"
      demoRuntime emptyServer, THEN conjunct2, THEN conjunct1, rule_format,
      OF conjI [OF devkey_accepted bad]]
  note r3 = post_now_playing_responses [OF m, of "Some ''Bearer devkey''" "''{}''" "''devkey''"
      demoRuntime emptyServer "JObj []", THEN conjunct2, THEN conjunct2, THEN conjunct1,
      rule_format, OF conjI [OF devkey_accepted conjI [OF good demoRuntime_fields(2)]]]
  note r4 = post_now_playing_responses [OF m, of "Some ''Bearer devkey''" longStringBody "''devkey''"
      limitedRuntime playingServer "JStr longString", THEN conjunct2, THEN conjunct2,
      THEN conjunct2, THEN conjunct1, rule_format,
      OF conjI [OF devkey_accepted conjI [OF long long_values_rejected(1)]]]
  from r1 r2 r3 r4 show ?thesis
    by simp
qed

text \<open>
  Claim C6, as the specification states it, fails when the store rejects the write: the
  request below carries the configured key and a body that parses as JSON, a string of
  70000 characters; the store, which holds a snapshot, refuses a value of that size, and
  the answer is 400 with the body \<open>{"error":"Invalid JSON"}\<close>, the store holding what it held.
\<close>

theorem post_rejected_write_counterexample:
  "validateAuth ''devkey'' (postRequest (Some ''Bearer devkey'') longStringBody) \<and>
   jsonParse limitedRuntime (req_body (postRequest (Some ''Bearer devkey'') longStringBody))
     = Some (JStr longString) \<and>
   resp_status (fst (handleRequest limitedRuntime ''devkey''
      (postRequest (Some ''Bearer devkey'') longStringBody) playingServer)) = 400 \<and>
   resp_body (fst (handleRequest limitedRuntime ''devkey''
      (postRequest (Some ''Bearer devkey'') longStringBody) playingServer)) = Some invalidJsonBody \<and>
   kv (snd (handleRequest limitedRuntime ''devkey''
      (postRequest (Some ''Bearer devkey'') longStringBody) playingServer)) = Some demoSnapshotJson"
  using long_values_rejected(1)
  by (simp add: post_route [OF postRequest_fields(1,2)] handlePostNowPlaying_def devkey_accepted
      postRequest_fields limitedRuntime_fields(1) limitedParse_long storeNowPlaying_def
      jsonResponse_def playingServer_def)

text \<open>
  Claim C10, as the code has it. Every \<open>POST /api/now-playing\<close> with an accepted
  \<open>Authorization\<close> header whose body parses as JSON to a value that the store accepts is
  answered 200 with the body \<open>{"success":true}\<close>, and the parsed value, whatever its shape, is
  what the store holds and what the next read returns.
\<close>

theorem post_stores_any_json:
  assumes "req_method req = ''POST''" and "req_path req = ''/api/now-playing''"
    and "validateAuth apiKey req"
    and "jsonParse rt (req_body req) = Some v"
    and "kvWrite rt v"
  shows "resp_status (fst (handleRequest rt apiKey req st)) = 200 \<and>
         resp_body (fst (handleRequest rt apiKey req st)) = Some successBody \<and>
         kv (snd (handleRequest rt apiKey req st)) = Some v \<and>
         (kvRead rt \<longrightarrow> getNowPlaying rt (snd (handleRequest rt apiKey req st)) = Some v)"
  using assms(3,4,5)
  by (simp add: post_route [OF assms(1,2)] handlePostNowPlaying_def jsonResponse_def
      storeNowPlaying_def getNowPlaying_def)

theorem post_stores_any_json_witness:
  "getNowPlaying demoRuntime (snd (handleRequest demoRuntime ''devkey''
      (postRequest (Some ''Bearer devkey'') ''null'') emptyServer)) = Some JNull \<and>
   getNowPlaying demoRuntime (snd (handleRequest demoRuntime ''devkey''
      (postRequest (Some ''Bearer devkey'') ''[]'') emptyServer)) = Some (JArr []) \<and>
   getNowPlaying demoRuntime (snd (handleRequest demoRuntime ''devkey''
      (postRequest (Some ''Bearer devkey'') ''{}'') emptyServer)) = Some (JObj []) \<and>
   resp_status (fst (handleRequest demoRuntime ''devkey''
      (postRequest (Some ''Bearer devkey'') ''null'') emptyServer)) = 200"
proof -
  note m = postRequest_fields(1,2)
  have p: "jsonParse demoRuntime (req_body (postRequest (Some ''Bearer devkey'') ''null'')) = Some JNull"
    "jsonParse demoRuntime (req_body (postRequest (Some ''Bearer devkey'') ''[]'')) = Some (JArr [])"
    "jsonParse demoRuntime (req_body (postRequest (Some ''Bearer devkey'') ''{}'')) = Some (JObj [])"
    by (simp_all add: postRequest_fields demoRuntime_fields demoParse_def)
  from post_stores_any_json [OF m devkey_accepted p(1) demoRuntime_fields(2), of emptyServer]
    post_stores_any_json [OF m devkey_accepted p(2) demoRuntime_fields(2), of emptyServer]
    post_stores_any_json [OF m devkey_accepted p(3) demoRuntime_fields(2), of emptyServer]
  show ?thesis
    by (simp add: demoRuntime_fields)
qed

text \<open>
  Claim C10, as the specification states it, fails when the store rejects the write: the
  body below parses as JSON, an array that holds a string of 70000 characters and has no
  field of a snapshot; the request carries the configured key; the store refuses a value of
  that size, the answer is 400, and the slot is not overwritten.
\<close>

theorem post_any_json_counterexample:
  "validateAuth ''devkey'' (postRequest (Some ''Bearer devkey'') longArrayBody) \<and>
   jsonParse limitedRuntime (req_body (postRequest (Some ''Bearer devkey'') longArrayBody))
     = Some (JArr [JStr longString]) \<and>
   resp_status (fst (handleRequest limitedRuntime ''devkey''
      (postRequest (Some ''Bearer devkey'') longArrayBody) emptyServer)) = 400 \<and>
   kv (snd (handleRequest limitedRuntime ''devkey''
      (postRequest (Some ''Bearer devkey'') longArrayBody) emptyServer)) = None"
  using long_values_rejected(2)
  by (simp add: post_route [OF postRequest_fields(1,2)] handlePostNowPlaying_def devkey_accepted
      postRequest_fields limitedRuntime_fields(1) limitedParse_long storeNowPlaying_def
      jsonResponse_def emptyServer_def)

text \<open>
  With no query parameters the configuration is the theme named \<open>default\<close> if one
  resolves, the defaults otherwise, with the font data that \<open>loadFontData\<close> returns.
\<close>

lemma buildSvgConfig_no_params:
  assumes "loadTheme rt st ''default'' = (theme, st1)"
    and "loadFontData rt st1 (fontTitleFile (override theme defaultSvgConfig)) = (titleFont, st2)"
    and "loadFontData rt st2 (fontBodyFile (override theme defaultSvgConfig)) = (bodyFont, st3)"
  shows "buildSvgConfig rt st [] =
     ((override theme defaultSvgConfig)
        \<lparr> fontTitleDataUrl := map_option fst titleFont,
          fontBodyDataUrl := map_option fst bodyFont,
          fontTitleFormat := map_option snd titleFont,
          fontBodyFormat := map_option snd bodyFont \<rparr>, st3)"
proof -
  have params: "getParam [] k = None" for k
    by (simp add: getParam_def)
  have none: "parseTextAlign None = None" "parseBooleanParam None = None"
    "parseFontFile None = None" "parseFontFamily None = None" "\<not> truthy None"
    by (simp_all add: parseTextAlign_def parseBooleanParam_def parseFontFile_def
        parseFontFamily_def truthy_def)
  have o: "override None x = x" for x :: 'a
    by (simp add: override_def)
  show ?thesis
    using assms
    by (simp add: buildSvgConfig_def Let_def params none orElseOpt_def themeNamePattern_default o)
qed

text \<open>
  Claim C7, as the code has it. When the request has no query parameters and no theme named
  \<open>default\<close> resolves, the configuration that \<open>buildSvgConfig\<close> returns has the literal default
  values: width 800, height 200, album size 150, border radius 16, the four colours, album
  on the left, text aligned left, and the four lines shown. It differs from
  \<open>defaultSvgConfig\<close> only in the font data that \<open>loadFontData\<close> attached.
\<close>

theorem default_config_without_overrides:
  assumes "fst (loadTheme rt st ''default'') = None"
  shows "width (fst (buildSvgConfig rt st [])) = 800 \<and>
         height (fst (buildSvgConfig rt st [])) = 200 \<and>
         albumSize (fst (buildSvgConfig rt st [])) = 150 \<and>
         borderRadius (fst (buildSvgConfig rt st [])) = 16 \<and>
         textPrimary (fst (buildSvgConfig rt st [])) = ''#fafafa'' \<and>
         textSecondary (fst (buildSvgConfig rt st [])) = ''#cbd5e1'' \<and>
         textMuted (fst (buildSvgConfig rt st [])) = ''#94a3b8'' \<and>
         cardBorder (fst (buildSvgConfig rt st [])) = ''#27272a'' \<and>
         albumPosition (fst (buildSvgConfig rt st [])) = PosLeft \<and>
         textAlign (fst (buildSvgConfig rt st [])) = AlignLeft \<and>
         showStatus (fst (buildSvgConfig rt st [])) \<and>
         showTitle (fst (buildSvgConfig rt st [])) \<and>
         showArtist (fst (buildSvgConfig rt st [])) \<and>
         showAlbum (fst (buildSvgConfig rt st [])) \<and>
         (fst (buildSvgConfig rt st []))\<lparr> fontTitleDataUrl := None, fontBodyDataUrl := None,
            fontTitleFormat := None, fontBodyFormat := None \<rparr> = defaultSvgConfig"
proof -
  from assms obtain st1 where theme: "loadTheme rt st ''default'' = (None, st1)"
    by (cases "loadTheme rt st ''default''") simp
  obtain titleFont st2 where f1:
    "loadFontData rt st1 (fontTitleFile (override None defaultSvgConfig)) = (titleFont, st2)"
    by (cases "loadFontData rt st1 (fontTitleFile (override None defaultSvgConfig))") simp
  obtain bodyFont st3 where f2:
    "loadFontData rt st2 (fontBodyFile (override None defaultSvgConfig)) = (bodyFont, st3)"
    by (cases "loadFontData rt st2 (fontBodyFile (override None defaultSvgConfig))") simp
  have built: "fst (buildSvgConfig rt st []) =
      defaultSvgConfig\<lparr> fontTitleDataUrl := map_option fst titleFont,
        fontBodyDataUrl := map_option fst bodyFont,
        fontTitleFormat := map_option snd titleFont,
        fontBodyFormat := map_option snd bodyFont \<rparr>"
    by (simp add: buildSvgConfig_no_params [OF theme f1 f2] override_def)
  show ?thesis
    unfolding built by (simp add: defaultSvgConfig_def)
qed

theorem default_config_without_overrides_witness:
  "width (fst (buildSvgConfig demoRuntime emptyServer [])) = 800 \<and>
   height (fst (buildSvgConfig demoRuntime emptyServer [])) = 200 \<and>
   textAlign (fst (buildSvgConfig demoRuntime emptyServer [])) = AlignLeft \<and>
   showAlbum (fst (buildSvgConfig demoRuntime emptyServer []))"
proof -
  have "fst (loadTheme demoRuntime emptyServer ''default'') = None"
    by (simp add: loadTheme_def emptyServer_def themeNamePattern_default demoRuntime_def)
  from default_config_without_overrides [OF this] show ?thesis by blast
qed

text \<open>
  Claim C7, as the specification states it, fails when a theme named \<open>default\<close> resolves:
  with no query parameter \<open>buildSvgConfig\<close> still loads \<open>themes/default.json\<close>, and every value of
  a valid theme replaces the default. In the deployment below that file is a theme 480
  wide, and the configuration built from no parameters is 480 wide.
\<close>

theorem default_theme_counterexample:
  "width (fst (buildSvgConfig themedRuntime emptyServer [])) = 480 \<and>
   height (fst (buildSvgConfig themedRuntime emptyServer [])) = 160 \<and>
   textPrimary (fst (buildSvgConfig themedRuntime emptyServer [])) = ''#ffffff'' \<and>
   albumPosition (fst (buildSvgConfig themedRuntime emptyServer [])) = PosRight \<and>
   textAlign (fst (buildSvgConfig themedRuntime emptyServer [])) = AlignCenter \<and>
   \<not> showStatus (fst (buildSvgConfig themedRuntime emptyServer []))"
proof -
  have valid: "isSvgConfig narrowTheme"
    by (simp add: isSvgConfig_def narrowTheme_def jfield_def isNumber_def isString_def
        isBoolean_def)
  obtain st1 where theme:
    "loadTheme themedRuntime emptyServer ''default'' = (Some (themeConfig narrowTheme), st1)"
    by (simp add: loadTheme_def emptyServer_def themeNamePattern_default themedRuntime_def valid)
  obtain titleFont st2 where f1: "loadFontData themedRuntime st1
      (fontTitleFile (override (Some (themeConfig narrowTheme)) defaultSvgConfig)) = (titleFont, st2)"
    by (cases "loadFontData themedRuntime st1
      (fontTitleFile (override (Some (themeConfig narrowTheme)) defaultSvgConfig))") simp
  obtain bodyFont st3 where f2: "loadFontData themedRuntime st2
      (fontBodyFile (override (Some (themeConfig narrowTheme)) defaultSvgConfig)) = (bodyFont, st3)"
    by (cases "loadFontData themedRuntime st2
      (fontBodyFile (override (Some (themeConfig narrowTheme)) defaultSvgConfig))") simp
  show ?thesis
    by (simp add: buildSvgConfig_no_params [OF theme f1 f2] override_def themeConfig_def
        narrowTheme_def jfield_def numberOf_def stringOf_def booleanOf_def)
qed

text \<open>The route of the card, and the reading of the stored value.\<close>

lemma svg_route:
  assumes "req_method req = ''GET''" and "req_path req = ''/now-playing.svg''"
  shows "handleRequest rt apiKey req st =
     (case handleGetSvg rt req st of
        (Some response, st') \<Rightarrow> (withCors response, st')
      | (None, st') \<Rightarrow> (jsonResponse 500 internalErrorBody, st'))"
  using assms by (simp add: handleRequest_def Let_def)

lemma svg_answer:
  assumes "req_method req = ''GET''" and "req_path req = ''/now-playing.svg''"
    and "getNowPlaying rt st = Some data"
    and "renderStored rt data (fst (buildSvgConfig rt st (req_params req))) = Some svg"
  shows "resp_status (fst (handleRequest rt apiKey req st)) = 200 \<and>
         map_of (resp_headers (fst (handleRequest rt apiKey req st))) ''Content-Type''
           = Some ''image/svg+xml'' \<and>
         map_of (resp_headers (fst (handleRequest rt apiKey req st))) ''Cache-Control''
           = Some ''s-maxage=1'' \<and>
         resp_body (fst (handleRequest rt apiKey req st)) = Some svg"
proof -
  obtain config st' where b: "buildSvgConfig rt st (req_params req) = (config, st')"
    by (cases "buildSvgConfig rt st (req_params req)") simp
  with assms(3,4) show ?thesis
    by (simp add: svg_route [OF assms(1,2)] handleGetSvg_def withCors_def corsHeaders_def)
qed

lemma svg_failure:
  assumes "req_method req = ''GET''" and "req_path req = ''/now-playing.svg''"
    and "getNowPlaying rt st = None \<or>
         (getNowPlaying rt st = Some data \<and>
          renderStored rt data (fst (buildSvgConfig rt st (req_params req))) = None)"
  shows "resp_status (fst (handleRequest rt apiKey req st)) = 500 \<and>
         map_of (resp_headers (fst (handleRequest rt apiKey req st))) ''Content-Type''
           = Some ''application/json'' \<and>
         resp_body (fst (handleRequest rt apiKey req st)) = Some internalErrorBody"
proof -
  obtain config st' where b: "buildSvgConfig rt st (req_params req) = (config, st')"
    by (cases "buildSvgConfig rt st (req_params req)") simp
  with assms(3) show ?thesis
    by (auto simp: svg_route [OF assms(1,2)] handleGetSvg_def jsonResponse_def)
qed

lemma decodeSnapshot_render:
  assumes "decodeSnapshot (dateNow rt) v = Some d"
  shows "renderStored rt v config =
     Some (generateNowPlayingSvg (numberToString rt) (dateNow rt) (Some d) config)"
proof (cases v)
  case (JObj members)
  with assms show ?thesis
    by (auto simp: renderStored_def decodeSnapshot_def split: option.splits if_splits)
qed (use assms in \<open>simp_all add: decodeSnapshot_def decodeStored_def\<close>)

text \<open>
  Claim C9, as the code has it. A \<open>GET\<close> of \<open>/now-playing.svg\<close> is answered 200 with
  \<open>Content-Type: image/svg+xml\<close> and \<open>Cache-Control: s-maxage=1\<close>, the body being the card
  rendered from the stored snapshot and the configuration built from the query parameters,
  when the store answers the read and holds nothing, \<open>null\<close> or an object that reads as a
  snapshot. When the store does not answer, and when the renderer throws on the stored
  value, the answer is 500 with the body \<open>{"error":"Internal server error"}\<close>; whenever the
  renderer returns markup for the stored value, that markup is the body of a 200.
\<close>

theorem now_playing_svg_route:
  assumes "req_method req = ''GET''" and "req_path req = ''/now-playing.svg''"
  shows "(kvRead rt \<and> (kv st = None \<or> kv st = Some JNull) \<longrightarrow>
            resp_status (fst (handleRequest rt apiKey req st)) = 200 \<and>
            map_of (resp_headers (fst (handleRequest rt apiKey req st))) ''Content-Type''
              = Some ''image/svg+xml'' \<and>
            map_of (resp_headers (fst (handleRequest rt apiKey req st))) ''Cache-Control''
              = Some ''s-maxage=1'' \<and>
            resp_body (fst (handleRequest rt apiKey req st)) =
              Some (generateNowPlayingSvg (numberToString rt) (dateNow rt) None
                      (fst (buildSvgConfig rt st (req_params req))))) \<and>
         (kvRead rt \<and> kv st = Some v \<and> decodeSnapshot (dateNow rt) v = Some d \<longrightarrow>
            resp_status (fst (handleRequest rt apiKey req st)) = 200 \<and>
            map_of (resp_headers (fst (handleRequest rt apiKey req st))) ''Content-Type''
              = Some ''image/svg+xml'' \<and>
            map_of (resp_headers (fst (handleRequest rt apiKey req st))) ''Cache-Control''
              = Some ''s-maxage=1'' \<and>
            resp_body (fst (handleRequest rt apiKey req st)) =
              Some (generateNowPlayingSvg (numberToString rt) (dateNow rt) (Some d)
                      (fst (buildSvgConfig rt st (req_params req))))) \<and>
         (\<not> kvRead rt \<longrightarrow>
            resp_status (fst (handleRequest rt apiKey req st)) = 500 \<and>
            map_of (resp_headers (fst (handleRequest rt apiKey req st))) ''Content-Type''
              = Some ''application/json'' \<and>
            resp_body (fst (handleRequest rt apiKey req st)) = Some internalErrorBody) \<and>
         (kvRead rt \<and> kv st = Some v \<and>
          renderStored rt v (fst (buildSvgConfig rt st (req_params req))) = None \<longrightarrow>
            resp_status (fst (handleRequest rt apiKey req st)) = 500 \<and>
            map_of (resp_headers (fst (handleRequest rt apiKey req st))) ''Content-Type''
              = Some ''application/json'' \<and>
            resp_body (fst (handleRequest rt apiKey req st)) = Some internalErrorBody) \<and>
         (kvRead rt \<and> kv st = Some v \<and>
          renderStored rt v (fst (buildSvgConfig rt st (req_params req))) = Some svg \<longrightarrow>
            resp_status (fst (handleRequest rt apiKey req st)) = 200 \<and>
            map_of (resp_headers (fst (handleRequest rt apiKey req st))) ''Content-Type''
              = Some ''image/svg+xml'' \<and>
            map_of (resp_headers (fst (handleRequest rt apiKey req st))) ''Cache-Control''
              = Some ''s-maxage=1'' \<and>
            resp_body (fst (handleRequest rt apiKey req st)) = Some svg)"
proof -
  let ?config = "fst (buildSvgConfig rt st (req_params req))"
  have unset: "getNowPlaying rt st = Some JNull \<and>
      renderStored rt JNull ?config =
        Some (generateNowPlayingSvg (numberToString rt) (dateNow rt) None ?config)"
    if "kvRead rt" "kv st = None \<or> kv st = Some JNull"
    using that by (auto simp: getNowPlaying_def renderStored_def)
  have held: "getNowPlaying rt st = Some v" if "kvRead rt" "kv st = Some v"
    using that by (simp add: getNowPlaying_def)
  have silent: "getNowPlaying rt st = None" if "\<not> kvRead rt"
    using that by (simp add: getNowPlaying_def)
  show ?thesis
  proof (intro conjI impI)
    assume a: "kvRead rt \<and> (kv st = None \<or> kv st = Some JNull)"
    then have "kvRead rt" and "kv st = None \<or> kv st = Some JNull"
      by simp_all
    note n = unset [OF this]
    have g: "getNowPlaying rt st = Some JNull"
      using n by simp
    have r: "renderStored rt JNull ?config =
        Some (generateNowPlayingSvg (numberToString rt) (dateNow rt) None ?config)"
      using n by simp
    note ok = svg_answer [OF assms g r, where apiKey = apiKey]
    from ok show "resp_status (fst (handleRequest rt apiKey req st)) = 200" by blast
    from ok show "map_of (resp_headers (fst (handleRequest rt apiKey req st))) ''Content-Type''
        = Some ''image/svg+xml''" by blast
    from ok show "map_of (resp_headers (fst (handleRequest rt apiKey req st))) ''Cache-Control''
        = Some ''s-maxage=1''" by blast
    from ok show "resp_body (fst (handleRequest rt apiKey req st)) =
        Some (generateNowPlayingSvg (numberToString rt) (dateNow rt) None ?config)" by blast
  next
    assume a: "kvRead rt \<and> kv st = Some v \<and> decodeSnapshot (dateNow rt) v = Some d"
    then have g: "getNowPlaying rt st = Some v"
      using held by simp
    from a have r: "renderStored rt v ?config =
        Some (generateNowPlayingSvg (numberToString rt) (dateNow rt) (Some d) ?config)"
      using decodeSnapshot_render by simp
    note ok = svg_answer [OF assms g r, where apiKey = apiKey]
    from ok show "resp_status (fst (handleRequest rt apiKey req st)) = 200" by blast
    from ok show "map_of (resp_headers (fst (handleRequest rt apiKey req st))) ''Content-Type''
        = Some ''image/svg+xml''" by blast
    from ok show "map_of (resp_headers (fst (handleRequest rt apiKey req st))) ''Cache-Control''
        = Some ''s-maxage=1''" by blast
    from ok show "resp_body (fst (handleRequest rt apiKey req st)) =
        Some (generateNowPlayingSvg (numberToString rt) (dateNow rt) (Some d) ?config)" by blast
  next
    assume "\<not> kvRead rt"
    then have "getNowPlaying rt st = None \<or>
        (getNowPlaying rt st = Some v \<and> renderStored rt v ?config = None)"
      using silent by blast
    note ko = svg_failure [OF assms this, where apiKey = apiKey]
    from ko show "resp_status (fst (handleRequest rt apiKey req st)) = 500" by blast
    from ko show "map_of (resp_headers (fst (handleRequest rt apiKey req st))) ''Content-Type''
        = Some ''application/json''" by blast
    from ko show "resp_body (fst (handleRequest rt apiKey req st)) = Some internalErrorBody"
      by blast
  next
    assume a: "kvRead rt \<and> kv st = Some v \<and> renderStored rt v ?config = None"
    then have "getNowPlaying rt st = None \<or>
        (getNowPlaying rt st = Some v \<and> renderStored rt v ?config = None)"
      using held by simp
    note ko = svg_failure [OF assms this, where apiKey = apiKey]
    from ko show "resp_status (fst (handleRequest rt apiKey req st)) = 500" by blast
    from ko show "map_of (resp_headers (fst (handleRequest rt apiKey req st))) ''Content-Type''
        = Some ''application/json''" by blast
    from ko show "resp_body (fst (handleRequest rt apiKey req st)) = Some internalErrorBody"
      by blast
  next
    assume a: "kvRead rt \<and> kv st = Some v \<and> renderStored rt v ?config = Some svg"
    then have g: "getNowPlaying rt st = Some v"
      using held by simp
    from a have r: "renderStored rt v ?config = Some svg"
      by simp
    note ok = svg_answer [OF assms g r, where apiKey = apiKey]
    from ok show "resp_status (fst (handleRequest rt apiKey req st)) = 200" by blast
    from ok show "map_of (resp_headers (fst (handleRequest rt apiKey req st))) ''Content-Type''
        = Some ''image/svg+xml''" by blast
    from ok show "map_of (resp_headers (fst (handleRequest rt apiKey req st))) ''Cache-Control''
        = Some ''s-maxage=1''" by blast
    from ok show "resp_body (fst (handleRequest rt apiKey req st)) = Some svg" by blast
  qed
qed

text \<open>The sample servers.\<close>

lemma getRequest_fields:
  "req_method (getRequest p) = ''GET''" "req_path (getRequest p) = p" "req_params (getRequest p) = []"
  by (simp_all add: getRequest_def)

lemma lateRuntime_fields:
  "jsonParse lateRuntime = demoParse" "kvWrite lateRuntime v" "kvRead lateRuntime"
  "dateNow lateRuntime = 1700000000000" "readTextFile lateRuntime p = None"
  by (simp_all add: lateRuntime_def demoRuntime_def)

lemma decode_samples:
  "decodeSnapshot 2000 demoSnapshotJson = Some demoSnapshot"
  "decodeStored now staleObject =
     Some \<lparr> snapshot = \<lparr> title = [], artist = [], album = [], albumArtist = [],
                          trackNumber = [], duration = 0, progress = 0, status = [],
                          artBase64 = None, colors = None, updatedAt = 0 \<rparr>,
            lacksTitle = True, lacksArtist = True, lacksAlbum = True \<rparr>"
  by (simp_all add: decodeSnapshot_def decodeStored_def demoSnapshotJson_def staleObject_def
      textField_def numberField_def artField_def colorsField_def jfield_def demoSnapshot_def
      demoPalette_def stringOf_def numberOf_def orElseOpt_def orElse_def)

text \<open>Without a theme and without parameters the title line is shown.\<close>

lemma plain_deployment_shows_title:
  assumes "readTextFile rt ''./themes/default.json'' = None" and "themeCache st ''default'' = None"
  shows "showTitle (fst (buildSvgConfig rt st []))"
proof -
  have theme: "loadTheme rt st ''default'' = (None, st)"
    using assms by (simp add: loadTheme_def themeNamePattern_default)
  obtain titleFont st2 where f1:
    "loadFontData rt st (fontTitleFile (override None defaultSvgConfig)) = (titleFont, st2)"
    by (cases "loadFontData rt st (fontTitleFile (override None defaultSvgConfig))") simp
  obtain bodyFont st3 where f2:
    "loadFontData rt st2 (fontBodyFile (override None defaultSvgConfig)) = (bodyFont, st3)"
    by (cases "loadFontData rt st2 (fontBodyFile (override None defaultSvgConfig))") simp
  show ?thesis
    by (simp add: buildSvgConfig_no_params [OF theme f1 f2] override_def defaultSvgConfig_def)
qed

lemma stale_object_throws:
  "renderStored lateRuntime staleObject
     (fst (buildSvgConfig lateRuntime (emptyServer\<lparr> kv := Some staleObject \<rparr>) [])) = None"
proof -
  have shown: "showTitle (fst (buildSvgConfig lateRuntime (emptyServer\<lparr> kv := Some staleObject \<rparr>) []))"
    by (rule plain_deployment_shows_title) (simp_all add: lateRuntime_fields emptyServer_def)
  have "isStale 1700000000000 (Some \<lparr> title = [], artist = [], album = [], albumArtist = [],
      trackNumber = [], duration = 0, progress = 0, status = [], artBase64 = None,
      colors = None, updatedAt = 0 \<rparr>)"
    by (simp add: isStale_def)
  then show ?thesis
    using shown decode_samples(2) [of 1700000000000]
    unfolding staleObject_def
    by (simp add: renderStored_def lateRuntime_fields hasTrack_def)
qed

theorem now_playing_svg_route_witness:
  "resp_status (fst (handleRequest demoRuntime ''devkey'' (getRequest ''/now-playing.svg'')
      emptyServer)) = 200 \<and>
   map_of (resp_headers (fst (handleRequest demoRuntime ''devkey''
      (getRequest ''/now-playing.svg'') emptyServer))) ''Content-Type'' = Some ''image/svg+xml'' \<and>
   map_of (resp_headers (fst (handleRequest demoRuntime ''devkey''
      (getRequest ''/now-playing.svg'') emptyServer))) ''Cache-Control'' = Some ''s-maxage=1'' \<and>
   resp_status (fst (handleRequest demoRuntime ''devkey'' (getRequest ''/now-playing.svg'')
      playingServer)) = 200 \<and>
   resp_body (fst (handleRequest demoRuntime ''devkey'' (getRequest ''/now-playing.svg'')
      playingServer)) =
     Some (generateNowPlayingSvg demoStr 2000 (Some demoSnapshot)
             (fst (buildSvgConfig demoRuntime playingServer []))) \<and>
   resp_status (fst (handleRequest offlineRuntime ''devkey'' (getRequest ''/now-playing.svg'')
      playingServer)) = 500 \<and>
   resp_status (fst (handleRequest lateRuntime ''devkey'' (getRequest ''/now-playing.svg'')
      (emptyServer\<lparr> kv := Some staleObject \<rparr>))) = 500"
proof -
  note m = getRequest_fields(1,2) [of "''/now-playing.svg''"]
  note r1 = now_playing_svg_route [OF m, where rt = demoRuntime and st = emptyServer
      and apiKey = "''devkey''", THEN conjunct1, rule_format]
  note r2 = now_playing_svg_route [OF m, where rt = demoRuntime and st = playingServer
      and apiKey = "''devkey''" and v = demoSnapshotJson and d = demoSnapshot,
      THEN conjunct2, THEN conjunct1, rule_format]
  note r3 = now_playing_svg_route [OF m, where rt = offlineRuntime and st = playingServer
      and apiKey = "''devkey''", THEN conjunct2, THEN conjunct2, THEN conjunct1, rule_format]
  note r4 = now_playing_svg_route [OF m, where rt = lateRuntime
      and st = "emptyServer\<lparr> kv := Some staleObject \<rparr>" and apiKey = "''devkey''"
      and v = staleObject, THEN conjunct2, THEN conjunct2, THEN conjunct2, THEN conjunct1,
      rule_format]
  have a1: "kvRead demoRuntime \<and> (kv emptyServer = None \<or> kv emptyServer = Some JNull)"
    by (simp add: demoRuntime_fields emptyServer_def)
  have a2: "kvRead demoRuntime \<and> kv playingServer = Some demoSnapshotJson \<and>
      decodeSnapshot (dateNow demoRuntime) demoSnapshotJson = Some demoSnapshot"
    by (simp add: demoRuntime_fields playingServer_def decode_samples)
  have a3: "\<not> kvRead offlineRuntime"
    by (simp add: offlineRuntime_def)
  have a4: "kvRead lateRuntime \<and> kv (emptyServer\<lparr> kv := Some staleObject \<rparr>) = Some staleObject \<and>
      renderStored lateRuntime staleObject
        (fst (buildSvgConfig lateRuntime (emptyServer\<lparr> kv := Some staleObject \<rparr>)
           (req_params (getRequest ''/now-playing.svg'')))) = None"
    by (simp add: lateRuntime_fields getRequest_fields stale_object_throws)
  from r1 [OF a1] r2 [OF a2] r3 [OF a3] r4 [OF a4] show ?thesis
    by (simp add: demoRuntime_fields getRequest_fields)
qed

text \<open>
  Claim C9, as the specification states it, fails: the server has no route \<open>/widget.svg\<close>,
  and a \<open>GET\<close> of that path is answered 404 with the body \<open>{"error":"Not found"}\<close>. At the
  path of the card, \<open>/now-playing.svg\<close>, the answer is 500 when the store does not answer
  the read, and when the renderer throws on the stored value: the body \<open>{"updatedAt":0}\<close> is
  accepted by \<open>POST /api/now-playing\<close> and stored as it is; read in the year 2023 it is stale,
  so the card has a track, and the title line, which the default configuration shows,
  cannot be rendered from an object without a title.
\<close>

theorem widget_svg_counterexample:
  \<open>resp_status (fst (handleRequest demoRuntime ''devkey'' (getRequest ''/widget.svg'')
      emptyServer)) = 404 \<and>
   resp_body (fst (handleRequest demoRuntime ''devkey'' (getRequest ''/widget.svg'')
      emptyServer)) = Some notFoundBody \<and>
   map_of (resp_headers (fst (handleRequest demoRuntime ''devkey'' (getRequest ''/widget.svg'')
      emptyServer))) ''Content-Type'' = Some ''application/json'' \<and>
   resp_status (fst (handleRequest offlineRuntime ''devkey'' (getRequest ''/now-playing.svg'')
      playingServer)) = 500 \<and>
   resp_status (fst (handleRequest lateRuntime ''devkey''
      (postRequest (Some ''Bearer devkey'') ''{"updatedAt":0}'') emptyServer)) = 200 \<and>
   kv (snd (handleRequest lateRuntime ''devkey''
      (postRequest (Some ''Bearer devkey'') ''{"updatedAt":0}'') emptyServer)) = Some staleObject \<and>
   resp_status (fst (handleRequest lateRuntime ''devkey'' (getRequest ''/now-playing.svg'')
      (snd (handleRequest lateRuntime ''devkey''
         (postRequest (Some ''Bearer devkey'') ''{"updatedAt":0}'') emptyServer)))) = 500 \<and>
   resp_body (fst (handleRequest lateRuntime ''devkey'' (getRequest ''/now-playing.svg'')
      (snd (handleRequest lateRuntime ''devkey''
         (postRequest (Some ''Bearer devkey'') ''{"updatedAt":0}'') emptyServer)))) =
     Some internalErrorBody\<close>
proof -
  have missing: "handleRequest demoRuntime ''devkey'' (getRequest ''/widget.svg'') emptyServer =
      (withCors (jsonResponse 404 notFoundBody), emptyServer)"
    by (simp add: handleRequest_def Let_def getRequest_def)
  have offline: "getNowPlaying offlineRuntime playingServer = None"
    by (simp add: getNowPlaying_def offlineRuntime_def)
  have posted: \<open>handleRequest lateRuntime ''devkey''
      (postRequest (Some ''Bearer devkey'') ''{"updatedAt":0}'') emptyServer =
      (withCors (jsonResponse 200 successBody), emptyServer\<lparr> kv := Some staleObject \<rparr>)\<close>
    by (simp add: post_route [OF postRequest_fields(1,2)] handlePostNowPlaying_def devkey_accepted
        postRequest_fields lateRuntime_fields demoParse_def storeNowPlaying_def)
  have stale: "getNowPlaying lateRuntime (emptyServer\<lparr> kv := Some staleObject \<rparr>) = Some staleObject \<and>
      renderStored lateRuntime staleObject
        (fst (buildSvgConfig lateRuntime (emptyServer\<lparr> kv := Some staleObject \<rparr>)
           (req_params (getRequest ''/now-playing.svg'')))) = None"
    by (simp add: getNowPlaying_def lateRuntime_fields getRequest_fields stale_object_throws)
  note m = getRequest_fields(1,2) [of "''/now-playing.svg''"]
  from svg_failure [OF m disjI1 [OF offline], where apiKey = "''devkey''"]
    svg_failure [OF m disjI2 [OF stale], where apiKey = "''devkey''"]
  show ?thesis
    by (simp add: missing posted jsonResponse_def withCors_def corsHeaders_def)
qed

end
